theory Spec2Isabelle
  imports Complex_Main "HOL-Library.Sublist" "HOL-Library.Log_Nat"
begin

section \<open>Errors and checked access\<close>

text \<open>
  The collector has no exception handler: an exception thrown inside a sampler leaves the
  sampler, the tick and the collection thread. Undefined behaviour of the C++ (a vector or
  string read past its end, a signed overflow) is made a result of the same type, so that
  every such path of the source is a branch of the model. The language does not fix what
  the compiled program does from such a point on, and neither does the model: a result
  \<open>Inl e\<close> with an \<open>e\<close> that is not \<open>thrown\<close> only says that the source has left
  defined behaviour (or, for \<open>Unsupported\<close>, the part of \<open>std::stof\<close> that is modelled).
\<close>

datatype error =
    InvalidArgument   \<comment> \<open>\<open>std::invalid_argument\<close> thrown by \<open>std::stoll\<close> or \<open>std::stof\<close>\<close>
  | OutOfRange        \<comment> \<open>\<open>std::out_of_range\<close> thrown by \<open>std::stoll\<close> or \<open>std::stof\<close>\<close>
  | OutOfBounds       \<comment> \<open>\<open>operator[]\<close> past the end of a vector (undefined behaviour)\<close>
  | EmptyPopBack      \<comment> \<open>\<open>pop_back\<close> on an empty string (undefined behaviour)\<close>
  | SignedOverflow    \<comment> \<open>overflow of an \<open>int64_t\<close> subtraction (undefined behaviour)\<close>
  | Unsupported       \<comment> \<open>a token outside the domain of \<open>stof_integer\<close> below\<close>

definition thrown :: "error \<Rightarrow> bool" where
  "thrown e = (e = InvalidArgument \<or> e = OutOfRange)"

definition bindE :: "error + 'a \<Rightarrow> ('a \<Rightarrow> error + 'b) \<Rightarrow> error + 'b" where
  "bindE m f = (case m of Inl e \<Rightarrow> Inl e | Inr x \<Rightarrow> f x)"

definition elem_at :: "'a list \<Rightarrow> nat \<Rightarrow> error + 'a" where
  "elem_at xs i = (if i < length xs then Inr (xs ! i) else Inl OutOfBounds)"

fun foldE :: "('s \<Rightarrow> 'x \<Rightarrow> error + 's) \<Rightarrow> 's \<Rightarrow> 'x list \<Rightarrow> error + 's" where
  "foldE step s [] = Inr s"
| "foldE step s (x # xs) = bindE (step s x) (\<lambda>s'. foldE step s' xs)"

section \<open>Counter source reader (\<open>utils/read_file.cpp\<close>)\<close>

definition is_space :: "char \<Rightarrow> bool" where
  "is_space c = (let k = (of_char c :: nat) in k = 32 \<or> (9 \<le> k \<and> k \<le> 13))"

text \<open>
  The inner loop of \<open>ReadFile::ReadLine\<close>: \<open>while (!line_ss.eof()) { line_ss >> word;
  args->push_back(word); }\<close>. The extraction skips blanks and reads up to the next blank;
  the stream's end-of-file bit is set exactly when the extraction reaches the end of the
  line, so a line that ends in blanks yields one more, empty, word.
\<close>

function split_words :: "string \<Rightarrow> string list" where
  "split_words s =
     (let s1 = dropWhile is_space s;
          word = takeWhile (\<lambda>c. \<not> is_space c) s1;
          rest = dropWhile (\<lambda>c. \<not> is_space c) s1
      in if rest = [] then [word] else word # split_words rest)"
  by pat_completeness auto

lemma dropWhile_nonspace_shorter:
  assumes "dropWhile (\<lambda>c. \<not> is_space c) (dropWhile is_space s) \<noteq> []"
  shows "length (dropWhile (\<lambda>c. \<not> is_space c) (dropWhile is_space s)) < length s"
proof (cases "dropWhile is_space s")
  case Nil
  with assms show ?thesis by simp
next
  case (Cons c cs)
  then have "\<not> is_space c"
    by (metis hd_dropWhile list.sel(1) list.distinct(1))
  then have "length (dropWhile (\<lambda>c. \<not> is_space c) (dropWhile is_space s)) \<le> length cs"
    using Cons by (simp add: length_dropWhile_le)
  also have "length cs < length (dropWhile is_space s)"
    using Cons by simp
  also have "\<dots> \<le> length s"
    by (rule length_dropWhile_le)
  finally show ?thesis .
qed

termination split_words
  by (relation "measure length") (auto intro: dropWhile_nonspace_shorter)

declare split_words.simps [simp del]

text \<open>
  \<open>std::getline\<close> followed by the test \<open>ifs_.eof() || line.empty()\<close>. The end-of-file
  bit is set when no newline ends the line, so a last line without a newline is dropped.
  A source that cannot be opened fails every read and behaves as the empty text.
\<close>

definition newline :: char where
  "newline = CHR 0x0A"

definition ReadLine :: "string \<Rightarrow> (string list \<times> string) option" where
  "ReadLine s =
     (let line = takeWhile (\<lambda>c. c \<noteq> newline) s
      in case dropWhile (\<lambda>c. c \<noteq> newline) s of
           [] \<Rightarrow> None
         | _ # rest \<Rightarrow> if line = [] then None else Some (split_words line, rest))"

text \<open>The records a sampler sees: \<open>while (file.ReadLine(&args)) { ... args.clear(); }\<close>.\<close>

function read_all :: "string \<Rightarrow> string list list" where
  "read_all s = (case ReadLine s of None \<Rightarrow> [] | Some (args, rest) \<Rightarrow> args # read_all rest)"
  by pat_completeness auto

lemma ReadLine_shorter: "ReadLine s = Some (args, rest) \<Longrightarrow> length rest < length s"
proof -
  assume a: "ReadLine s = Some (args, rest)"
  then obtain c where "dropWhile (\<lambda>c. c \<noteq> newline) s = c # rest"
    by (auto simp: ReadLine_def Let_def split: list.splits if_splits)
  then have "length rest < length (dropWhile (\<lambda>c. c \<noteq> newline) s)"
    by simp
  also have "\<dots> \<le> length s"
    by (rule length_dropWhile_le)
  finally show ?thesis .
qed

termination read_all
  by (relation "measure length") (auto intro: ReadLine_shorter)

declare read_all.simps [simp del]


section \<open>Library functions used by the samplers\<close>

text \<open>
  \<open>std::stoll\<close> in base ten: blanks are skipped, a sign is optional, the longest run of
  digits is converted. No digit at all throws \<open>std::invalid_argument\<close>, a value that does
  not fit \<open>long long\<close> throws \<open>std::out_of_range\<close>.
\<close>

definition is_digit :: "char \<Rightarrow> bool" where
  "is_digit c = (let k = (of_char c :: nat) in 48 \<le> k \<and> k \<le> 57)"

definition digit_val :: "char \<Rightarrow> int" where
  "digit_val c = int (of_char c) - 48"

definition decimal :: "string \<Rightarrow> int" where
  "decimal ds = foldl (\<lambda>a c. 10 * a + digit_val c) 0 ds"

definition INT64_MIN :: int where
  "INT64_MIN = - (2 ^ 63)"

definition INT64_MAX :: int where
  "INT64_MAX = 2 ^ 63 - 1"

definition stoll :: "string \<Rightarrow> error + int" where
  "stoll str =
     (let s0 = dropWhile is_space str;
          neg = (s0 \<noteq> [] \<and> hd s0 = CHR ''-'');
          s1 = (if s0 \<noteq> [] \<and> (hd s0 = CHR ''-'' \<or> hd s0 = CHR ''+'') then tl s0 else s0);
          ds = takeWhile is_digit s1
      in if ds = [] then Inl InvalidArgument
         else let v = (if neg then - decimal ds else decimal ds)
              in if INT64_MIN \<le> v \<and> v \<le> INT64_MAX then Inr v else Inl OutOfRange)"

text \<open>Subtraction of two \<open>int64_t\<close> values; an overflow is undefined behaviour.\<close>

definition sub64 :: "int \<Rightarrow> int \<Rightarrow> error + int" where
  "sub64 a b = (if INT64_MIN \<le> a - b \<and> a - b \<le> INT64_MAX then Inr (a - b) else Inl SignedOverflow)"

text \<open>\<open>std::string::find(char)\<close>: the position of the first occurrence, \<open>None\<close> for \<open>npos\<close>.\<close>

fun find_char :: "char \<Rightarrow> string \<Rightarrow> nat option" where
  "find_char c [] = None"
| "find_char c (x # xs) = (if x = c then Some 0 else map_option Suc (find_char c xs))"

text \<open>\<open>s.find(pat) != std::string::npos\<close>.\<close>

fun contains :: "string \<Rightarrow> string \<Rightarrow> bool" where
  "contains [] pat = (pat = [])"
| "contains (c # cs) pat = (prefix pat (c # cs) \<or> contains cs pat)"

definition pop_back :: "string \<Rightarrow> error + string" where
  "pop_back s = (if s = [] then Inl EmptyPopBack else Inr (butlast s))"

text \<open>
  A \<open>std::chrono::steady_clock::time_point\<close> is a count of nanoseconds.
  \<open>Utils::SteadyTimeSecond\<close> converts the difference to a \<open>duration<double>\<close> in seconds.
  The rates of the network and software-interrupt samplers and the gauges of the memory
  sampler are modelled as real numbers: the rounding of their arithmetic is not part of
  the model. The CPU-time sampler keeps cumulative counters in \<open>float\<close> variables, where
  the rounding changes the result; its arithmetic is modelled with the rounding (next
  section).
\<close>

type_synonym time_point = int

definition SteadyTimeSecond :: "time_point \<Rightarrow> time_point \<Rightarrow> real" where
  "SteadyTimeSecond t1 t2 = real_of_int (t1 - t2) / 1000000000"

section \<open>Binary floating point\<close>

text \<open>
  The arithmetic of \<open>float\<close> (binary32) and \<open>double\<close> (binary64) in the default rounding
  mode: the exact result is rounded to the nearest number with \<open>p\<close> significant bits, a tie
  to the one whose last bit is even; below the exponent \<open>emin\<close> the spacing stays that of
  \<open>emin\<close> (subnormal numbers). The exponent has no upper bound here: the largest finite
  number and the infinities are not modelled, which makes no difference as long as the
  numbers stay below \<open>2 ^ 128\<close> (\<open>float\<close>) and \<open>2 ^ 1024\<close> (\<open>double\<close>), as sums and
  differences of counters that fit 64 bits do. Each operation is evaluated in the type of
  its operands (\<open>FLT_EVAL_METHOD\<close> 0).
\<close>

definition round_half_even :: "real \<Rightarrow> int" where
  "round_half_even x =
     (let f = \<lfloor>x\<rfloor>; d = x - real_of_int f
      in if d < 1 / 2 then f else if 1 / 2 < d then f + 1 else if even f then f else f + 1)"

text \<open>For \<open>0 < x\<close>: the exponent \<open>e\<close> with \<open>2 ^ e \<le> x < 2 ^ (e + 1)\<close>.\<close>

definition binade :: "real \<Rightarrow> int" where
  "binade x = (if 1 \<le> x then bitlen \<lfloor>x\<rfloor> - 1 else - bitlen (\<lceil>1 / x\<rceil> - 1))"

definition round_to :: "nat \<Rightarrow> int \<Rightarrow> real \<Rightarrow> real" where
  "round_to p emin x =
     (if x = 0 then 0
      else let e = max (binade \<bar>x\<bar>) emin; u = 2 powi (e - (int p - 1))
           in sgn x * (real_of_int (round_half_even (\<bar>x\<bar> / u)) * u))"

definition to_float :: "real \<Rightarrow> real" where
  "to_float x = round_to 24 (- 126) x"

definition to_double :: "real \<Rightarrow> real" where
  "to_double x = round_to 53 (- 1022) x"

text \<open>\<open>a + b1 + ... + bn\<close> on \<open>float\<close> operands: the sum is rounded after every addition.\<close>

fun float_sum :: "real \<Rightarrow> real list \<Rightarrow> real" where
  "float_sum a [] = a"
| "float_sum a (b # bs) = float_sum (to_float (a + b)) bs"

text \<open>
  \<open>float percent = (a - b) / total_time_diff * 100.00\<close> on \<open>float\<close> operands: the difference and
  the quotient are rounded to \<open>float\<close>, the product with the \<open>double\<close> constant is
  formed in \<open>double\<close>, and the initialisation rounds it to \<open>float\<close>.
\<close>

definition float_percent :: "real \<Rightarrow> real \<Rightarrow> real \<Rightarrow> real" where
  "float_percent a b total_time_diff =
     to_float (to_double (to_float (to_float (a - b) / total_time_diff) * 100))"

section \<open>The snapshot message\<close>

text \<open>
  \<open>monitor::proto::MonitorInfo\<close> and its sub-messages, with the fields the collector sets
  and the display reads. A new message holds empty strings and zeros; an optional
  sub-message is absent until \<open>mutable_...\<close> creates it; a repeated field starts empty.
  Field names carry a prefix per message (\<open>pnet_\<close>, \<open>pirq_\<close>, \<open>pstat_\<close>, \<open>pmem_\<close>,
  \<open>pload_\<close>, \<open>mi_\<close>), the fields of the samplers' own structs a prefix per struct
  (\<open>net_\<close>, \<open>irq_\<close>, \<open>stat_\<close>, \<open>mem_\<close>). The members \<open>net_info_\<close>,
  \<open>cpu_softirqs_\<close>, \<open>cpu_stat_map_\<close> and \<open>monitor_infos_\<close> are the variables
  \<open>net_map\<close>, \<open>softirqs_map\<close>, \<open>stat_map\<close> and \<open>stored\<close>.
\<close>

record proto_CpuLoad =
  pload_avg_1 :: real
  pload_avg_3 :: real
  pload_avg_15 :: real

record proto_CpuStat =
  pstat_cpu_name :: string
  pstat_cpu_percent :: real
  pstat_usr_percent :: real
  pstat_system_percent :: real
  pstat_nice_percent :: real
  pstat_idle_percent :: real
  pstat_io_wait_percent :: real
  pstat_irq_percent :: real
  pstat_soft_irq_percent :: real

record proto_SoftIrq =
  pirq_cpu :: string
  pirq_hi :: real
  pirq_timer :: real
  pirq_net_tx :: real
  pirq_net_rx :: real
  pirq_block :: real
  pirq_irq_poll :: real
  pirq_tasklet :: real
  pirq_sched :: real
  pirq_hrtimer :: real
  pirq_rcu :: real

text \<open>
  The division by \<open>mem_info.total\<close> in the memory sampler has no guard; a zero divisor
  gives a NaN or an infinity in the source, \<open>None\<close> here.
\<close>

record proto_MemInfo =
  pmem_used_percent :: "real option"
  pmem_total :: real
  pmem_free :: real
  pmem_avail :: real
  pmem_buffers :: real
  pmem_cached :: real
  pmem_swap_cached :: real
  pmem_active :: real
  pmem_inactive :: real
  pmem_active_anon :: real
  pmem_inactive_anon :: real
  pmem_active_file :: real
  pmem_inactive_file :: real
  pmem_dirty :: real
  pmem_writeback :: real
  pmem_anon_pages :: real
  pmem_mapped :: real
  pmem_kreclaimable :: real
  pmem_sreclaimable :: real
  pmem_sunreclaim :: real

record proto_NetInfo =
  pnet_name :: string
  pnet_send_rate :: real
  pnet_rcv_rate :: real
  pnet_send_packets_rate :: real
  pnet_rcv_packets_rate :: real

record MonitorInfo =
  mi_name :: string
  mi_cpu_load :: "proto_CpuLoad option"
  mi_cpu_stat :: "proto_CpuStat list"
  mi_soft_irq :: "proto_SoftIrq list"
  mi_mem_info :: "proto_MemInfo option"
  mi_net_info :: "proto_NetInfo list"

definition MonitorInfo_default :: MonitorInfo where
  "MonitorInfo_default =
     \<lparr>mi_name = [], mi_cpu_load = None, mi_cpu_stat = [], mi_soft_irq = [],
      mi_mem_info = None, mi_net_info = []\<rparr>"

section \<open>Network sampler (\<open>monitor/net_monitor.cpp\<close>)\<close>

record NetInfo =
  net_name :: string
  net_rcv_bytes :: int
  net_rcv_packets :: int
  net_err_in :: int
  net_drop_in :: int
  net_snd_bytes :: int
  net_snd_packets :: int
  net_err_out :: int
  net_drop_out :: int
  net_timepoint :: time_point

type_synonym net_history = "string \<rightharpoonup> NetInfo"

text \<open>
  \<open>name.find(':') == name.size() - 1\<close> on \<open>size_t\<close>: for the empty string the right side
  wraps around to \<open>npos\<close>, which is what \<open>find\<close> returns there.
\<close>

definition colon_is_last :: "string \<Rightarrow> bool" where
  "colon_is_last name =
     (case find_char (CHR '':'') name of None \<Rightarrow> name = [] | Some i \<Rightarrow> Suc i = length name)"

definition net_is_interface :: "string list \<Rightarrow> bool" where
  "net_is_interface net_datas =
     (case net_datas of [] \<Rightarrow> False
      | name # _ \<Rightarrow> colon_is_last name \<and> 10 \<le> length net_datas)"

text \<open>The reads of the accepted record, in the order of the source.\<close>

definition net_parse :: "time_point \<Rightarrow> string \<Rightarrow> string list \<Rightarrow> error + NetInfo" where
  "net_parse now name net_datas =
     bindE (bindE (elem_at net_datas 1) stoll) (\<lambda>rcv_bytes.
     bindE (bindE (elem_at net_datas 2) stoll) (\<lambda>rcv_packets.
     bindE (bindE (elem_at net_datas 3) stoll) (\<lambda>err_in.
     bindE (bindE (elem_at net_datas 4) stoll) (\<lambda>drop_in.
     bindE (bindE (elem_at net_datas 9) stoll) (\<lambda>snd_bytes.
     bindE (bindE (elem_at net_datas 10) stoll) (\<lambda>snd_packets.
     bindE (bindE (elem_at net_datas 11) stoll) (\<lambda>err_out.
     bindE (bindE (elem_at net_datas 12) stoll) (\<lambda>drop_out.
     Inr \<lparr>net_name = name, net_rcv_bytes = rcv_bytes, net_rcv_packets = rcv_packets,
          net_err_in = err_in, net_drop_in = drop_in, net_snd_bytes = snd_bytes,
          net_snd_packets = snd_packets, net_err_out = err_out, net_drop_out = drop_out,
          net_timepoint = now\<rparr>))))))))"

text \<open>The message of one interface, built under \<open>if (period > 0)\<close>.\<close>

definition net_rates :: "NetInfo \<Rightarrow> NetInfo \<Rightarrow> real \<Rightarrow> error + proto_NetInfo" where
  "net_rates net_info old period =
     bindE (sub64 (net_snd_bytes net_info) (net_snd_bytes old)) (\<lambda>d_snd_bytes.
     bindE (sub64 (net_rcv_bytes net_info) (net_rcv_bytes old)) (\<lambda>d_rcv_bytes.
     bindE (sub64 (net_snd_packets net_info) (net_snd_packets old)) (\<lambda>d_snd_packets.
     bindE (sub64 (net_rcv_packets net_info) (net_rcv_packets old)) (\<lambda>d_rcv_packets.
     Inr \<lparr>pnet_name = net_name net_info,
          pnet_send_rate = real_of_int d_snd_bytes / 1024 / period,
          pnet_rcv_rate = real_of_int d_rcv_bytes / 1024 / period,
          pnet_send_packets_rate = real_of_int d_snd_packets / period,
          pnet_rcv_packets_rate = real_of_int d_rcv_packets / period\<rparr>))))"

text \<open>
  The body of the \<open>while\<close> loop for one record; \<open>now\<close> is what
  \<open>std::chrono::steady_clock::now()\<close> returns while this record is processed.
\<close>

definition net_line ::
  "net_history \<times> MonitorInfo \<Rightarrow> time_point \<times> string list \<Rightarrow> error + (net_history \<times> MonitorInfo)"
where
  "net_line st x =
     (case st of (net_map, monitor_info) \<Rightarrow>
      case x of (now, net_datas) \<Rightarrow>
        bindE (elem_at net_datas 0) (\<lambda>name.
          if colon_is_last name \<and> 10 \<le> length net_datas then
            bindE (pop_back name) (\<lambda>name.
            bindE (net_parse now name net_datas) (\<lambda>net_info.
            bindE (case net_map name of
                     None \<Rightarrow> Inr monitor_info
                   | Some old \<Rightarrow>
                       (let period = SteadyTimeSecond (net_timepoint net_info) (net_timepoint old)
                        in if period > 0
                           then bindE (net_rates net_info old period) (\<lambda>one_net_msg.
                                  Inr (monitor_info\<lparr>mi_net_info :=
                                         mi_net_info monitor_info @ [one_net_msg]\<rparr>))
                           else Inr monitor_info))
              (\<lambda>monitor_info'. Inr (net_map(name \<mapsto> net_info), monitor_info'))))
          else Inr (net_map, monitor_info)))"

text \<open>
  The readings of the steady clock during one call: \<open>clock k\<close> is the reading while the
  \<open>k\<close>-th record of the source is processed.
\<close>

definition stamp :: "(nat \<Rightarrow> time_point) \<Rightarrow> 'a list \<Rightarrow> (time_point \<times> 'a) list" where
  "stamp clock xs = zip (map clock [0..<length xs]) xs"

definition net_loop ::
  "net_history \<times> MonitorInfo \<Rightarrow> (time_point \<times> string list) list
     \<Rightarrow> error + (net_history \<times> MonitorInfo)"
where
  "net_loop st records = foldE net_line st records"

definition NetMonitor_UpdateOnce ::
  "(nat \<Rightarrow> time_point) \<Rightarrow> string \<Rightarrow> net_history \<times> MonitorInfo
     \<Rightarrow> error + (net_history \<times> MonitorInfo)"
where
  "NetMonitor_UpdateOnce clock proc_net_dev st = net_loop st (stamp clock (read_all proc_net_dev))"


section \<open>Software-interrupt sampler (\<open>monitor/cpu_softirq_monitor.cpp\<close>)\<close>

record SoftIrq =
  irq_cpu_name :: string
  irq_hi :: int
  irq_timer :: int
  irq_net_tx :: int
  irq_net_rx :: int
  irq_block :: int
  irq_irq_poll :: int
  irq_tasklet :: int
  irq_sched :: int
  irq_hrtimer :: int
  irq_rcu :: int
  irq_timepoint :: time_point

type_synonym irq_history = "string \<rightharpoonup> SoftIrq"

text \<open>\<open>std::stoll(softirq[row][col])\<close>.\<close>

definition softirq_cell :: "string list list \<Rightarrow> nat \<Rightarrow> nat \<Rightarrow> error + int" where
  "softirq_cell softirq row col =
     bindE (bindE (elem_at softirq row) (\<lambda>line. elem_at line col)) stoll"

text \<open>The sample of column \<open>i\<close>: the name from the first row, the counters from rows 1 to 10.\<close>

definition softirq_parse :: "time_point \<Rightarrow> string list list \<Rightarrow> nat \<Rightarrow> error + SoftIrq" where
  "softirq_parse now softirq i =
     bindE (bindE (elem_at softirq 0) (\<lambda>header. elem_at header i)) (\<lambda>name.
     bindE (softirq_cell softirq 1 (i + 1)) (\<lambda>hi.
     bindE (softirq_cell softirq 2 (i + 1)) (\<lambda>timer.
     bindE (softirq_cell softirq 3 (i + 1)) (\<lambda>net_tx.
     bindE (softirq_cell softirq 4 (i + 1)) (\<lambda>net_rx.
     bindE (softirq_cell softirq 5 (i + 1)) (\<lambda>block.
     bindE (softirq_cell softirq 6 (i + 1)) (\<lambda>irq_poll.
     bindE (softirq_cell softirq 7 (i + 1)) (\<lambda>tasklet.
     bindE (softirq_cell softirq 8 (i + 1)) (\<lambda>sched.
     bindE (softirq_cell softirq 9 (i + 1)) (\<lambda>hrtimer.
     bindE (softirq_cell softirq 10 (i + 1)) (\<lambda>rcu.
     Inr \<lparr>irq_cpu_name = name, irq_hi = hi, irq_timer = timer, irq_net_tx = net_tx, irq_net_rx = net_rx, irq_block = block, irq_irq_poll = irq_poll, irq_tasklet = tasklet, irq_sched = sched, irq_hrtimer = hrtimer, irq_rcu = rcu,
          irq_timepoint = now\<rparr>)))))))))))"

definition softirq_rates :: "SoftIrq \<Rightarrow> SoftIrq \<Rightarrow> real \<Rightarrow> error + proto_SoftIrq" where
  "softirq_rates info old period =
     bindE (sub64 (irq_hi info) (irq_hi old)) (\<lambda>d_hi.
     bindE (sub64 (irq_timer info) (irq_timer old)) (\<lambda>d_timer.
     bindE (sub64 (irq_net_tx info) (irq_net_tx old)) (\<lambda>d_net_tx.
     bindE (sub64 (irq_net_rx info) (irq_net_rx old)) (\<lambda>d_net_rx.
     bindE (sub64 (irq_block info) (irq_block old)) (\<lambda>d_block.
     bindE (sub64 (irq_irq_poll info) (irq_irq_poll old)) (\<lambda>d_irq_poll.
     bindE (sub64 (irq_tasklet info) (irq_tasklet old)) (\<lambda>d_tasklet.
     bindE (sub64 (irq_sched info) (irq_sched old)) (\<lambda>d_sched.
     bindE (sub64 (irq_hrtimer info) (irq_hrtimer old)) (\<lambda>d_hrtimer.
     bindE (sub64 (irq_rcu info) (irq_rcu old)) (\<lambda>d_rcu.
     Inr \<lparr>pirq_cpu = irq_cpu_name info,
          pirq_hi = real_of_int d_hi / period,
          pirq_timer = real_of_int d_timer / period,
          pirq_net_tx = real_of_int d_net_tx / period,
          pirq_net_rx = real_of_int d_net_rx / period,
          pirq_block = real_of_int d_block / period,
          pirq_irq_poll = real_of_int d_irq_poll / period,
          pirq_tasklet = real_of_int d_tasklet / period,
          pirq_sched = real_of_int d_sched / period,
          pirq_hrtimer = real_of_int d_hrtimer / period,
          pirq_rcu = real_of_int d_rcu / period\<rparr>))))))))))"

text \<open>The body of the \<open>for\<close> loop for column \<open>i\<close>; \<open>clock i\<close> is the steady clock's reading there.\<close>

definition softirq_column ::
  "(nat \<Rightarrow> time_point) \<Rightarrow> string list list \<Rightarrow> irq_history \<times> MonitorInfo \<Rightarrow> nat
     \<Rightarrow> error + (irq_history \<times> MonitorInfo)"
where
  "softirq_column clock softirq st i =
     (case st of (softirqs_map, monitor_info) \<Rightarrow>
        bindE (softirq_parse (clock i) softirq i) (\<lambda>info.
        bindE (case softirqs_map (irq_cpu_name info) of
                 None \<Rightarrow> Inr monitor_info
               | Some old \<Rightarrow>
                   (let period = SteadyTimeSecond (irq_timepoint info) (irq_timepoint old)
                    in if period > 0
                       then bindE (softirq_rates info old period) (\<lambda>one_softirq_msg.
                              Inr (monitor_info\<lparr>mi_soft_irq :=
                                     mi_soft_irq monitor_info @ [one_softirq_msg]\<rparr>))
                       else Inr monitor_info))
          (\<lambda>monitor_info'. Inr (softirqs_map(irq_cpu_name info \<mapsto> info), monitor_info'))))"

text \<open>
  \<open>for (int i = 0; i < softirq[0].size() - 1; i++)\<close>. For an empty first row the bound
  wraps around and the first iteration reads \<open>softirq[0][0]\<close> past the end.
\<close>

definition softirq_loop ::
  "(nat \<Rightarrow> time_point) \<Rightarrow> string list list \<Rightarrow> irq_history \<times> MonitorInfo
     \<Rightarrow> error + (irq_history \<times> MonitorInfo)"
where
  "softirq_loop clock softirq st =
     bindE (elem_at softirq 0) (\<lambda>header.
       if header = [] then Inl OutOfBounds
       else foldE (softirq_column clock softirq) st [0..<length header - 1])"

definition CpuSoftIrqMonitor_UpdateOnce ::
  "(nat \<Rightarrow> time_point) \<Rightarrow> string \<Rightarrow> irq_history \<times> MonitorInfo
     \<Rightarrow> error + (irq_history \<times> MonitorInfo)"
where
  "CpuSoftIrqMonitor_UpdateOnce clock proc_softirqs st =
     softirq_loop clock (read_all proc_softirqs) st"

section \<open>CPU-time sampler (\<open>monitor/cpu_stat_monitor.cpp\<close>)\<close>

text \<open>
  \<open>std::stof\<close> is a parameter of the model: \<open>stof s\<close> is \<open>Inl\<close> the exception when the
  call throws and \<open>Inr\<close> the value otherwise, a \<open>float\<close>. The fields of the struct are
  \<open>float\<close> variables and hold what \<open>stof\<close> returns. The infinities and NaN, which
  \<open>std::stof\<close> returns for tokens such as \<open>inf\<close> and \<open>nan\<close>, are not values of the model.
\<close>

record CpuStat =
  stat_cpu_name :: string
  stat_user :: real
  stat_system :: real
  stat_idle :: real
  stat_nice :: real
  stat_io_wait :: real
  stat_irq :: real
  stat_soft_irq :: real
  stat_steal :: real
  stat_guest :: real
  stat_guest_nice :: real

type_synonym stat_history = "string \<rightharpoonup> CpuStat"

definition cpu_parse :: "(string \<Rightarrow> error + real) \<Rightarrow> string list \<Rightarrow> error + CpuStat" where
  "cpu_parse stof cpu_stat_list =
     bindE (elem_at cpu_stat_list 0) (\<lambda>cpu_name.
     bindE (bindE (elem_at cpu_stat_list 1) stof) (\<lambda>user.
     bindE (bindE (elem_at cpu_stat_list 2) stof) (\<lambda>nice.
     bindE (bindE (elem_at cpu_stat_list 3) stof) (\<lambda>system.
     bindE (bindE (elem_at cpu_stat_list 4) stof) (\<lambda>idle.
     bindE (bindE (elem_at cpu_stat_list 5) stof) (\<lambda>io_wait.
     bindE (bindE (elem_at cpu_stat_list 6) stof) (\<lambda>irq.
     bindE (bindE (elem_at cpu_stat_list 7) stof) (\<lambda>soft_irq.
     bindE (bindE (elem_at cpu_stat_list 8) stof) (\<lambda>steal.
     bindE (bindE (elem_at cpu_stat_list 9) stof) (\<lambda>guest.
     bindE (bindE (elem_at cpu_stat_list 10) stof) (\<lambda>guest_nice.
     Inr \<lparr>stat_cpu_name = cpu_name, stat_user = user, stat_system = system, stat_idle = idle, stat_nice = nice, stat_io_wait = io_wait, stat_irq = irq, stat_soft_irq = soft_irq, stat_steal = steal, stat_guest = guest, stat_guest_nice = guest_nice\<rparr>)))))))))))"

definition proto_CpuStat_default :: proto_CpuStat where
  "proto_CpuStat_default =
     \<lparr>pstat_cpu_name = [], pstat_cpu_percent = 0, pstat_usr_percent = 0,
      pstat_system_percent = 0, pstat_nice_percent = 0, pstat_idle_percent = 0,
      pstat_io_wait_percent = 0, pstat_irq_percent = 0, pstat_soft_irq_percent = 0\<rparr>"

text \<open>
  The block under \<open>if (it != cpu_stat_map_.end())\<close>: \<open>add_cpu_stat()\<close> appends a new
  message first, the fields are set under \<open>if (total_time_diff > 0)\<close>.
\<close>

definition cpu_message :: "CpuStat \<Rightarrow> CpuStat \<Rightarrow> proto_CpuStat" where
  "cpu_message cpu_stat old =
     (let cpu_stat_msg = proto_CpuStat_default;
          new_cpu_total_time = float_sum (stat_user cpu_stat)
            [stat_system cpu_stat, stat_idle cpu_stat, stat_nice cpu_stat, stat_io_wait cpu_stat,
             stat_irq cpu_stat, stat_soft_irq cpu_stat, stat_steal cpu_stat];
          old_cpu_total_time = float_sum (stat_user old)
            [stat_system old, stat_idle old, stat_nice old, stat_io_wait old, stat_irq old,
             stat_soft_irq old, stat_steal old];
          new_cpu_busy_time = float_sum (stat_user cpu_stat)
            [stat_system cpu_stat, stat_nice cpu_stat, stat_irq cpu_stat, stat_soft_irq cpu_stat,
             stat_steal cpu_stat];
          old_cpu_busy_time = float_sum (stat_user old)
            [stat_system old, stat_nice old, stat_irq old, stat_soft_irq old, stat_steal old];
          total_time_diff = to_float (new_cpu_total_time - old_cpu_total_time)
      in if total_time_diff > 0 then
           \<lparr>pstat_cpu_name = stat_cpu_name cpu_stat,
            pstat_cpu_percent = float_percent new_cpu_busy_time old_cpu_busy_time total_time_diff,
            pstat_usr_percent = float_percent (stat_user cpu_stat) (stat_user old) total_time_diff,
            pstat_system_percent =
              float_percent (stat_system cpu_stat) (stat_system old) total_time_diff,
            pstat_nice_percent = float_percent (stat_nice cpu_stat) (stat_nice old) total_time_diff,
            pstat_idle_percent = float_percent (stat_idle cpu_stat) (stat_idle old) total_time_diff,
            pstat_io_wait_percent =
              float_percent (stat_io_wait cpu_stat) (stat_io_wait old) total_time_diff,
            pstat_irq_percent = float_percent (stat_irq cpu_stat) (stat_irq old) total_time_diff,
            pstat_soft_irq_percent =
              float_percent (stat_soft_irq cpu_stat) (stat_soft_irq old) total_time_diff\<rparr>
         else cpu_stat_msg)"

definition cpu_line ::
  "(string \<Rightarrow> error + real) \<Rightarrow> stat_history \<times> MonitorInfo \<Rightarrow> string list
     \<Rightarrow> error + (stat_history \<times> MonitorInfo)"
where
  "cpu_line stof st cpu_stat_list =
     (case st of (stat_map, monitor_info) \<Rightarrow>
        bindE (elem_at cpu_stat_list 0) (\<lambda>first.
          if contains first ''cpu'' then
            bindE (cpu_parse stof cpu_stat_list) (\<lambda>cpu_stat.
              (let monitor_info' =
                     (case stat_map (stat_cpu_name cpu_stat) of
                        None \<Rightarrow> monitor_info
                      | Some old \<Rightarrow>
                          monitor_info\<lparr>mi_cpu_stat :=
                            mi_cpu_stat monitor_info @ [cpu_message cpu_stat old]\<rparr>)
               in Inr (stat_map(stat_cpu_name cpu_stat \<mapsto> cpu_stat), monitor_info')))
          else Inr (stat_map, monitor_info)))"

definition cpu_loop ::
  "(string \<Rightarrow> error + real) \<Rightarrow> stat_history \<times> MonitorInfo \<Rightarrow> string list list
     \<Rightarrow> error + (stat_history \<times> MonitorInfo)"
where
  "cpu_loop stof st records = foldE (cpu_line stof) st records"

definition CpuStatMonitor_UpdateOnce ::
  "(string \<Rightarrow> error + real) \<Rightarrow> string \<Rightarrow> stat_history \<times> MonitorInfo
     \<Rightarrow> error + (stat_history \<times> MonitorInfo)"
where
  "CpuStatMonitor_UpdateOnce stof proc_stat st = cpu_loop stof st (read_all proc_stat)"

section \<open>Memory sampler (\<open>monitor/mem_monitor.cpp\<close>)\<close>

record MenInfo =
  mem_total :: int
  mem_free :: int
  mem_avail :: int
  mem_buffers :: int
  mem_cached :: int
  mem_swap_cached :: int
  mem_active :: int
  mem_in_active :: int
  mem_active_anon :: int
  mem_inactive_anon :: int
  mem_active_file :: int
  mem_inactive_file :: int
  mem_dirty :: int
  mem_writeback :: int
  mem_anon_pages :: int
  mem_mapped :: int
  mem_kReclaimable :: int
  mem_sReclaimable :: int
  mem_sUnreclaim :: int

definition KBToGB :: real where
  "KBToGB = 1000 * 1000"

definition mem_line :: "MenInfo \<Rightarrow> string list \<Rightarrow> error + MenInfo" where
  "mem_line mem_info mem_datas =
     bindE (elem_at mem_datas 0) (\<lambda>label.
       if label = ''MemTotal:''
         then bindE (bindE (elem_at mem_datas 1) stoll) (\<lambda>v. Inr (mem_info\<lparr>mem_total := v\<rparr>))
       else if label = ''MemFree:''
         then bindE (bindE (elem_at mem_datas 1) stoll) (\<lambda>v. Inr (mem_info\<lparr>mem_free := v\<rparr>))
       else if label = ''MemAvailable:''
         then bindE (bindE (elem_at mem_datas 1) stoll) (\<lambda>v. Inr (mem_info\<lparr>mem_avail := v\<rparr>))
       else if label = ''Buffers:''
         then bindE (bindE (elem_at mem_datas 1) stoll) (\<lambda>v. Inr (mem_info\<lparr>mem_buffers := v\<rparr>))
       else if label = ''Cached:''
         then bindE (bindE (elem_at mem_datas 1) stoll) (\<lambda>v. Inr (mem_info\<lparr>mem_cached := v\<rparr>))
       else if label = ''SwapCached:''
         then bindE (bindE (elem_at mem_datas 1) stoll) (\<lambda>v. Inr (mem_info\<lparr>mem_swap_cached := v\<rparr>))
       else if label = ''Active:''
         then bindE (bindE (elem_at mem_datas 1) stoll) (\<lambda>v. Inr (mem_info\<lparr>mem_active := v\<rparr>))
       else if label = ''Inactive:''
         then bindE (bindE (elem_at mem_datas 1) stoll) (\<lambda>v. Inr (mem_info\<lparr>mem_in_active := v\<rparr>))
       else if label = ''Active(anon):''
         then bindE (bindE (elem_at mem_datas 1) stoll) (\<lambda>v. Inr (mem_info\<lparr>mem_active_anon := v\<rparr>))
       else if label = ''Inactive(anon):''
         then bindE (bindE (elem_at mem_datas 1) stoll) (\<lambda>v. Inr (mem_info\<lparr>mem_inactive_anon := v\<rparr>))
       else if label = ''Active(file):''
         then bindE (bindE (elem_at mem_datas 1) stoll) (\<lambda>v. Inr (mem_info\<lparr>mem_active_file := v\<rparr>))
       else if label = ''Inactive(file):''
         then bindE (bindE (elem_at mem_datas 1) stoll) (\<lambda>v. Inr (mem_info\<lparr>mem_inactive_file := v\<rparr>))
       else if label = ''Dirty:''
         then bindE (bindE (elem_at mem_datas 1) stoll) (\<lambda>v. Inr (mem_info\<lparr>mem_dirty := v\<rparr>))
       else if label = ''Writeback:''
         then bindE (bindE (elem_at mem_datas 1) stoll) (\<lambda>v. Inr (mem_info\<lparr>mem_writeback := v\<rparr>))
       else if label = ''AnonPages:''
         then bindE (bindE (elem_at mem_datas 1) stoll) (\<lambda>v. Inr (mem_info\<lparr>mem_anon_pages := v\<rparr>))
       else if label = ''Mapped:''
         then bindE (bindE (elem_at mem_datas 1) stoll) (\<lambda>v. Inr (mem_info\<lparr>mem_mapped := v\<rparr>))
       else if label = ''KReclaimable:''
         then bindE (bindE (elem_at mem_datas 1) stoll) (\<lambda>v. Inr (mem_info\<lparr>mem_kReclaimable := v\<rparr>))
       else if label = ''SReclaimable:''
         then bindE (bindE (elem_at mem_datas 1) stoll) (\<lambda>v. Inr (mem_info\<lparr>mem_sReclaimable := v\<rparr>))
       else if label = ''SUnreclaim:''
         then bindE (bindE (elem_at mem_datas 1) stoll) (\<lambda>v. Inr (mem_info\<lparr>mem_sUnreclaim := v\<rparr>))
       else Inr mem_info)"

definition mem_message :: "MenInfo \<Rightarrow> error + proto_MemInfo" where
  "mem_message mem_info =
     bindE (sub64 (mem_total mem_info) (mem_avail mem_info)) (\<lambda>used.
     Inr \<lparr>pmem_used_percent =
            (if mem_total mem_info = 0 then None
             else Some (real_of_int used * 1.0 / real_of_int (mem_total mem_info) * 100.0)),
          pmem_total = real_of_int (mem_total mem_info) / KBToGB,
          pmem_free = real_of_int (mem_free mem_info) / KBToGB,
          pmem_avail = real_of_int (mem_avail mem_info) / KBToGB,
          pmem_buffers = real_of_int (mem_buffers mem_info) / KBToGB,
          pmem_cached = real_of_int (mem_cached mem_info) / KBToGB,
          pmem_swap_cached = real_of_int (mem_swap_cached mem_info) / KBToGB,
          pmem_active = real_of_int (mem_active mem_info) / KBToGB,
          pmem_inactive = real_of_int (mem_in_active mem_info) / KBToGB,
          pmem_active_anon = real_of_int (mem_active_anon mem_info) / KBToGB,
          pmem_inactive_anon = real_of_int (mem_inactive_anon mem_info) / KBToGB,
          pmem_active_file = real_of_int (mem_active_file mem_info) / KBToGB,
          pmem_inactive_file = real_of_int (mem_inactive_file mem_info) / KBToGB,
          pmem_dirty = real_of_int (mem_dirty mem_info) / KBToGB,
          pmem_writeback = real_of_int (mem_writeback mem_info) / KBToGB,
          pmem_anon_pages = real_of_int (mem_anon_pages mem_info) / KBToGB,
          pmem_mapped = real_of_int (mem_mapped mem_info) / KBToGB,
          pmem_kreclaimable = real_of_int (mem_kReclaimable mem_info) / KBToGB,
          pmem_sreclaimable = real_of_int (mem_sReclaimable mem_info) / KBToGB,
          pmem_sunreclaim = real_of_int (mem_sUnreclaim mem_info) / KBToGB\<rparr>)"

text \<open>
  \<open>struct MenInfo mem_info;\<close> is not initialised: \<open>uninit\<close> stands for what the struct
  holds before the loop.
\<close>

definition MemMonitor_UpdateOnce :: "MenInfo \<Rightarrow> string \<Rightarrow> MonitorInfo \<Rightarrow> error + MonitorInfo" where
  "MemMonitor_UpdateOnce uninit proc_meminfo monitor_info =
     bindE (foldE mem_line uninit (read_all proc_meminfo)) (\<lambda>mem_info.
     bindE (mem_message mem_info) (\<lambda>mem_detail.
     Inr (monitor_info\<lparr>mi_mem_info := Some mem_detail\<rparr>)))"

section \<open>Load sampler (\<open>monitor/cpu_load_monitor.cpp\<close>)\<close>

definition CpuLoadMonitor_UpdateOnce ::
  "(string \<Rightarrow> error + real) \<Rightarrow> string \<Rightarrow> MonitorInfo \<Rightarrow> error + MonitorInfo"
where
  "CpuLoadMonitor_UpdateOnce stof proc_loadavg monitor_info =
     (let cpu_load = (case ReadLine proc_loadavg of None \<Rightarrow> [] | Some (args, _) \<Rightarrow> args)
      in bindE (bindE (elem_at cpu_load 0) stof) (\<lambda>load_avg_1.
         bindE (bindE (elem_at cpu_load 1) stof) (\<lambda>load_avg_3.
         bindE (bindE (elem_at cpu_load 2) stof) (\<lambda>load_avg_15.
         Inr (monitor_info\<lparr>mi_cpu_load :=
                Some \<lparr>pload_avg_1 = load_avg_1, pload_avg_3 = load_avg_3,
                      pload_avg_15 = load_avg_15\<rparr>\<rparr>)))))"

section \<open>Collection loop (\<open>main.cpp\<close>)\<close>

record collectors =
  cpu_softirqs :: irq_history
  cpu_stat_map :: stat_history
  net_infos :: net_history

text \<open>What one tick reads: the five sources, the steady clock and the unset memory struct.\<close>

record tick_input =
  src_softirqs :: string
  src_loadavg :: string
  src_stat :: string
  src_meminfo :: string
  src_net_dev :: string
  softirq_clock :: "nat \<Rightarrow> time_point"
  net_clock :: "nat \<Rightarrow> time_point"
  mem_uninit :: MenInfo

text \<open>
  One pass of the \<open>while (true)\<close> body up to the call of the RPC client: the samplers run
  in the order in which \<open>main\<close> registers them, with no handler around the calls.
\<close>

definition tick ::
  "(string \<Rightarrow> error + real) \<Rightarrow> string option \<Rightarrow> collectors \<Rightarrow> tick_input
     \<Rightarrow> error + (collectors \<times> MonitorInfo)"
where
  "tick stof user runners inp =
     (let monitor_info =
            MonitorInfo_default\<lparr>mi_name := (case user of Some name \<Rightarrow> name | None \<Rightarrow> ''unknown_host'')\<rparr>
      in bindE (CpuSoftIrqMonitor_UpdateOnce (softirq_clock inp) (src_softirqs inp)
                  (cpu_softirqs runners, monitor_info)) (\<lambda>(irqs, monitor_info).
         bindE (CpuLoadMonitor_UpdateOnce stof (src_loadavg inp) monitor_info) (\<lambda>monitor_info.
         bindE (CpuStatMonitor_UpdateOnce stof (src_stat inp)
                  (cpu_stat_map runners, monitor_info)) (\<lambda>(stats, monitor_info).
         bindE (MemMonitor_UpdateOnce (mem_uninit inp) (src_meminfo inp) monitor_info) (\<lambda>monitor_info.
         bindE (NetMonitor_UpdateOnce (net_clock inp) (src_net_dev inp)
                  (net_infos runners, monitor_info)) (\<lambda>(nets, monitor_info).
         Inr (\<lparr>cpu_softirqs = irqs, cpu_stat_map = stats, net_infos = nets\<rparr>, monitor_info)))))))"

text \<open>
  The loop over a finite run of ticks. The first component lists the snapshots handed to
  \<open>rpc_client_.SetMonitorInfo\<close>. An exception that leaves the thread's function ends the
  process (\<open>std::terminate\<close>): the outcome \<open>Terminated\<close>. Where a tick ends with an
  error that is not \<open>thrown\<close>, the model follows the collector no further and says
  nothing about that tick or the later ones: the outcome \<open>Undefined\<close>, after the snapshots
  of the earlier ticks.
\<close>

datatype outcome = Running collectors | Terminated error | Undefined error

fun collection_loop ::
  "(string \<Rightarrow> error + real) \<Rightarrow> string option \<Rightarrow> collectors \<Rightarrow> tick_input list
     \<Rightarrow> MonitorInfo list \<times> outcome"
where
  "collection_loop stof user runners [] = ([], Running runners)"
| "collection_loop stof user runners (inp # inps) =
     (case tick stof user runners inp of
        Inl e \<Rightarrow> ([], if thrown e then Terminated e else Undefined e)
      | Inr (runners', monitor_info) \<Rightarrow>
          (case collection_loop stof user runners' inps of
             (sent, out) \<Rightarrow> (monitor_info # sent, out)))"

section \<open>Snapshot distribution cache (\<open>rpc_manager/server/rpc_manager.h\<close>)\<close>

datatype request = SetRequest MonitorInfo | GetRequest

datatype response = Empty | Info MonitorInfo

definition SetMonitorInfo :: "MonitorInfo \<Rightarrow> MonitorInfo \<Rightarrow> MonitorInfo \<times> response" where
  "SetMonitorInfo stored request =
     (let stored = MonitorInfo_default;
          stored = request
      in (stored, Empty))"

definition GetMonitorInfo :: "MonitorInfo \<Rightarrow> MonitorInfo \<times> response" where
  "GetMonitorInfo stored = (stored, Info stored)"

text \<open>The server handling a sequence of calls; the member starts as a new message.\<close>

fun serve :: "MonitorInfo \<Rightarrow> request list \<Rightarrow> MonitorInfo \<times> response list" where
  "serve stored [] = (stored, [])"
| "serve stored (rq # rqs) =
     (case (case rq of SetRequest request \<Rightarrow> SetMonitorInfo stored request
                     | GetRequest \<Rightarrow> GetMonitorInfo stored) of
        (stored', resp) \<Rightarrow>
          (case serve stored' rqs of (final, resps) \<Rightarrow> (final, resp # resps)))"

definition GrpcManagerImpl :: "request list \<Rightarrow> MonitorInfo \<times> response list" where
  "GrpcManagerImpl rqs = serve MonitorInfo_default rqs"


section \<open>Entities of a source\<close>

text \<open>
  The entity a record stands for: the key under which the sampler stores its sample, or
  none when the sampler skips the record.
\<close>

definition net_entity :: "string list \<Rightarrow> string option" where
  "net_entity net_datas =
     (if net_is_interface net_datas then Some (butlast (hd net_datas)) else None)"

definition cpu_entity :: "string list \<Rightarrow> string option" where
  "cpu_entity cpu_stat_list =
     (case cpu_stat_list of [] \<Rightarrow> None
      | first # _ \<Rightarrow> if contains first ''cpu'' then Some first else None)"

text \<open>
  The network filter in the words of the specification: the first token ends with a colon
  and the record has at least ten fields.
\<close>

definition spec_net_is_interface :: "string list \<Rightarrow> bool" where
  "spec_net_is_interface net_datas =
     (net_datas \<noteq> [] \<and> hd net_datas \<noteq> [] \<and> last (hd net_datas) = CHR '':''
      \<and> 10 \<le> length net_datas)"

text \<open>
  An instance of the parameter \<open>stof\<close> for the examples. Its domain is the tokens made of
  decimal digits only, as the CPU-time and load sources of the examples have them: there
  \<open>std::stof\<close> returns the \<open>float\<close> nearest to the number, and throws
  \<open>std::out_of_range\<close> when the number is beyond the largest \<open>float\<close>. On every other
  token the instance answers \<open>Unsupported\<close> and says nothing about \<open>std::stof\<close>.
\<close>

definition stof_integer :: "string \<Rightarrow> error + real" where
  "stof_integer s =
     (if s \<noteq> [] \<and> list_all is_digit s then
        (if to_float (real_of_int (decimal s)) < 2 ^ 128
         then Inr (to_float (real_of_int (decimal s))) else Inl OutOfRange)
      else Inl Unsupported)"

text \<open>
  The percentage of the specification for the component at token \<open>i\<close> of a CPU record, from
  the record of the earlier and of the current reading: the delta of the component over
  the sum of the deltas of the eight components user, nice, system, idle, iowait, irq,
  softirq and steal (tokens 1 to 8), times 100, in exact arithmetic on the counters.
\<close>

definition spec_cpu_percent :: "string list \<Rightarrow> string list \<Rightarrow> nat \<Rightarrow> real" where
  "spec_cpu_percent old new i =
     (let delta = (\<lambda>j. decimal (new ! j) - decimal (old ! j))
      in real_of_int (delta i) / real_of_int (sum_list (map delta [1..<9])) * 100)"

text \<open>
  The gauges of the memory record for the specification: the label of the source, the
  field of the sampler's struct that holds the parsed value, and the field of the message.
\<close>

definition mem_table :: "(string \<times> (MenInfo \<Rightarrow> int) \<times> (proto_MemInfo \<Rightarrow> real)) list" where
  "mem_table =
     [(''MemTotal:'', mem_total, pmem_total),
      (''MemFree:'', mem_free, pmem_free),
      (''MemAvailable:'', mem_avail, pmem_avail),
      (''Buffers:'', mem_buffers, pmem_buffers),
      (''Cached:'', mem_cached, pmem_cached),
      (''SwapCached:'', mem_swap_cached, pmem_swap_cached),
      (''Active:'', mem_active, pmem_active),
      (''Inactive:'', mem_in_active, pmem_inactive),
      (''Active(anon):'', mem_active_anon, pmem_active_anon),
      (''Inactive(anon):'', mem_inactive_anon, pmem_inactive_anon),
      (''Active(file):'', mem_active_file, pmem_active_file),
      (''Inactive(file):'', mem_inactive_file, pmem_inactive_file),
      (''Dirty:'', mem_dirty, pmem_dirty),
      (''Writeback:'', mem_writeback, pmem_writeback),
      (''AnonPages:'', mem_anon_pages, pmem_anon_pages),
      (''Mapped:'', mem_mapped, pmem_mapped),
      (''KReclaimable:'', mem_kReclaimable, pmem_kreclaimable),
      (''SReclaimable:'', mem_sReclaimable, pmem_sreclaimable),
      (''SUnreclaim:'', mem_sUnreclaim, pmem_sunreclaim)]"

text \<open>The record of a label that counts: the last one of the source with that label.\<close>

definition mem_record :: "string \<Rightarrow> string list list \<Rightarrow> string list option" where
  "mem_record label records =
     (case filter (\<lambda>r. r \<noteq> [] \<and> hd r = label) records of [] \<Rightarrow> None | rs \<Rightarrow> Some (last rs))"

text \<open>
  The header row of the software-interrupt source as the kernel prints it: leading
  blanks, then every CPU name followed by at least one blank (\<open>"CPU%-8d"\<close>).
\<close>

definition padded_header :: "nat \<Rightarrow> (string \<times> nat) list \<Rightarrow> string" where
  "padded_header lead cols =
     replicate lead (CHR '' '')
     @ concat (map (\<lambda>(name, pad). name @ replicate (Suc pad) (CHR '' '')) cols)"

section \<open>Example sources\<close>

text \<open>
  Two consecutive readings of each differential source, in the kernel's layout, for the
  examples: the second reading is taken five seconds after the first.
\<close>

definition example_net_dev_1 :: string where
  "example_net_dev_1 =
     '' face |bytes packets errs drop|bytes packets errs drop'' @ [newline]
     @ ''  eth0: 2048 100 0 0 0 0 0 0 0 7 0 0 0 0 0 0'' @ [newline]"

definition example_net_dev_2 :: string where
  "example_net_dev_2 =
     '' face |bytes packets errs drop|bytes packets errs drop'' @ [newline]
     @ ''  eth0: 7168 1100 0 0 0 0 0 0 1024000 57 0 0 0 0 0 0'' @ [newline]"

definition example_softirqs_1 :: string where
  "example_softirqs_1 =
     ''      CPU0  CPU1  '' @ [newline]
     @ ''       HI:   100     3'' @ [newline]
     @ ''    TIMER:  5000  4000'' @ [newline]
     @ ''   NET_TX:    10     0'' @ [newline]
     @ ''   NET_RX:   700    20'' @ [newline]
     @ ''    BLOCK:     0     0'' @ [newline]
     @ '' IRQ_POLL:     0     0'' @ [newline]
     @ ''  TASKLET:    36     1'' @ [newline]
     @ ''    SCHED:  9000  8000'' @ [newline]
     @ ''  HRTIMER:     0     0'' @ [newline]
     @ ''      RCU:  4000  3500'' @ [newline]"

definition example_softirqs_2 :: string where
  "example_softirqs_2 =
     ''      CPU0  CPU1  '' @ [newline]
     @ ''       HI:  1100     3'' @ [newline]
     @ ''    TIMER:  5500  4400'' @ [newline]
     @ ''   NET_TX:    10     0'' @ [newline]
     @ ''   NET_RX:  1200    20'' @ [newline]
     @ ''    BLOCK:     0     0'' @ [newline]
     @ '' IRQ_POLL:     0     0'' @ [newline]
     @ ''  TASKLET:    41     1'' @ [newline]
     @ ''    SCHED:  9250  8100'' @ [newline]
     @ ''  HRTIMER:     0     0'' @ [newline]
     @ ''      RCU:  4100  3600'' @ [newline]"

definition example_stat_1 :: string where
  "example_stat_1 =
     ''cpu0 100 0 50 800 10 0 5 0 0 0'' @ [newline]
     @ ''intr 12345 0 9'' @ [newline]"

definition example_stat_2 :: string where
  "example_stat_2 =
     ''cpu0 400 0 150 1400 10 0 5 0 0 0'' @ [newline]
     @ ''intr 12399 0 9'' @ [newline]"

definition example_clock_1 :: "nat \<Rightarrow> time_point" where
  "example_clock_1 k = 1000000000"

definition example_clock_2 :: "nat \<Rightarrow> time_point" where
  "example_clock_2 k = 6000000000"

text \<open>The first reading of the software-interrupt source with a header row that ends at the last name.\<close>

definition example_softirqs_unpadded :: string where
  "example_softirqs_unpadded =
     ''CPU0 CPU1'' @ [newline]
     @ ''       HI:   100     3'' @ [newline]
     @ ''    TIMER:  5000  4000'' @ [newline]
     @ ''   NET_TX:    10     0'' @ [newline]
     @ ''   NET_RX:   700    20'' @ [newline]
     @ ''    BLOCK:     0     0'' @ [newline]
     @ '' IRQ_POLL:     0     0'' @ [newline]
     @ ''  TASKLET:    36     1'' @ [newline]
     @ ''    SCHED:  9000  8000'' @ [newline]
     @ ''  HRTIMER:     0     0'' @ [newline]
     @ ''      RCU:  4000  3500'' @ [newline]"

text \<open>The samples and the messages these readings give.\<close>

definition example_net_1 :: NetInfo where
  "example_net_1 =
     \<lparr>net_name = ''eth0'', net_rcv_bytes = 2048, net_rcv_packets = 100, net_err_in = 0,
      net_drop_in = 0, net_snd_bytes = 0, net_snd_packets = 7, net_err_out = 0,
      net_drop_out = 0, net_timepoint = 1000000000\<rparr>"

definition example_net_2 :: NetInfo where
  "example_net_2 =
     \<lparr>net_name = ''eth0'', net_rcv_bytes = 7168, net_rcv_packets = 1100, net_err_in = 0,
      net_drop_in = 0, net_snd_bytes = 1024000, net_snd_packets = 57, net_err_out = 0,
      net_drop_out = 0, net_timepoint = 6000000000\<rparr>"

definition example_irq_cpu0_1 :: SoftIrq where
  "example_irq_cpu0_1 =
     \<lparr>irq_cpu_name = ''CPU0'', irq_hi = 100, irq_timer = 5000, irq_net_tx = 10, irq_net_rx = 700, irq_block = 0, irq_irq_poll = 0, irq_tasklet = 36, irq_sched = 9000, irq_hrtimer = 0, irq_rcu = 4000, irq_timepoint = 1000000000\<rparr>"

definition example_irq_cpu1_1 :: SoftIrq where
  "example_irq_cpu1_1 =
     \<lparr>irq_cpu_name = ''CPU1'', irq_hi = 3, irq_timer = 4000, irq_net_tx = 0, irq_net_rx = 20, irq_block = 0, irq_irq_poll = 0, irq_tasklet = 1, irq_sched = 8000, irq_hrtimer = 0, irq_rcu = 3500, irq_timepoint = 1000000000\<rparr>"

definition example_irq_cpu0_2 :: SoftIrq where
  "example_irq_cpu0_2 =
     \<lparr>irq_cpu_name = ''CPU0'', irq_hi = 1100, irq_timer = 5500, irq_net_tx = 10, irq_net_rx = 1200, irq_block = 0, irq_irq_poll = 0, irq_tasklet = 41, irq_sched = 9250, irq_hrtimer = 0, irq_rcu = 4100, irq_timepoint = 6000000000\<rparr>"

definition example_irq_cpu1_2 :: SoftIrq where
  "example_irq_cpu1_2 =
     \<lparr>irq_cpu_name = ''CPU1'', irq_hi = 3, irq_timer = 4400, irq_net_tx = 0, irq_net_rx = 20, irq_block = 0, irq_irq_poll = 0, irq_tasklet = 1, irq_sched = 8100, irq_hrtimer = 0, irq_rcu = 3600, irq_timepoint = 6000000000\<rparr>"

definition example_irq_msg_cpu0 :: proto_SoftIrq where
  "example_irq_msg_cpu0 =
     \<lparr>pirq_cpu = ''CPU0'', pirq_hi = 200, pirq_timer = 100, pirq_net_tx = 0, pirq_net_rx = 100, pirq_block = 0, pirq_irq_poll = 0, pirq_tasklet = 1, pirq_sched = 50, pirq_hrtimer = 0, pirq_rcu = 20\<rparr>"

definition example_irq_msg_cpu1 :: proto_SoftIrq where
  "example_irq_msg_cpu1 =
     \<lparr>pirq_cpu = ''CPU1'', pirq_hi = 0, pirq_timer = 80, pirq_net_tx = 0, pirq_net_rx = 0, pirq_block = 0, pirq_irq_poll = 0, pirq_tasklet = 0, pirq_sched = 20, pirq_hrtimer = 0, pirq_rcu = 20\<rparr>"

definition example_stat_cpu0_1 :: CpuStat where
  "example_stat_cpu0_1 =
     \<lparr>stat_cpu_name = ''cpu0'', stat_user = 100, stat_system = 50, stat_idle = 800,
      stat_nice = 0, stat_io_wait = 10, stat_irq = 0, stat_soft_irq = 5, stat_steal = 0,
      stat_guest = 0, stat_guest_nice = 0\<rparr>"

definition example_stat_cpu0_2 :: CpuStat where
  "example_stat_cpu0_2 =
     \<lparr>stat_cpu_name = ''cpu0'', stat_user = 400, stat_system = 150, stat_idle = 1400,
      stat_nice = 0, stat_io_wait = 10, stat_irq = 0, stat_soft_irq = 5, stat_steal = 0,
      stat_guest = 0, stat_guest_nice = 0\<rparr>"

text \<open>
  Two readings of a CPU line on a host that has been idle for some months: 300 jiffies of
  user time and 700 jiffies of idle time lie between them. The samples are what the
  sampler stores for them.
\<close>

definition example_stat_long_1 :: "string list" where
  "example_stat_long_1 = [''cpu0'', ''1000'', ''0'', ''0'', ''1000000000'', ''0'', ''0'', ''0'', ''0'', ''0'', ''0'']"

definition example_stat_long_2 :: "string list" where
  "example_stat_long_2 = [''cpu0'', ''1300'', ''0'', ''0'', ''1000000700'', ''0'', ''0'', ''0'', ''0'', ''0'', ''0'']"

definition example_stat_long_cpu0_1 :: CpuStat where
  "example_stat_long_cpu0_1 =
     \<lparr>stat_cpu_name = ''cpu0'', stat_user = 1000, stat_system = 0, stat_idle = 1000000000,
      stat_nice = 0, stat_io_wait = 0, stat_irq = 0, stat_soft_irq = 0, stat_steal = 0,
      stat_guest = 0, stat_guest_nice = 0\<rparr>"

definition example_stat_long_cpu0_2 :: CpuStat where
  "example_stat_long_cpu0_2 =
     \<lparr>stat_cpu_name = ''cpu0'', stat_user = 1300, stat_system = 0, stat_idle = 1000000704,
      stat_nice = 0, stat_io_wait = 0, stat_irq = 0, stat_soft_irq = 0, stat_steal = 0,
      stat_guest = 0, stat_guest_nice = 0\<rparr>"

text \<open>A reading of the memory source, and some contents of the unset struct.\<close>

definition example_meminfo :: string where
  "example_meminfo =
     ''MemTotal:       16000000 kB'' @ [newline]
     @ ''MemFree:         3000000 kB'' @ [newline]
     @ ''MemAvailable:    8000000 kB'' @ [newline]
     @ ''SwapTotal:       2000000 kB'' @ [newline]"

definition example_uninit :: MenInfo where
  "example_uninit =
     \<lparr>mem_total = 7, mem_free = 7, mem_avail = 7, mem_buffers = 7, mem_cached = 7, mem_swap_cached = 7, mem_active = 7, mem_in_active = 7, mem_active_anon = 7, mem_inactive_anon = 7, mem_active_file = 7, mem_inactive_file = 7, mem_dirty = 7, mem_writeback = 7, mem_anon_pages = 7, mem_mapped = 7, mem_kReclaimable = 7, mem_sReclaimable = 7, mem_sUnreclaim = 7\<rparr>"

text \<open>
  The sources of a whole tick: a load source, and a network source whose interface line
  has a token that is not a number.
\<close>

definition example_loadavg :: string where
  "example_loadavg = ''1 2 3 2/345 12345'' @ [newline]"

definition example_net_dev_bad :: string where
  "example_net_dev_bad =
     '' face |bytes packets errs drop|bytes packets errs drop'' @ [newline]
     @ ''  eth0: 2048 x 0 0 0 0 0 0 0 7 0 0 0 0 0 0'' @ [newline]"

definition example_tick_1 :: tick_input where
  "example_tick_1 =
     \<lparr>src_softirqs = example_softirqs_1, src_loadavg = example_loadavg,
      src_stat = example_stat_1, src_meminfo = example_meminfo,
      src_net_dev = example_net_dev_1, softirq_clock = example_clock_1,
      net_clock = example_clock_1, mem_uninit = example_uninit\<rparr>"

definition example_tick_bad :: tick_input where
  "example_tick_bad =
     \<lparr>src_softirqs = example_softirqs_1, src_loadavg = example_loadavg,
      src_stat = example_stat_1, src_meminfo = example_meminfo,
      src_net_dev = example_net_dev_bad, softirq_clock = example_clock_1,
      net_clock = example_clock_1, mem_uninit = example_uninit\<rparr>"

definition example_start :: collectors where
  "example_start = \<lparr>cpu_softirqs = Map.empty, cpu_stat_map = Map.empty, net_infos = Map.empty\<rparr>"

definition example_mem_message :: proto_MemInfo where
  "example_mem_message =
     \<lparr>pmem_used_percent = Some 50, pmem_total = 16, pmem_free = 3, pmem_avail = 8, pmem_buffers = 7 / 1000000, pmem_cached = 7 / 1000000, pmem_swap_cached = 7 / 1000000, pmem_active = 7 / 1000000, pmem_inactive = 7 / 1000000, pmem_active_anon = 7 / 1000000, pmem_inactive_anon = 7 / 1000000, pmem_active_file = 7 / 1000000, pmem_inactive_file = 7 / 1000000, pmem_dirty = 7 / 1000000, pmem_writeback = 7 / 1000000, pmem_anon_pages = 7 / 1000000, pmem_mapped = 7 / 1000000, pmem_kreclaimable = 7 / 1000000, pmem_sreclaimable = 7 / 1000000, pmem_sunreclaim = 7 / 1000000\<rparr>"

section \<open>Basic facts\<close>

lemma binade_bounds:
  assumes "0 < x"
  shows "2 powi binade x \<le> x \<and> x < 2 powi (binade x + 1)"
proof (cases "1 \<le> x")
  case True
  define m where "m = \<lfloor>x\<rfloor>"
  from True have m: "0 < m" by (simp add: m_def)
  from bitlen_bounds [OF m] have lo: "2 ^ nat (bitlen m - 1) \<le> m" and hi: "m < 2 ^ nat (bitlen m)"
    by simp_all
  from m have pos: "1 \<le> bitlen m" by (simp add: bitlen_alt_def)
  have e: "binade x = bitlen m - 1" using True by (simp add: binade_def m_def)
  have "real_of_int (2 ^ nat (bitlen m - 1)) \<le> real_of_int m" using lo by (simp only: of_int_le_iff)
  also have "real_of_int m \<le> x" by (simp add: m_def)
  finally have A: "2 powi (bitlen m - 1) \<le> x" using pos by (simp add: power_int_def)
  from hi have "m + 1 \<le> 2 ^ nat (bitlen m)" by simp
  then have "real_of_int (m + 1) \<le> real_of_int (2 ^ nat (bitlen m))" by (simp only: of_int_le_iff)
  moreover have "x < real_of_int (m + 1)" by (simp add: m_def)
  ultimately have B: "x < 2 powi (bitlen m)" using pos by (simp add: power_int_def)
  from A B e show ?thesis by simp
next
  case False
  define k where "k = \<lceil>1 / x\<rceil> - 1"
  define j where "j = bitlen k"
  from False assms have big: "1 < 1 / x" by simp
  then have "1 < \<lceil>1 / x\<rceil>" by (simp add: less_ceiling_iff)
  then have k: "0 < k" by (simp add: k_def)
  from bitlen_bounds [OF k] have lo: "2 ^ nat (j - 1) \<le> k" and hi: "k < 2 ^ nat j"
    by (simp_all add: j_def)
  from k have pos: "1 \<le> j" by (simp add: bitlen_alt_def j_def)
  have e: "binade x = - j" using False by (simp add: binade_def k_def j_def)
  have k1: "real_of_int k < 1 / x" by (simp add: k_def) linarith
  have k2: "1 / x \<le> real_of_int (k + 1)" by (simp add: k_def)
  from hi have "k + 1 \<le> 2 ^ nat j" by simp
  then have "real_of_int (k + 1) \<le> real_of_int (2 ^ nat j)" by (simp only: of_int_le_iff)
  with k2 have "1 / x \<le> 2 ^ nat j" by simp
  with assms have "1 \<le> x * 2 ^ nat j" by (simp add: field_simps)
  then have A: "2 powi (- j) \<le> x" using pos by (simp add: power_int_def field_simps)
  have "real_of_int (2 ^ nat (j - 1)) \<le> real_of_int k" using lo by (simp only: of_int_le_iff)
  then have "(2::real) ^ nat (j - 1) \<le> real_of_int k" by simp
  from this k1 have "2 ^ nat (j - 1) < 1 / x" by (rule le_less_trans)
  with assms have "x * 2 ^ nat (j - 1) < 1" by (simp add: field_simps)
  then have "x < inverse (2 ^ nat (j - 1))" by (simp add: field_simps)
  moreover have "(2::real) powi (j - 1) = 2 ^ nat (j - 1)" using pos by (simp add: power_int_def)
  moreover have "(2::real) powi (- j + 1) = inverse (2 powi (j - 1))"
    using power_int_minus [of "2::real" "j - 1"] by simp
  ultimately have B: "x < 2 powi (- j + 1)" by simp
  from A B e show ?thesis by simp
qed

lemma round_half_even_nearest:
  "\<bar>real_of_int (round_half_even x) - x\<bar> \<le> 1 / 2"
  unfolding round_half_even_def Let_def by (simp; linarith)

text \<open>
  Some roundings: the integers are exact up to \<open>2 ^ 24\<close>, above it ties go to the even
  neighbour; one third and one tenth as \<open>float\<close>; the smallest subnormal number.
\<close>

lemma to_float_examples:
  "to_float 16777216 = 16777216"
  "to_float 16777217 = 16777216"
  "to_float 16777219 = 16777220"
  "to_float (- 16777219) = - 16777220"
  "to_float 1000000700 = 1000000704"
  "to_float (1 / 3) = 11184811 / 33554432"
  "to_float (1 / 10) = 13421773 / 134217728"
  "to_float (2 powi (- 149)) = 2 powi (- 149)"
  "to_float (2 powi (- 150)) = 0"
  "to_double (1 / 10) = 3602879701896397 / 36028797018963968"
  by code_simp+

lemma bindE_Inl [simp]: "bindE (Inl e) f = Inl e"
  by (simp add: bindE_def)

lemma bindE_Inr [simp]: "bindE (Inr x) f = f x"
  by (simp add: bindE_def)

lemma bindE_eq_Inr: "bindE m f = Inr y \<longleftrightarrow> (\<exists>x. m = Inr x \<and> f x = Inr y)"
  by (cases m) simp_all

lemma find_char_None: "find_char c s = None \<longleftrightarrow> c \<notin> set s"
  by (induction s) auto

lemma find_char_Some:
  "find_char c s = Some i \<Longrightarrow> i < length s \<and> s ! i = c \<and> c \<notin> set (take i s)"
  by (induction s arbitrary: i) (auto split: if_splits)

lemma find_char_append: "c \<notin> set n \<Longrightarrow> find_char c (n @ c # r) = Some (length n)"
  by (induction n) auto

lemma colon_is_last_iff:
  "colon_is_last name \<longleftrightarrow> name = [] \<or> (\<exists>n. name = n @ '':'' \<and> CHR '':'' \<notin> set n)"
proof
  assume a: "colon_is_last name"
  show "name = [] \<or> (\<exists>n. name = n @ '':'' \<and> CHR '':'' \<notin> set n)"
  proof (cases "find_char (CHR '':'') name")
    case None
    with a show ?thesis by (simp add: colon_is_last_def)
  next
    case (Some i)
    with a have len: "Suc i = length name" by (simp add: colon_is_last_def)
    from find_char_Some [OF Some] have i: "name ! i = CHR '':''" "CHR '':'' \<notin> set (take i name)"
      by simp_all
    have "name = take i name @ [name ! i]"
      using len by (metis lessI take_Suc_conv_app_nth take_all order_refl)
    with i show ?thesis by auto
  qed
next
  assume "name = [] \<or> (\<exists>n. name = n @ '':'' \<and> CHR '':'' \<notin> set n)"
  then show "colon_is_last name"
    by (auto simp: colon_is_last_def find_char_append)
qed

lemma split_words_nonempty: "split_words s \<noteq> []"
  by (subst split_words.simps) (simp add: Let_def)

lemma split_words_first:
  assumes "split_words s = w # ws" and "ws \<noteq> []"
  shows "w \<noteq> []"
proof -
  let ?s1 = "dropWhile is_space s"
  let ?rest = "dropWhile (\<lambda>c. \<not> is_space c) ?s1"
  from assms have rest: "?rest \<noteq> []" and w: "w = takeWhile (\<lambda>c. \<not> is_space c) ?s1"
    by (subst (asm) split_words.simps, simp add: Let_def split: if_splits)+
  from rest have ne: "?s1 \<noteq> []" by (cases ?s1) simp_all
  then have "\<not> is_space (hd ?s1)" by (rule hd_dropWhile)
  with ne w show ?thesis by (cases ?s1) auto
qed

lemma read_all_records:
  "r \<in> set (read_all s) \<Longrightarrow> r \<noteq> [] \<and> (2 \<le> length r \<longrightarrow> hd r \<noteq> [])"
proof (induction s rule: read_all.induct)
  case (1 s)
  show ?case
  proof (cases "ReadLine s")
    case None
    with "1.prems" show ?thesis by (subst (asm) read_all.simps) simp
  next
    case (Some p)
    obtain args rest where p: "p = (args, rest)" by (cases p)
    from "1.prems" Some p have "r = args \<or> r \<in> set (read_all rest)"
      by (subst (asm) read_all.simps) simp
    then show ?thesis
    proof
      assume r: "r = args"
      from Some p obtain line where "args = split_words line"
        by (auto simp: ReadLine_def Let_def split: list.splits if_splits)
      with r have sw: "r = split_words line" by simp
      show ?thesis
      proof (cases r)
        case Nil
        with sw split_words_nonempty show ?thesis by metis
      next
        case (Cons w ws)
        show ?thesis
        proof (cases ws)
          case Nil
          with Cons show ?thesis by simp
        next
          case (Cons v vs)
          with \<open>r = w # ws\<close> sw split_words_first [of line w ws] show ?thesis by simp
        qed
      qed
    next
      assume "r \<in> set (read_all rest)"
      with "1.IH" Some p show ?thesis by simp
    qed
  qed
qed


lemma foldE_append:
  "foldE step s (xs @ ys) = bindE (foldE step s xs) (\<lambda>s'. foldE step s' ys)"
proof (induction xs arbitrary: s)
  case Nil
  show ?case by simp
next
  case (Cons x xs)
  show ?case
  proof (cases "step s x")
    case (Inl e)
    then show ?thesis by simp
  next
    case (Inr s1)
    with Cons show ?thesis by simp
  qed
qed

lemma foldE_preserves:
  assumes "foldE step s xs = Inr s'"
    and "\<And>a x b. x \<in> set xs \<Longrightarrow> step a x = Inr b \<Longrightarrow> obs b = obs a"
  shows "obs s' = obs s"
  using assms
proof (induction xs arbitrary: s)
  case Nil
  then show ?case by simp
next
  case (Cons x xs)
  from Cons.prems(1) have "bindE (step s x) (\<lambda>a. foldE step a xs) = Inr s'"
    by simp
  then obtain s1 where s1: "step s x = Inr s1" and rest: "foldE step s1 xs = Inr s'"
    unfolding bindE_eq_Inr by blast
  have "obs s' = obs s1"
  proof (rule Cons.IH [OF rest])
    fix a y b assume "y \<in> set xs" "step a y = Inr b"
    then show "obs b = obs a" using Cons.prems(2) [of y a b] by simp
  qed
  moreover have "obs s1 = obs s"
    using s1 Cons.prems(2) [of x s s1] by simp
  ultimately show ?case by simp
qed

lemma foldE_once:
  assumes run: "foldE step s (pre @ x # post) = Inr s'"
    and other: "\<And>a y b. y \<in> set pre \<union> set post \<Longrightarrow> step a y = Inr b \<Longrightarrow> obs b = obs a"
  obtains s1 s2 where "obs s1 = obs s" and "step s1 x = Inr s2" and "obs s' = obs s2"
proof -
  from run have "bindE (foldE step s pre) (\<lambda>a. foldE step a (x # post)) = Inr s'"
    by (simp only: foldE_append)
  then obtain s1 where pre: "foldE step s pre = Inr s1"
    and rest: "foldE step s1 (x # post) = Inr s'"
    unfolding bindE_eq_Inr by blast
  from rest have "bindE (step s1 x) (\<lambda>a. foldE step a post) = Inr s'"
    by simp
  then obtain s2 where x: "step s1 x = Inr s2" and post: "foldE step s2 post = Inr s'"
    unfolding bindE_eq_Inr by blast
  have "obs s1 = obs s"
  proof (rule foldE_preserves [OF pre])
    fix a y b assume "y \<in> set pre" "step a y = Inr b"
    then show "obs b = obs a" using other [of y a b] by simp
  qed
  moreover have "obs s' = obs s2"
  proof (rule foldE_preserves [OF post])
    fix a y b assume "y \<in> set post" "step a y = Inr b"
    then show "obs b = obs a" using other [of y a b] by simp
  qed
  ultimately show ?thesis using x that by blast
qed

lemma foldE_split:
  assumes "foldE step s (pre @ x # post) = Inr s'"
  shows "\<exists>s1 s2. foldE step s pre = Inr s1 \<and> step s1 x = Inr s2 \<and> foldE step s2 post = Inr s'"
proof -
  from assms have "bindE (foldE step s pre) (\<lambda>a. foldE step a (x # post)) = Inr s'"
    by (simp only: foldE_append)
  then obtain s1 where pre: "foldE step s pre = Inr s1"
    and rest: "foldE step s1 (x # post) = Inr s'"
    unfolding bindE_eq_Inr by blast
  from rest have "bindE (step s1 x) (\<lambda>a. foldE step a post) = Inr s'"
    by simp
  then obtain s2 where "step s1 x = Inr s2" and "foldE step s2 post = Inr s'"
    unfolding bindE_eq_Inr by blast
  with pre show ?thesis by blast
qed

lemma filter_single:
  assumes "filter P xs = [x]"
  obtains pre post where "xs = pre @ x # post" and "\<forall>y\<in>set pre. \<not> P y" and "\<forall>y\<in>set post. \<not> P y"
    and "P x"
proof -
  from assms obtain us vs where "xs = us @ x # vs" "\<forall>u\<in>set us. \<not> P u" "P x" "[] = filter P vs"
    by (auto simp: filter_eq_Cons_iff)
  moreover then have "\<forall>y\<in>set vs. \<not> P y"
    by (metis filter_empty_conv)
  ultimately show ?thesis using that by blast
qed


section \<open>Facts about the network sampler\<close>

lemma elem_at_eq_Inr: "elem_at xs i = Inr x \<longleftrightarrow> i < length xs \<and> x = xs ! i"
  by (auto simp: elem_at_def)

lemma net_parse_Inr:
  assumes "net_parse t n r = Inr info"
  shows "13 \<le> length r" and "net_name info = n" and "net_timepoint info = t"
    and "stoll (r ! 1) = Inr (net_rcv_bytes info)"
    and "stoll (r ! 2) = Inr (net_rcv_packets info)"
    and "stoll (r ! 9) = Inr (net_snd_bytes info)"
    and "stoll (r ! 10) = Inr (net_snd_packets info)"
  using assms
  by (auto simp: net_parse_def bindE_eq_Inr elem_at_eq_Inr)

lemma sub64_Inr: "sub64 a b = Inr d \<Longrightarrow> d = a - b"
  by (auto simp: sub64_def split: if_splits)

lemma net_rates_Inr:
  assumes "net_rates info old period = Inr msg"
  shows "msg = \<lparr>pnet_name = net_name info,
      pnet_send_rate = real_of_int (net_snd_bytes info - net_snd_bytes old) / 1024 / period,
      pnet_rcv_rate = real_of_int (net_rcv_bytes info - net_rcv_bytes old) / 1024 / period,
      pnet_send_packets_rate = real_of_int (net_snd_packets info - net_snd_packets old) / period,
      pnet_rcv_packets_rate = real_of_int (net_rcv_packets info - net_rcv_packets old) / period\<rparr>"
  using assms
  by (auto simp: net_rates_def bindE_eq_Inr dest!: sub64_Inr)

lemma net_line_rejected:
  "\<not> net_is_interface r \<Longrightarrow> r \<noteq> [] \<Longrightarrow> net_line (h, mi) (t, r) = Inr (h, mi)"
  by (cases r) (auto simp: net_line_def net_is_interface_def elem_at_def)

lemma net_line_accepted:
  assumes acc: "net_is_interface r" and run: "net_line (h, mi) (t, r) = Inr (h', mi')"
  shows "\<exists>info. net_parse t (butlast (hd r)) r = Inr info
    \<and> h' = h(butlast (hd r) \<mapsto> info)
    \<and> (h (butlast (hd r)) = None \<longrightarrow> mi' = mi)
    \<and> (\<forall>old. h (butlast (hd r)) = Some old \<and> \<not> SteadyTimeSecond t (net_timepoint old) > 0
           \<longrightarrow> mi' = mi)
    \<and> (\<forall>old. h (butlast (hd r)) = Some old \<and> SteadyTimeSecond t (net_timepoint old) > 0
           \<longrightarrow> (\<exists>msg. net_rates info old (SteadyTimeSecond t (net_timepoint old)) = Inr msg
                 \<and> mi' = mi\<lparr>mi_net_info := mi_net_info mi @ [msg]\<rparr>))"
proof -
  from acc obtain name rest where r: "r = name # rest" and g: "colon_is_last name" "10 \<le> length r"
    by (cases r) (auto simp: net_is_interface_def)
  let ?n = "butlast name"
  from run r g have ne: "name \<noteq> []"
    by (auto simp: net_line_def elem_at_def pop_back_def)
  with run r g obtain info mi1 where p: "net_parse t ?n r = Inr info"
    and m: "(case h ?n of None \<Rightarrow> Inr mi
             | Some old \<Rightarrow>
                 (let period = SteadyTimeSecond (net_timepoint info) (net_timepoint old)
                  in if period > 0
                     then bindE (net_rates info old period) (\<lambda>one_net_msg.
                            Inr (mi\<lparr>mi_net_info := mi_net_info mi @ [one_net_msg]\<rparr>))
                     else Inr mi)) = Inr mi1"
    and res: "h' = h(?n \<mapsto> info)" "mi' = mi1"
    by (auto simp: net_line_def elem_at_def pop_back_def bindE_eq_Inr)
  from p have tp: "net_timepoint info = t" by (rule net_parse_Inr)
  have "net_parse t (butlast (hd r)) r = Inr info" using p r by simp
  moreover have "h' = h(butlast (hd r) \<mapsto> info)" using res r by simp
  moreover have "h (butlast (hd r)) = None \<longrightarrow> mi' = mi" using m res r by auto
  moreover have "\<forall>old. h (butlast (hd r)) = Some old \<and> \<not> SteadyTimeSecond t (net_timepoint old) > 0
           \<longrightarrow> mi' = mi" using m res r tp by auto
  moreover have "\<forall>old. h (butlast (hd r)) = Some old \<and> SteadyTimeSecond t (net_timepoint old) > 0
           \<longrightarrow> (\<exists>msg. net_rates info old (SteadyTimeSecond t (net_timepoint old)) = Inr msg
                 \<and> mi' = mi\<lparr>mi_net_info := mi_net_info mi @ [msg]\<rparr>)"
    using m res r tp by (auto simp: bindE_eq_Inr)
  ultimately show ?thesis by (intro exI [of _ info] conjI)
qed

section \<open>Facts about the software-interrupt sampler\<close>

lemma softirq_cell_Inr:
  "softirq_cell softirq row col = Inr v \<longleftrightarrow>
     row < length softirq \<and> col < length (softirq ! row) \<and> stoll (softirq ! row ! col) = Inr v"
  by (auto simp: softirq_cell_def bindE_eq_Inr elem_at_eq_Inr)

lemma softirq_parse_Inr:
  assumes "softirq_parse now softirq i = Inr info"
  shows "softirq \<noteq> []" and "i < length (hd softirq)"
    and "irq_cpu_name info = hd softirq ! i" and "irq_timepoint info = now"
    and "softirq_cell softirq 1 (i + 1) = Inr (irq_hi info)"
    and "softirq_cell softirq 2 (i + 1) = Inr (irq_timer info)"
    and "softirq_cell softirq 3 (i + 1) = Inr (irq_net_tx info)"
    and "softirq_cell softirq 4 (i + 1) = Inr (irq_net_rx info)"
    and "softirq_cell softirq 5 (i + 1) = Inr (irq_block info)"
    and "softirq_cell softirq 6 (i + 1) = Inr (irq_irq_poll info)"
    and "softirq_cell softirq 7 (i + 1) = Inr (irq_tasklet info)"
    and "softirq_cell softirq 8 (i + 1) = Inr (irq_sched info)"
    and "softirq_cell softirq 9 (i + 1) = Inr (irq_hrtimer info)"
    and "softirq_cell softirq 10 (i + 1) = Inr (irq_rcu info)"
proof -
  from assms obtain name hi timer net_tx net_rx block irq_poll tasklet sched hrtimer rcu where
    h: "bindE (elem_at softirq 0) (\<lambda>header. elem_at header i) = Inr name"
    and c: "softirq_cell softirq 1 (i + 1) = Inr hi" "softirq_cell softirq 2 (i + 1) = Inr timer"
      "softirq_cell softirq 3 (i + 1) = Inr net_tx" "softirq_cell softirq 4 (i + 1) = Inr net_rx"
      "softirq_cell softirq 5 (i + 1) = Inr block" "softirq_cell softirq 6 (i + 1) = Inr irq_poll"
      "softirq_cell softirq 7 (i + 1) = Inr tasklet" "softirq_cell softirq 8 (i + 1) = Inr sched"
      "softirq_cell softirq 9 (i + 1) = Inr hrtimer" "softirq_cell softirq 10 (i + 1) = Inr rcu"
    and info: "info = \<lparr>irq_cpu_name = name, irq_hi = hi, irq_timer = timer, irq_net_tx = net_tx,
      irq_net_rx = net_rx, irq_block = block, irq_irq_poll = irq_poll, irq_tasklet = tasklet,
      irq_sched = sched, irq_hrtimer = hrtimer, irq_rcu = rcu, irq_timepoint = now\<rparr>"
    unfolding softirq_parse_def bindE_eq_Inr by blast
  from h have "0 < length softirq" and "i < length (softirq ! 0)" and "name = softirq ! 0 ! i"
    by (auto simp: bindE_eq_Inr elem_at_eq_Inr)
  then show "softirq \<noteq> []" and "i < length (hd softirq)" and "irq_cpu_name info = hd softirq ! i"
    using info by (auto simp: hd_conv_nth)
  show "irq_timepoint info = now" using info by simp
  show "softirq_cell softirq 1 (i + 1) = Inr (irq_hi info)"
    and "softirq_cell softirq 2 (i + 1) = Inr (irq_timer info)"
    and "softirq_cell softirq 3 (i + 1) = Inr (irq_net_tx info)"
    and "softirq_cell softirq 4 (i + 1) = Inr (irq_net_rx info)"
    and "softirq_cell softirq 5 (i + 1) = Inr (irq_block info)"
    and "softirq_cell softirq 6 (i + 1) = Inr (irq_irq_poll info)"
    and "softirq_cell softirq 7 (i + 1) = Inr (irq_tasklet info)"
    and "softirq_cell softirq 8 (i + 1) = Inr (irq_sched info)"
    and "softirq_cell softirq 9 (i + 1) = Inr (irq_hrtimer info)"
    and "softirq_cell softirq 10 (i + 1) = Inr (irq_rcu info)"
    using c info by simp_all
qed

lemma softirq_rates_Inr:
  assumes "softirq_rates info old period = Inr msg"
  shows "msg = \<lparr>pirq_cpu = irq_cpu_name info,
      pirq_hi = real_of_int (irq_hi info - irq_hi old) / period,
      pirq_timer = real_of_int (irq_timer info - irq_timer old) / period,
      pirq_net_tx = real_of_int (irq_net_tx info - irq_net_tx old) / period,
      pirq_net_rx = real_of_int (irq_net_rx info - irq_net_rx old) / period,
      pirq_block = real_of_int (irq_block info - irq_block old) / period,
      pirq_irq_poll = real_of_int (irq_irq_poll info - irq_irq_poll old) / period,
      pirq_tasklet = real_of_int (irq_tasklet info - irq_tasklet old) / period,
      pirq_sched = real_of_int (irq_sched info - irq_sched old) / period,
      pirq_hrtimer = real_of_int (irq_hrtimer info - irq_hrtimer old) / period,
      pirq_rcu = real_of_int (irq_rcu info - irq_rcu old) / period\<rparr>"
proof -
  from assms obtain d1 d2 d3 d4 d5 d6 d7 d8 d9 d10 where
    d: "sub64 (irq_hi info) (irq_hi old) = Inr d1" "sub64 (irq_timer info) (irq_timer old) = Inr d2"
      "sub64 (irq_net_tx info) (irq_net_tx old) = Inr d3"
      "sub64 (irq_net_rx info) (irq_net_rx old) = Inr d4"
      "sub64 (irq_block info) (irq_block old) = Inr d5"
      "sub64 (irq_irq_poll info) (irq_irq_poll old) = Inr d6"
      "sub64 (irq_tasklet info) (irq_tasklet old) = Inr d7"
      "sub64 (irq_sched info) (irq_sched old) = Inr d8"
      "sub64 (irq_hrtimer info) (irq_hrtimer old) = Inr d9"
      "sub64 (irq_rcu info) (irq_rcu old) = Inr d10"
    and msg: "msg = \<lparr>pirq_cpu = irq_cpu_name info,
      pirq_hi = real_of_int d1 / period, pirq_timer = real_of_int d2 / period,
      pirq_net_tx = real_of_int d3 / period, pirq_net_rx = real_of_int d4 / period,
      pirq_block = real_of_int d5 / period, pirq_irq_poll = real_of_int d6 / period,
      pirq_tasklet = real_of_int d7 / period, pirq_sched = real_of_int d8 / period,
      pirq_hrtimer = real_of_int d9 / period, pirq_rcu = real_of_int d10 / period\<rparr>"
    unfolding softirq_rates_def bindE_eq_Inr by blast
  from d have "d1 = irq_hi info - irq_hi old" "d2 = irq_timer info - irq_timer old"
    "d3 = irq_net_tx info - irq_net_tx old" "d4 = irq_net_rx info - irq_net_rx old"
    "d5 = irq_block info - irq_block old" "d6 = irq_irq_poll info - irq_irq_poll old"
    "d7 = irq_tasklet info - irq_tasklet old" "d8 = irq_sched info - irq_sched old"
    "d9 = irq_hrtimer info - irq_hrtimer old" "d10 = irq_rcu info - irq_rcu old"
    by (simp_all add: sub64_Inr)
  with msg show ?thesis by simp
qed

lemma softirq_column_Inr:
  assumes run: "softirq_column clock softirq (h, mi) i = Inr (h', mi')"
  shows "\<exists>info. softirq_parse (clock i) softirq i = Inr info
    \<and> h' = h(hd softirq ! i \<mapsto> info)
    \<and> (h (hd softirq ! i) = None \<longrightarrow> mi' = mi)
    \<and> (\<forall>old. h (hd softirq ! i) = Some old
           \<and> \<not> SteadyTimeSecond (clock i) (irq_timepoint old) > 0 \<longrightarrow> mi' = mi)
    \<and> (\<forall>old. h (hd softirq ! i) = Some old \<and> SteadyTimeSecond (clock i) (irq_timepoint old) > 0
           \<longrightarrow> (\<exists>msg. softirq_rates info old (SteadyTimeSecond (clock i) (irq_timepoint old)) = Inr msg
                 \<and> mi' = mi\<lparr>mi_soft_irq := mi_soft_irq mi @ [msg]\<rparr>))"
proof -
  from run obtain info mi1 where p: "softirq_parse (clock i) softirq i = Inr info"
    and m: "(case h (irq_cpu_name info) of None \<Rightarrow> Inr mi
             | Some old \<Rightarrow>
                 (let period = SteadyTimeSecond (irq_timepoint info) (irq_timepoint old)
                  in if period > 0
                     then bindE (softirq_rates info old period) (\<lambda>one_softirq_msg.
                            Inr (mi\<lparr>mi_soft_irq := mi_soft_irq mi @ [one_softirq_msg]\<rparr>))
                     else Inr mi)) = Inr mi1"
    and res: "h' = h(irq_cpu_name info \<mapsto> info)" "mi' = mi1"
    by (auto simp: softirq_column_def bindE_eq_Inr)
  from p have nm: "irq_cpu_name info = hd softirq ! i" and tp: "irq_timepoint info = clock i"
    by (rule softirq_parse_Inr)+
  note p
  moreover have "h' = h(hd softirq ! i \<mapsto> info)" using res nm by simp
  moreover have "h (hd softirq ! i) = None \<longrightarrow> mi' = mi" using m res nm by auto
  moreover have "\<forall>old. h (hd softirq ! i) = Some old
           \<and> \<not> SteadyTimeSecond (clock i) (irq_timepoint old) > 0 \<longrightarrow> mi' = mi"
    using m res nm tp by auto
  moreover have "\<forall>old. h (hd softirq ! i) = Some old \<and> SteadyTimeSecond (clock i) (irq_timepoint old) > 0
           \<longrightarrow> (\<exists>msg. softirq_rates info old (SteadyTimeSecond (clock i) (irq_timepoint old)) = Inr msg
                 \<and> mi' = mi\<lparr>mi_soft_irq := mi_soft_irq mi @ [msg]\<rparr>)"
    using m res nm tp by (auto simp: bindE_eq_Inr)
  ultimately show ?thesis by (intro exI [of _ info] conjI)
qed

section \<open>Facts about the CPU-time sampler\<close>

lemma cpu_parse_Inr:
  assumes "cpu_parse stof r = Inr cs"
  shows "r \<noteq> []" and "stat_cpu_name cs = hd r" and "11 \<le> length r"
    and "stof (r ! 1) = Inr (stat_user cs)" and "stof (r ! 2) = Inr (stat_nice cs)"
    and "stof (r ! 3) = Inr (stat_system cs)" and "stof (r ! 4) = Inr (stat_idle cs)"
    and "stof (r ! 5) = Inr (stat_io_wait cs)" and "stof (r ! 6) = Inr (stat_irq cs)"
    and "stof (r ! 7) = Inr (stat_soft_irq cs)" and "stof (r ! 8) = Inr (stat_steal cs)"
    and "stof (r ! 9) = Inr (stat_guest cs)" and "stof (r ! 10) = Inr (stat_guest_nice cs)"
proof -
  from assms obtain cpu_name user nice system idle io_wait irq soft_irq steal guest guest_nice where
    n: "elem_at r 0 = Inr cpu_name"
    and f: "bindE (elem_at r 1) stof = Inr user" "bindE (elem_at r 2) stof = Inr nice"
      "bindE (elem_at r 3) stof = Inr system" "bindE (elem_at r 4) stof = Inr idle"
      "bindE (elem_at r 5) stof = Inr io_wait" "bindE (elem_at r 6) stof = Inr irq"
      "bindE (elem_at r 7) stof = Inr soft_irq" "bindE (elem_at r 8) stof = Inr steal"
      "bindE (elem_at r 9) stof = Inr guest" "bindE (elem_at r 10) stof = Inr guest_nice"
    and cs: "cs = \<lparr>stat_cpu_name = cpu_name, stat_user = user, stat_system = system,
      stat_idle = idle, stat_nice = nice, stat_io_wait = io_wait, stat_irq = irq,
      stat_soft_irq = soft_irq, stat_steal = steal, stat_guest = guest,
      stat_guest_nice = guest_nice\<rparr>"
    unfolding cpu_parse_def bindE_eq_Inr by blast
  from n show "r \<noteq> []" and "stat_cpu_name cs = hd r"
    using cs by (auto simp: elem_at_eq_Inr hd_conv_nth)
  from f(10) show "11 \<le> length r"
    by (auto simp: bindE_eq_Inr elem_at_eq_Inr)
  from f cs show "stof (r ! 1) = Inr (stat_user cs)" and "stof (r ! 2) = Inr (stat_nice cs)"
    and "stof (r ! 3) = Inr (stat_system cs)" and "stof (r ! 4) = Inr (stat_idle cs)"
    and "stof (r ! 5) = Inr (stat_io_wait cs)" and "stof (r ! 6) = Inr (stat_irq cs)"
    and "stof (r ! 7) = Inr (stat_soft_irq cs)" and "stof (r ! 8) = Inr (stat_steal cs)"
    and "stof (r ! 9) = Inr (stat_guest cs)" and "stof (r ! 10) = Inr (stat_guest_nice cs)"
    by (auto simp: bindE_eq_Inr elem_at_eq_Inr)
qed

lemma contains_nonempty: "contains s ''cpu'' \<Longrightarrow> s \<noteq> []"
  by (cases s) auto

lemma cpu_entity_Some: "cpu_entity r = Some n \<longleftrightarrow> r \<noteq> [] \<and> hd r = n \<and> contains n ''cpu''"
  by (cases r) (auto simp: cpu_entity_def)

lemma cpu_line_rejected:
  "cpu_entity r = None \<Longrightarrow> r \<noteq> [] \<Longrightarrow> cpu_line stof (h, mi) r = Inr (h, mi)"
  by (cases r) (auto simp: cpu_line_def cpu_entity_def elem_at_def split: if_splits)

lemma cpu_line_accepted:
  assumes acc: "cpu_entity r = Some n" and run: "cpu_line stof (h, mi) r = Inr (h', mi')"
  shows "\<exists>cs. cpu_parse stof r = Inr cs \<and> h' = h(n \<mapsto> cs)
    \<and> (h n = None \<longrightarrow> mi' = mi)
    \<and> (\<forall>old. h n = Some old
          \<longrightarrow> mi' = mi\<lparr>mi_cpu_stat := mi_cpu_stat mi @ [cpu_message cs old]\<rparr>)"
proof -
  from acc have r: "r \<noteq> []" "hd r = n" "contains n ''cpu''"
    by (simp_all add: cpu_entity_Some)
  then have first: "elem_at r 0 = Inr n"
    by (cases r) (simp_all add: elem_at_def)
  from run first r obtain cs where p: "cpu_parse stof r = Inr cs"
    and res: "h' = h(stat_cpu_name cs \<mapsto> cs)"
      "mi' = (case h (stat_cpu_name cs) of None \<Rightarrow> mi
              | Some old \<Rightarrow> mi\<lparr>mi_cpu_stat := mi_cpu_stat mi @ [cpu_message cs old]\<rparr>)"
    by (auto simp: cpu_line_def bindE_eq_Inr Let_def)
  from p r have nm: "stat_cpu_name cs = n" by (simp add: cpu_parse_Inr(2))
  note p
  moreover have "h' = h(n \<mapsto> cs)" using res nm by simp
  moreover have "h n = None \<longrightarrow> mi' = mi" using res nm by auto
  moreover have "\<forall>old. h n = Some old
      \<longrightarrow> mi' = mi\<lparr>mi_cpu_stat := mi_cpu_stat mi @ [cpu_message cs old]\<rparr>"
    using res nm by auto
  ultimately show ?thesis by (intro exI [of _ cs] conjI)
qed

lemma cpu_message_name:
  "pstat_cpu_name (cpu_message cs old) = stat_cpu_name cs \<or> pstat_cpu_name (cpu_message cs old) = []"
  by (simp add: cpu_message_def proto_CpuStat_default_def Let_def)

section \<open>One record of an entity in a call\<close>

lemma net_entity_Some:
  "net_entity r = Some n \<longleftrightarrow> net_is_interface r \<and> butlast (hd r) = n"
  by (simp add: net_entity_def)

lemma net_line_other:
  assumes other: "net_entity r \<noteq> Some n" and run: "net_line (h, mi) (t, r) = Inr (h', mi')"
  shows "h' n = h n"
    and "filter (\<lambda>m. pnet_name m = n) (mi_net_info mi') = filter (\<lambda>m. pnet_name m = n) (mi_net_info mi)"
proof -
  have "h' n = h n \<and>
    filter (\<lambda>m. pnet_name m = n) (mi_net_info mi') = filter (\<lambda>m. pnet_name m = n) (mi_net_info mi)"
  proof (cases "net_is_interface r")
    case False
    from run have "r \<noteq> []" by (auto simp: net_line_def elem_at_def)
    with False run show ?thesis by (simp add: net_line_rejected)
  next
    case True
    with other have ne: "butlast (hd r) \<noteq> n" by (simp add: net_entity_def)
    from net_line_accepted [OF True run] obtain info
      where p: "net_parse t (butlast (hd r)) r = Inr info"
      and h': "h' = h(butlast (hd r) \<mapsto> info)"
      and none: "h (butlast (hd r)) = None \<longrightarrow> mi' = mi"
      and le: "\<forall>old. h (butlast (hd r)) = Some old
                 \<and> \<not> SteadyTimeSecond t (net_timepoint old) > 0 \<longrightarrow> mi' = mi"
      and gt: "\<forall>old. h (butlast (hd r)) = Some old \<and> SteadyTimeSecond t (net_timepoint old) > 0
                 \<longrightarrow> (\<exists>msg. net_rates info old (SteadyTimeSecond t (net_timepoint old)) = Inr msg
                       \<and> mi' = mi\<lparr>mi_net_info := mi_net_info mi @ [msg]\<rparr>)"
      by (elim exE conjE) (rule that)
    from p have nm: "net_name info = butlast (hd r)" by (rule net_parse_Inr)
    have "mi' = mi \<or> (\<exists>msg. pnet_name msg = butlast (hd r)
                        \<and> mi' = mi\<lparr>mi_net_info := mi_net_info mi @ [msg]\<rparr>)"
    proof (cases "h (butlast (hd r))")
      case None
      then show ?thesis using none by simp
    next
      case (Some old)
      show ?thesis
      proof (cases "SteadyTimeSecond t (net_timepoint old) > 0")
        case False
        then show ?thesis using le Some by simp
      next
        case True
        from gt Some True obtain msg
          where r: "net_rates info old (SteadyTimeSecond t (net_timepoint old)) = Inr msg"
            and m: "mi' = mi\<lparr>mi_net_info := mi_net_info mi @ [msg]\<rparr>" by auto
        from net_rates_Inr [OF r] have "pnet_name msg = net_name info" by simp
        with m nm show ?thesis by auto
      qed
    qed
    with ne h' show ?thesis by auto
  qed
  then show "h' n = h n"
    and "filter (\<lambda>m. pnet_name m = n) (mi_net_info mi') = filter (\<lambda>m. pnet_name m = n) (mi_net_info mi)"
    by simp_all
qed

lemma net_loop_once:
  assumes run: "net_loop (h, mi) trs = Inr (h', mi')"
    and once: "filter (\<lambda>x. net_entity (snd x) = Some n) trs = [(t, r)]"
  obtains h1 mi1 h2 mi2 where "h1 n = h n"
    and "filter (\<lambda>m. pnet_name m = n) (mi_net_info mi1) = filter (\<lambda>m. pnet_name m = n) (mi_net_info mi)"
    and "net_line (h1, mi1) (t, r) = Inr (h2, mi2)"
    and "h' n = h2 n"
    and "filter (\<lambda>m. pnet_name m = n) (mi_net_info mi') = filter (\<lambda>m. pnet_name m = n) (mi_net_info mi2)"
    and "net_is_interface r" and "butlast (hd r) = n"
proof -
  let ?obs = "\<lambda>s. (fst s n, filter (\<lambda>m. pnet_name m = n) (mi_net_info (snd s)))"
  from once obtain pre post where trs: "trs = pre @ (t, r) # post"
    and pre: "\<forall>y\<in>set pre. \<not> net_entity (snd y) = Some n"
    and post: "\<forall>y\<in>set post. \<not> net_entity (snd y) = Some n"
    and ent: "net_entity (snd (t, r)) = Some n"
    by (rule filter_single)
  have other: "?obs b = ?obs a" if "y \<in> set pre \<union> set post" and "net_line a y = Inr b" for a y b
  proof -
    from that(1) pre post have "net_entity (snd y) \<noteq> Some n" by auto
    with that(2) show ?thesis
      using net_line_other [of "snd y" n "fst a" "snd a" "fst y" "fst b" "snd b"] by simp
  qed
  from run trs have "foldE net_line (h, mi) (pre @ (t, r) # post) = Inr (h', mi')"
    by (simp add: net_loop_def)
  then obtain s1 s2 where "?obs s1 = ?obs (h, mi)" and "net_line s1 (t, r) = Inr s2"
    and "?obs (h', mi') = ?obs s2"
    using other by (rule foldE_once [where obs = ?obs])
  then show ?thesis
    using ent that [of "fst s1" "snd s1" "fst s2" "snd s2"] by (simp add: net_entity_Some)
qed

lemma softirq_column_other:
  assumes other: "hd softirq ! i \<noteq> n"
    and run: "softirq_column clock softirq (h, mi) i = Inr (h', mi')"
  shows "h' n = h n"
    and "filter (\<lambda>m. pirq_cpu m = n) (mi_soft_irq mi') = filter (\<lambda>m. pirq_cpu m = n) (mi_soft_irq mi)"
proof -
  let ?c = "hd softirq ! i"
  from softirq_column_Inr [OF run] obtain info
    where p: "softirq_parse (clock i) softirq i = Inr info"
    and h': "h' = h(?c \<mapsto> info)"
    and none: "h ?c = None \<longrightarrow> mi' = mi"
    and le: "\<forall>old. h ?c = Some old
               \<and> \<not> SteadyTimeSecond (clock i) (irq_timepoint old) > 0 \<longrightarrow> mi' = mi"
    and gt: "\<forall>old. h ?c = Some old \<and> SteadyTimeSecond (clock i) (irq_timepoint old) > 0
               \<longrightarrow> (\<exists>msg. softirq_rates info old (SteadyTimeSecond (clock i) (irq_timepoint old)) = Inr msg
                     \<and> mi' = mi\<lparr>mi_soft_irq := mi_soft_irq mi @ [msg]\<rparr>)"
    by (elim exE conjE) (rule that)
  from p have nm: "irq_cpu_name info = ?c" by (rule softirq_parse_Inr)
  have "mi' = mi \<or> (\<exists>msg. pirq_cpu msg = ?c \<and> mi' = mi\<lparr>mi_soft_irq := mi_soft_irq mi @ [msg]\<rparr>)"
  proof (cases "h ?c")
    case None
    then show ?thesis using none by simp
  next
    case (Some old)
    show ?thesis
    proof (cases "SteadyTimeSecond (clock i) (irq_timepoint old) > 0")
      case False
      then show ?thesis using le Some by simp
    next
      case True
      from gt Some True obtain msg
        where r: "softirq_rates info old (SteadyTimeSecond (clock i) (irq_timepoint old)) = Inr msg"
          and m: "mi' = mi\<lparr>mi_soft_irq := mi_soft_irq mi @ [msg]\<rparr>" by auto
      from softirq_rates_Inr [OF r] have "pirq_cpu msg = irq_cpu_name info" by simp
      with m nm show ?thesis by auto
    qed
  qed
  with other h' show "h' n = h n"
    and "filter (\<lambda>m. pirq_cpu m = n) (mi_soft_irq mi') = filter (\<lambda>m. pirq_cpu m = n) (mi_soft_irq mi)"
    by auto
qed

lemma softirq_loop_Inr:
  assumes "softirq_loop clock softirq st = Inr st'"
  shows "softirq \<noteq> []" and "hd softirq \<noteq> []"
    and "foldE (softirq_column clock softirq) st [0..<length (hd softirq) - 1] = Inr st'"
  using assms
  by (auto simp: softirq_loop_def bindE_eq_Inr elem_at_eq_Inr hd_conv_nth split: if_splits)

lemma softirq_loop_once:
  assumes run: "softirq_loop clock softirq (h, mi) = Inr (h', mi')"
    and once: "filter (\<lambda>j. hd softirq ! j = n) [0..<length (hd softirq) - 1] = [i]"
  obtains h1 mi1 h2 mi2 where "h1 n = h n"
    and "filter (\<lambda>m. pirq_cpu m = n) (mi_soft_irq mi1) = filter (\<lambda>m. pirq_cpu m = n) (mi_soft_irq mi)"
    and "softirq_column clock softirq (h1, mi1) i = Inr (h2, mi2)"
    and "h' n = h2 n"
    and "filter (\<lambda>m. pirq_cpu m = n) (mi_soft_irq mi') = filter (\<lambda>m. pirq_cpu m = n) (mi_soft_irq mi2)"
    and "hd softirq ! i = n" and "i < length (hd softirq) - 1"
proof -
  let ?obs = "\<lambda>s. (fst s n, filter (\<lambda>m. pirq_cpu m = n) (mi_soft_irq (snd s)))"
  from once obtain pre post where cols: "[0..<length (hd softirq) - 1] = pre @ i # post"
    and pre: "\<forall>y\<in>set pre. \<not> hd softirq ! y = n"
    and post: "\<forall>y\<in>set post. \<not> hd softirq ! y = n"
    and ent: "hd softirq ! i = n"
    by (rule filter_single)
  have "i \<in> set [0..<length (hd softirq) - 1]" by (simp only: cols) simp
  then have bound: "i < length (hd softirq) - 1" by simp
  have other: "?obs b = ?obs a" if "y \<in> set pre \<union> set post" and "softirq_column clock softirq a y = Inr b"
    for a y b
  proof -
    from that(1) pre post have "hd softirq ! y \<noteq> n" by auto
    with that(2) show ?thesis
      using softirq_column_other [of softirq y n clock "fst a" "snd a" "fst b" "snd b"] by simp
  qed
  from softirq_loop_Inr(3) [OF run] cols
  have "foldE (softirq_column clock softirq) (h, mi) (pre @ i # post) = Inr (h', mi')"
    by simp
  then obtain s1 s2 where "?obs s1 = ?obs (h, mi)" and "softirq_column clock softirq s1 i = Inr s2"
    and "?obs (h', mi') = ?obs s2"
    using other by (rule foldE_once [where obs = ?obs])
  then show ?thesis
    using ent bound that [of "fst s1" "snd s1" "fst s2" "snd s2"] by simp
qed

lemma cpu_line_other:
  assumes other: "cpu_entity r \<noteq> Some n" and n: "n \<noteq> []"
    and run: "cpu_line stof (h, mi) r = Inr (h', mi')"
  shows "h' n = h n"
    and "filter (\<lambda>m. pstat_cpu_name m = n) (mi_cpu_stat mi')
         = filter (\<lambda>m. pstat_cpu_name m = n) (mi_cpu_stat mi)"
proof -
  have "h' n = h n \<and> filter (\<lambda>m. pstat_cpu_name m = n) (mi_cpu_stat mi')
         = filter (\<lambda>m. pstat_cpu_name m = n) (mi_cpu_stat mi)"
  proof (cases "cpu_entity r")
    case None
    from run have "r \<noteq> []" by (auto simp: cpu_line_def elem_at_def)
    with None run show ?thesis by (simp add: cpu_line_rejected)
  next
    case (Some k)
    with other have ne: "k \<noteq> n" by simp
    from cpu_line_accepted [OF Some run] obtain cs
      where p: "cpu_parse stof r = Inr cs" and h': "h' = h(k \<mapsto> cs)"
      and none: "h k = None \<longrightarrow> mi' = mi"
      and some: "\<forall>old. h k = Some old
                   \<longrightarrow> mi' = mi\<lparr>mi_cpu_stat := mi_cpu_stat mi @ [cpu_message cs old]\<rparr>"
      by (elim exE conjE) (rule that)
    from p Some have nm: "stat_cpu_name cs = k"
      by (simp add: cpu_parse_Inr(2) cpu_entity_Some)
    have "mi' = mi \<or> (\<exists>msg. pstat_cpu_name msg \<noteq> n
                        \<and> mi' = mi\<lparr>mi_cpu_stat := mi_cpu_stat mi @ [msg]\<rparr>)"
    proof (cases "h k")
      case None
      then show ?thesis using none by simp
    next
      case (Some old)
      have "pstat_cpu_name (cpu_message cs old) \<noteq> n"
        using cpu_message_name [of cs old] nm ne n by auto
      with some Some show ?thesis by auto
    qed
    with ne h' show ?thesis by auto
  qed
  then show "h' n = h n"
    and "filter (\<lambda>m. pstat_cpu_name m = n) (mi_cpu_stat mi')
         = filter (\<lambda>m. pstat_cpu_name m = n) (mi_cpu_stat mi)"
    by simp_all
qed

lemma cpu_loop_once:
  assumes run: "cpu_loop stof (h, mi) records = Inr (h', mi')"
    and once: "filter (\<lambda>x. cpu_entity x = Some n) records = [r]"
  obtains h1 mi1 h2 mi2 where "h1 n = h n"
    and "filter (\<lambda>m. pstat_cpu_name m = n) (mi_cpu_stat mi1)
         = filter (\<lambda>m. pstat_cpu_name m = n) (mi_cpu_stat mi)"
    and "cpu_line stof (h1, mi1) r = Inr (h2, mi2)"
    and "h' n = h2 n"
    and "filter (\<lambda>m. pstat_cpu_name m = n) (mi_cpu_stat mi')
         = filter (\<lambda>m. pstat_cpu_name m = n) (mi_cpu_stat mi2)"
    and "cpu_entity r = Some n"
proof -
  let ?obs = "\<lambda>s. (fst s n, filter (\<lambda>m. pstat_cpu_name m = n) (mi_cpu_stat (snd s)))"
  from once obtain pre post where recs: "records = pre @ r # post"
    and pre: "\<forall>y\<in>set pre. \<not> cpu_entity y = Some n"
    and post: "\<forall>y\<in>set post. \<not> cpu_entity y = Some n"
    and ent: "cpu_entity r = Some n"
    by (rule filter_single)
  from ent have n: "n \<noteq> []"
    by (auto simp: cpu_entity_Some dest: contains_nonempty)
  have other: "?obs b = ?obs a" if "y \<in> set pre \<union> set post" and "cpu_line stof a y = Inr b" for a y b
  proof -
    from that(1) pre post have "cpu_entity y \<noteq> Some n" by auto
    with that(2) n show ?thesis
      using cpu_line_other [of y n stof "fst a" "snd a" "fst b" "snd b"] by simp
  qed
  from run recs have "foldE (cpu_line stof) (h, mi) (pre @ r # post) = Inr (h', mi')"
    by (simp add: cpu_loop_def)
  then obtain s1 s2 where "?obs s1 = ?obs (h, mi)" and "cpu_line stof s1 r = Inr s2"
    and "?obs (h', mi') = ?obs s2"
    using other by (rule foldE_once [where obs = ?obs])
  then show ?thesis
    using ent that [of "fst s1" "snd s1" "fst s2" "snd s2"] by simp
qed

section \<open>First observation of an entity\<close>

lemma first_observation_net:
  assumes run: "net_loop (h, mi) trs = Inr (h', mi')" and new: "h n = None"
    and once: "filter (\<lambda>x. net_entity (snd x) = Some n) trs = [(t, r)]"
  shows "filter (\<lambda>m. pnet_name m = n) (mi_net_info mi') = filter (\<lambda>m. pnet_name m = n) (mi_net_info mi)
    \<and> (\<exists>info. net_parse t n r = Inr info \<and> h' n = Some info)"
proof -
  from run once obtain h1 mi1 h2 mi2 where h1: "h1 n = h n"
    and f1: "filter (\<lambda>m. pnet_name m = n) (mi_net_info mi1) = filter (\<lambda>m. pnet_name m = n) (mi_net_info mi)"
    and step: "net_line (h1, mi1) (t, r) = Inr (h2, mi2)"
    and h2: "h' n = h2 n"
    and f2: "filter (\<lambda>m. pnet_name m = n) (mi_net_info mi') = filter (\<lambda>m. pnet_name m = n) (mi_net_info mi2)"
    and acc: "net_is_interface r" and nm: "butlast (hd r) = n"
    by (rule net_loop_once)
  from net_line_accepted [OF acc step] nm obtain info
    where p: "net_parse t n r = Inr info" and upd: "h2 = h1(n \<mapsto> info)"
      and none: "h1 n = None \<longrightarrow> mi2 = mi1"
    by (elim exE conjE) (rule that, simp_all)
  from none h1 new have "mi2 = mi1" by simp
  with f1 f2 p upd h2 show ?thesis by simp
qed

lemma first_observation_softirq:
  assumes run: "softirq_loop clock softirq (h, mi) = Inr (h', mi')" and new: "h n = None"
    and once: "filter (\<lambda>j. hd softirq ! j = n) [0..<length (hd softirq) - 1] = [i]"
  shows "filter (\<lambda>m. pirq_cpu m = n) (mi_soft_irq mi') = filter (\<lambda>m. pirq_cpu m = n) (mi_soft_irq mi)
    \<and> (\<exists>info. softirq_parse (clock i) softirq i = Inr info \<and> h' n = Some info)"
proof -
  from run once obtain h1 mi1 h2 mi2 where h1: "h1 n = h n"
    and f1: "filter (\<lambda>m. pirq_cpu m = n) (mi_soft_irq mi1) = filter (\<lambda>m. pirq_cpu m = n) (mi_soft_irq mi)"
    and step: "softirq_column clock softirq (h1, mi1) i = Inr (h2, mi2)"
    and h2: "h' n = h2 n"
    and f2: "filter (\<lambda>m. pirq_cpu m = n) (mi_soft_irq mi') = filter (\<lambda>m. pirq_cpu m = n) (mi_soft_irq mi2)"
    and nm: "hd softirq ! i = n"
    by (rule softirq_loop_once)
  from softirq_column_Inr [OF step] nm obtain info
    where p: "softirq_parse (clock i) softirq i = Inr info" and upd: "h2 = h1(n \<mapsto> info)"
      and none: "h1 n = None \<longrightarrow> mi2 = mi1"
    by (elim exE conjE) (rule that, simp_all)
  from none h1 new have "mi2 = mi1" by simp
  with f1 f2 p upd h2 show ?thesis by simp
qed

lemma first_observation_cpu:
  assumes run: "cpu_loop stof (h, mi) records = Inr (h', mi')" and new: "h n = None"
    and once: "filter (\<lambda>x. cpu_entity x = Some n) records = [r]"
  shows "filter (\<lambda>m. pstat_cpu_name m = n) (mi_cpu_stat mi')
           = filter (\<lambda>m. pstat_cpu_name m = n) (mi_cpu_stat mi)
    \<and> (\<exists>cs. cpu_parse stof r = Inr cs \<and> h' n = Some cs)"
proof -
  from run once obtain h1 mi1 h2 mi2 where h1: "h1 n = h n"
    and f1: "filter (\<lambda>m. pstat_cpu_name m = n) (mi_cpu_stat mi1)
             = filter (\<lambda>m. pstat_cpu_name m = n) (mi_cpu_stat mi)"
    and step: "cpu_line stof (h1, mi1) r = Inr (h2, mi2)"
    and h2: "h' n = h2 n"
    and f2: "filter (\<lambda>m. pstat_cpu_name m = n) (mi_cpu_stat mi')
             = filter (\<lambda>m. pstat_cpu_name m = n) (mi_cpu_stat mi2)"
    and ent: "cpu_entity r = Some n"
    by (rule cpu_loop_once)
  from cpu_line_accepted [OF ent step] obtain cs
    where p: "cpu_parse stof r = Inr cs" and upd: "h2 = h1(n \<mapsto> cs)"
      and none: "h1 n = None \<longrightarrow> mi2 = mi1"
    by (elim exE conjE) (rule that)
  from none h1 new have "mi2 = mi1" by simp
  with f1 f2 p upd h2 show ?thesis by simp
qed

text \<open>
  The same calls, cut at the record of the entity: the records before it, the step of the
  loop for the record, the records after it.
\<close>

lemma first_record_net:
  assumes run: "net_loop (h, mi) trs = Inr (h', mi')" and new: "h n = None"
    and once: "filter (\<lambda>x. net_entity (snd x) = Some n) trs = [(t, r)]"
  shows "\<exists>pre post h1 m1 info. trs = pre @ (t, r) # post
    \<and> net_loop (h, mi) pre = Inr (h1, m1) \<and> h1 n = None
    \<and> net_parse t n r = Inr info
    \<and> net_line (h1, m1) (t, r) = Inr (h1(n \<mapsto> info), m1)
    \<and> net_loop (h1(n \<mapsto> info), m1) post = Inr (h', mi')
    \<and> h' n = Some info"
proof -
  from once obtain pre post where trs: "trs = pre @ (t, r) # post"
    and pre: "\<forall>y\<in>set pre. \<not> net_entity (snd y) = Some n"
    and post: "\<forall>y\<in>set post. \<not> net_entity (snd y) = Some n"
    and ent: "net_entity (snd (t, r)) = Some n"
    by (rule filter_single)
  from ent have acc: "net_is_interface r" and nm: "butlast (hd r) = n"
    by (simp_all add: net_entity_Some)
  from run trs have "foldE net_line (h, mi) (pre @ (t, r) # post) = Inr (h', mi')"
    by (simp add: net_loop_def)
  from foldE_split [OF this] obtain s1 s2 where f1: "foldE net_line (h, mi) pre = Inr s1"
    and step: "net_line s1 (t, r) = Inr s2" and f2: "foldE net_line s2 post = Inr (h', mi')"
    by blast
  obtain h1 m1 where s1: "s1 = (h1, m1)" by (cases s1)
  obtain h2 m2 where s2: "s2 = (h2, m2)" by (cases s2)
  have "fst s1 n = fst (h, mi) n"
  proof (rule foldE_preserves [OF f1])
    fix a y b assume "y \<in> set pre" "net_line a y = Inr b"
    with pre show "fst b n = fst a n"
      using net_line_other(1) [of "snd y" n "fst a" "snd a" "fst y" "fst b" "snd b"] by simp
  qed
  with s1 new have h1: "h1 n = None" by simp
  have "fst (h', mi') n = fst s2 n"
  proof (rule foldE_preserves [OF f2])
    fix a y b assume "y \<in> set post" "net_line a y = Inr b"
    with post show "fst b n = fst a n"
      using net_line_other(1) [of "snd y" n "fst a" "snd a" "fst y" "fst b" "snd b"] by simp
  qed
  with s2 have h': "h' n = h2 n" by simp
  from step s1 s2 have step': "net_line (h1, m1) (t, r) = Inr (h2, m2)" by simp
  from net_line_accepted [OF acc step'] nm obtain info
    where p: "net_parse t n r = Inr info" and upd: "h2 = h1(n \<mapsto> info)"
      and none: "h1 n = None \<longrightarrow> m2 = m1"
    by (elim exE conjE) (rule that, simp_all)
  from none h1 have m: "m2 = m1" by simp
  have "trs = pre @ (t, r) # post" by (rule trs)
  moreover have "net_loop (h, mi) pre = Inr (h1, m1)" using f1 s1 by (simp add: net_loop_def)
  moreover have "net_line (h1, m1) (t, r) = Inr (h1(n \<mapsto> info), m1)" using step' upd m by simp
  moreover have "net_loop (h1(n \<mapsto> info), m1) post = Inr (h', mi')"
    using f2 s2 upd m by (simp add: net_loop_def)
  moreover have "h' n = Some info" using h' upd by simp
  ultimately show ?thesis using h1 p by blast
qed

lemma first_record_softirq:
  assumes run: "softirq_loop clock softirq (h, mi) = Inr (h', mi')" and new: "h n = None"
    and once: "filter (\<lambda>j. hd softirq ! j = n) [0..<length (hd softirq) - 1] = [i]"
  shows "\<exists>pre post h1 m1 info. [0..<length (hd softirq) - 1] = pre @ i # post
    \<and> foldE (softirq_column clock softirq) (h, mi) pre = Inr (h1, m1) \<and> h1 n = None
    \<and> softirq_parse (clock i) softirq i = Inr info
    \<and> softirq_column clock softirq (h1, m1) i = Inr (h1(n \<mapsto> info), m1)
    \<and> foldE (softirq_column clock softirq) (h1(n \<mapsto> info), m1) post = Inr (h', mi')
    \<and> h' n = Some info"
proof -
  from once obtain pre post where cols: "[0..<length (hd softirq) - 1] = pre @ i # post"
    and pre: "\<forall>y\<in>set pre. \<not> hd softirq ! y = n"
    and post: "\<forall>y\<in>set post. \<not> hd softirq ! y = n"
    and nm: "hd softirq ! i = n"
    by (rule filter_single)
  from softirq_loop_Inr(3) [OF run] cols
  have "foldE (softirq_column clock softirq) (h, mi) (pre @ i # post) = Inr (h', mi')"
    by simp
  from foldE_split [OF this] obtain s1 s2
    where f1: "foldE (softirq_column clock softirq) (h, mi) pre = Inr s1"
    and step: "softirq_column clock softirq s1 i = Inr s2"
    and f2: "foldE (softirq_column clock softirq) s2 post = Inr (h', mi')"
    by blast
  obtain h1 m1 where s1: "s1 = (h1, m1)" by (cases s1)
  obtain h2 m2 where s2: "s2 = (h2, m2)" by (cases s2)
  have "fst s1 n = fst (h, mi) n"
  proof (rule foldE_preserves [OF f1])
    fix a y b assume "y \<in> set pre" "softirq_column clock softirq a y = Inr b"
    with pre show "fst b n = fst a n"
      using softirq_column_other(1) [of softirq y n clock "fst a" "snd a" "fst b" "snd b"] by simp
  qed
  with s1 new have h1: "h1 n = None" by simp
  have "fst (h', mi') n = fst s2 n"
  proof (rule foldE_preserves [OF f2])
    fix a y b assume "y \<in> set post" "softirq_column clock softirq a y = Inr b"
    with post show "fst b n = fst a n"
      using softirq_column_other(1) [of softirq y n clock "fst a" "snd a" "fst b" "snd b"] by simp
  qed
  with s2 have h': "h' n = h2 n" by simp
  from step s1 s2 have step': "softirq_column clock softirq (h1, m1) i = Inr (h2, m2)" by simp
  from softirq_column_Inr [OF step'] nm obtain info
    where p: "softirq_parse (clock i) softirq i = Inr info" and upd: "h2 = h1(n \<mapsto> info)"
      and none: "h1 n = None \<longrightarrow> m2 = m1"
    by (elim exE conjE) (rule that, simp_all)
  from none h1 have m: "m2 = m1" by simp
  have "[0..<length (hd softirq) - 1] = pre @ i # post" by (rule cols)
  moreover have "softirq_column clock softirq (h1, m1) i = Inr (h1(n \<mapsto> info), m1)"
    using step' upd m by simp
  moreover have "foldE (softirq_column clock softirq) (h1(n \<mapsto> info), m1) post = Inr (h', mi')"
    using f2 s2 upd m by simp
  moreover have "h' n = Some info" using h' upd by simp
  moreover have "foldE (softirq_column clock softirq) (h, mi) pre = Inr (h1, m1)"
    using f1 s1 by simp
  ultimately show ?thesis using h1 p by blast
qed

lemma first_record_cpu:
  assumes run: "cpu_loop stof (h, mi) records = Inr (h', mi')" and new: "h n = None"
    and once: "filter (\<lambda>x. cpu_entity x = Some n) records = [r]"
  shows "\<exists>pre post h1 m1 cs. records = pre @ r # post
    \<and> cpu_loop stof (h, mi) pre = Inr (h1, m1) \<and> h1 n = None
    \<and> cpu_parse stof r = Inr cs
    \<and> cpu_line stof (h1, m1) r = Inr (h1(n \<mapsto> cs), m1)
    \<and> cpu_loop stof (h1(n \<mapsto> cs), m1) post = Inr (h', mi')
    \<and> h' n = Some cs"
proof -
  from once obtain pre post where recs: "records = pre @ r # post"
    and pre: "\<forall>y\<in>set pre. \<not> cpu_entity y = Some n"
    and post: "\<forall>y\<in>set post. \<not> cpu_entity y = Some n"
    and ent: "cpu_entity r = Some n"
    by (rule filter_single)
  from ent have n: "n \<noteq> []"
    by (auto simp: cpu_entity_Some dest: contains_nonempty)
  from run recs have "foldE (cpu_line stof) (h, mi) (pre @ r # post) = Inr (h', mi')"
    by (simp add: cpu_loop_def)
  from foldE_split [OF this] obtain s1 s2 where f1: "foldE (cpu_line stof) (h, mi) pre = Inr s1"
    and step: "cpu_line stof s1 r = Inr s2" and f2: "foldE (cpu_line stof) s2 post = Inr (h', mi')"
    by blast
  obtain h1 m1 where s1: "s1 = (h1, m1)" by (cases s1)
  obtain h2 m2 where s2: "s2 = (h2, m2)" by (cases s2)
  have "fst s1 n = fst (h, mi) n"
  proof (rule foldE_preserves [OF f1])
    fix a y b assume "y \<in> set pre" "cpu_line stof a y = Inr b"
    with pre n show "fst b n = fst a n"
      using cpu_line_other(1) [of y n stof "fst a" "snd a" "fst b" "snd b"] by simp
  qed
  with s1 new have h1: "h1 n = None" by simp
  have "fst (h', mi') n = fst s2 n"
  proof (rule foldE_preserves [OF f2])
    fix a y b assume "y \<in> set post" "cpu_line stof a y = Inr b"
    with post n show "fst b n = fst a n"
      using cpu_line_other(1) [of y n stof "fst a" "snd a" "fst b" "snd b"] by simp
  qed
  with s2 have h': "h' n = h2 n" by simp
  from step s1 s2 have step': "cpu_line stof (h1, m1) r = Inr (h2, m2)" by simp
  from cpu_line_accepted [OF ent step'] obtain cs
    where p: "cpu_parse stof r = Inr cs" and upd: "h2 = h1(n \<mapsto> cs)"
      and none: "h1 n = None \<longrightarrow> m2 = m1"
    by (elim exE conjE) (rule that)
  from none h1 have m: "m2 = m1" by simp
  have "records = pre @ r # post" by (rule recs)
  moreover have "cpu_loop stof (h, mi) pre = Inr (h1, m1)" using f1 s1 by (simp add: cpu_loop_def)
  moreover have "cpu_line stof (h1, m1) r = Inr (h1(n \<mapsto> cs), m1)" using step' upd m by simp
  moreover have "cpu_loop stof (h1(n \<mapsto> cs), m1) post = Inr (h', mi')"
    using f2 s2 upd m by (simp add: cpu_loop_def)
  moreover have "h' n = Some cs" using h' upd by simp
  ultimately show ?thesis using h1 p by blast
qed

section \<open>The samplers on the example sources\<close>

lemma example_net_records_1:
  "stamp example_clock_1 (read_all example_net_dev_1) =
     [(1000000000, [''face'', ''|bytes'', ''packets'', ''errs'', ''drop|bytes'', ''packets'',
        ''errs'', ''drop'']),
      (1000000000, [''eth0:'', ''2048'', ''100'', ''0'', ''0'', ''0'', ''0'', ''0'', ''0'',
        ''0'', ''7'', ''0'', ''0'', ''0'', ''0'', ''0'', ''0''])]"
  by code_simp

lemma example_net_parse_1:
  "net_parse 1000000000 ''eth0'' [''eth0:'', ''2048'', ''100'', ''0'', ''0'', ''0'', ''0'', ''0'', ''0'',
        ''0'', ''7'', ''0'', ''0'', ''0'', ''0'', ''0'', ''0''] = Inr example_net_1"
  by code_simp

lemma example_net_run_1:
  "net_loop (Map.empty, mi) (stamp example_clock_1 (read_all example_net_dev_1))
     = Inr ([''eth0'' \<mapsto> example_net_1], mi)"
  by (simp add: example_net_records_1 net_loop_def net_line_def elem_at_def colon_is_last_def
      pop_back_def example_net_parse_1)

lemma example_net_once_1:
  "filter (\<lambda>x. net_entity (snd x) = Some ''eth0'') (stamp example_clock_1 (read_all example_net_dev_1))
     = [(1000000000, [''eth0:'', ''2048'', ''100'', ''0'', ''0'', ''0'', ''0'', ''0'', ''0'',
        ''0'', ''7'', ''0'', ''0'', ''0'', ''0'', ''0'', ''0''])]"
  by (simp add: example_net_records_1 net_entity_def net_is_interface_def colon_is_last_def)

lemma example_net_records_2:
  "stamp example_clock_2 (read_all example_net_dev_2) =
     [(6000000000, [''face'', ''|bytes'', ''packets'', ''errs'', ''drop|bytes'', ''packets'',
        ''errs'', ''drop'']),
      (6000000000, [''eth0:'', ''7168'', ''1100'', ''0'', ''0'', ''0'', ''0'', ''0'', ''0'',
        ''1024000'', ''57'', ''0'', ''0'', ''0'', ''0'', ''0'', ''0''])]"
  by code_simp

lemma example_net_parse_2:
  "net_parse 6000000000 ''eth0'' [''eth0:'', ''7168'', ''1100'', ''0'', ''0'', ''0'', ''0'', ''0'', ''0'',
        ''1024000'', ''57'', ''0'', ''0'', ''0'', ''0'', ''0'', ''0''] = Inr example_net_2"
  by code_simp

lemma example_net_rates:
  "net_rates example_net_2 example_net_1 5 =
     Inr \<lparr>pnet_name = ''eth0'', pnet_send_rate = 200, pnet_rcv_rate = 1,
          pnet_send_packets_rate = 10, pnet_rcv_packets_rate = 200\<rparr>"
  by (simp add: net_rates_def sub64_def INT64_MIN_def INT64_MAX_def example_net_1_def example_net_2_def)

lemma example_net_run_2:
  "net_loop ([''eth0'' \<mapsto> example_net_1], MonitorInfo_default)
       (stamp example_clock_2 (read_all example_net_dev_2))
     = Inr ([''eth0'' \<mapsto> example_net_2],
            MonitorInfo_default\<lparr>mi_net_info :=
              [\<lparr>pnet_name = ''eth0'', pnet_send_rate = 200, pnet_rcv_rate = 1,
                pnet_send_packets_rate = 10, pnet_rcv_packets_rate = 200\<rparr>]\<rparr>)"
proof -
  have period: "SteadyTimeSecond (net_timepoint example_net_2) (net_timepoint example_net_1) = 5"
    by (simp add: SteadyTimeSecond_def example_net_1_def example_net_2_def)
  show ?thesis
    by (simp add: example_net_records_2 net_loop_def net_line_def elem_at_def colon_is_last_def
        pop_back_def example_net_parse_2 period example_net_rates MonitorInfo_default_def)
qed

lemma example_softirq_records_1:
  "read_all example_softirqs_1 =
     [[''CPU0'', ''CPU1'', []],
      [''HI:'', ''100'', ''3''],
      [''TIMER:'', ''5000'', ''4000''],
      [''NET_TX:'', ''10'', ''0''],
      [''NET_RX:'', ''700'', ''20''],
      [''BLOCK:'', ''0'', ''0''],
      [''IRQ_POLL:'', ''0'', ''0''],
      [''TASKLET:'', ''36'', ''1''],
      [''SCHED:'', ''9000'', ''8000''],
      [''HRTIMER:'', ''0'', ''0''],
      [''RCU:'', ''4000'', ''3500'']]"
  by code_simp

lemma example_softirq_parse_1:
  "softirq_parse 1000000000
     [[''CPU0'', ''CPU1'', []],
      [''HI:'', ''100'', ''3''],
      [''TIMER:'', ''5000'', ''4000''],
      [''NET_TX:'', ''10'', ''0''],
      [''NET_RX:'', ''700'', ''20''],
      [''BLOCK:'', ''0'', ''0''],
      [''IRQ_POLL:'', ''0'', ''0''],
      [''TASKLET:'', ''36'', ''1''],
      [''SCHED:'', ''9000'', ''8000''],
      [''HRTIMER:'', ''0'', ''0''],
      [''RCU:'', ''4000'', ''3500'']] 0 = Inr example_irq_cpu0_1"
  "softirq_parse 1000000000
     [[''CPU0'', ''CPU1'', []],
      [''HI:'', ''100'', ''3''],
      [''TIMER:'', ''5000'', ''4000''],
      [''NET_TX:'', ''10'', ''0''],
      [''NET_RX:'', ''700'', ''20''],
      [''BLOCK:'', ''0'', ''0''],
      [''IRQ_POLL:'', ''0'', ''0''],
      [''TASKLET:'', ''36'', ''1''],
      [''SCHED:'', ''9000'', ''8000''],
      [''HRTIMER:'', ''0'', ''0''],
      [''RCU:'', ''4000'', ''3500'']] (Suc 0) = Inr example_irq_cpu1_1"
  by code_simp+

lemma example_softirq_records_2:
  "read_all example_softirqs_2 =
     [[''CPU0'', ''CPU1'', []],
      [''HI:'', ''1100'', ''3''],
      [''TIMER:'', ''5500'', ''4400''],
      [''NET_TX:'', ''10'', ''0''],
      [''NET_RX:'', ''1200'', ''20''],
      [''BLOCK:'', ''0'', ''0''],
      [''IRQ_POLL:'', ''0'', ''0''],
      [''TASKLET:'', ''41'', ''1''],
      [''SCHED:'', ''9250'', ''8100''],
      [''HRTIMER:'', ''0'', ''0''],
      [''RCU:'', ''4100'', ''3600'']]"
  by code_simp

lemma example_softirq_parse_2:
  "softirq_parse 6000000000
     [[''CPU0'', ''CPU1'', []],
      [''HI:'', ''1100'', ''3''],
      [''TIMER:'', ''5500'', ''4400''],
      [''NET_TX:'', ''10'', ''0''],
      [''NET_RX:'', ''1200'', ''20''],
      [''BLOCK:'', ''0'', ''0''],
      [''IRQ_POLL:'', ''0'', ''0''],
      [''TASKLET:'', ''41'', ''1''],
      [''SCHED:'', ''9250'', ''8100''],
      [''HRTIMER:'', ''0'', ''0''],
      [''RCU:'', ''4100'', ''3600'']] 0 = Inr example_irq_cpu0_2"
  "softirq_parse 6000000000
     [[''CPU0'', ''CPU1'', []],
      [''HI:'', ''1100'', ''3''],
      [''TIMER:'', ''5500'', ''4400''],
      [''NET_TX:'', ''10'', ''0''],
      [''NET_RX:'', ''1200'', ''20''],
      [''BLOCK:'', ''0'', ''0''],
      [''IRQ_POLL:'', ''0'', ''0''],
      [''TASKLET:'', ''41'', ''1''],
      [''SCHED:'', ''9250'', ''8100''],
      [''HRTIMER:'', ''0'', ''0''],
      [''RCU:'', ''4100'', ''3600'']] (Suc 0) = Inr example_irq_cpu1_2"
  by code_simp+

lemma example_softirq_run_1:
  "softirq_loop example_clock_1 (read_all example_softirqs_1) (Map.empty, mi)
     = Inr ([''CPU0'' \<mapsto> example_irq_cpu0_1, ''CPU1'' \<mapsto> example_irq_cpu1_1], mi)"
proof -
  have names: "irq_cpu_name example_irq_cpu0_1 = ''CPU0''" "irq_cpu_name example_irq_cpu1_1 = ''CPU1''"
    by (simp_all add: example_irq_cpu0_1_def example_irq_cpu1_1_def)
  show ?thesis
    by (simp add: softirq_loop_def example_softirq_records_1 elem_at_def softirq_column_def
        example_clock_1_def example_softirq_parse_1 names)
qed

lemma example_softirq_rates:
  "softirq_rates example_irq_cpu0_2 example_irq_cpu0_1 5 = Inr example_irq_msg_cpu0"
  "softirq_rates example_irq_cpu1_2 example_irq_cpu1_1 5 = Inr example_irq_msg_cpu1"
  by (simp_all add: softirq_rates_def sub64_def INT64_MIN_def INT64_MAX_def example_irq_cpu0_1_def
      example_irq_cpu0_2_def example_irq_cpu1_1_def example_irq_cpu1_2_def example_irq_msg_cpu0_def
      example_irq_msg_cpu1_def)

lemma example_softirq_run_2:
  "softirq_loop example_clock_2 (read_all example_softirqs_2)
       ([''CPU0'' \<mapsto> example_irq_cpu0_1, ''CPU1'' \<mapsto> example_irq_cpu1_1], MonitorInfo_default)
     = Inr ([''CPU0'' \<mapsto> example_irq_cpu0_2, ''CPU1'' \<mapsto> example_irq_cpu1_2],
            MonitorInfo_default\<lparr>mi_soft_irq := [example_irq_msg_cpu0, example_irq_msg_cpu1]\<rparr>)"
proof -
  have names: "irq_cpu_name example_irq_cpu0_2 = ''CPU0''" "irq_cpu_name example_irq_cpu1_2 = ''CPU1''"
    by (simp_all add: example_irq_cpu0_2_def example_irq_cpu1_2_def)
  have period:
    "SteadyTimeSecond (irq_timepoint example_irq_cpu0_2) (irq_timepoint example_irq_cpu0_1) = 5"
    "SteadyTimeSecond (irq_timepoint example_irq_cpu1_2) (irq_timepoint example_irq_cpu1_1) = 5"
    by (simp_all add: SteadyTimeSecond_def example_irq_cpu0_1_def example_irq_cpu0_2_def
        example_irq_cpu1_1_def example_irq_cpu1_2_def)
  show ?thesis
    by (simp add: softirq_loop_def example_softirq_records_2 elem_at_def softirq_column_def
        example_clock_2_def example_softirq_parse_2 names period example_softirq_rates
        MonitorInfo_default_def)
qed

lemma example_softirq_once:
  "filter (\<lambda>j. hd (read_all example_softirqs_1) ! j = ''CPU0'')
       [0..<length (hd (read_all example_softirqs_1)) - 1] = [0]"
  "filter (\<lambda>j. hd (read_all example_softirqs_2) ! j = ''CPU0'')
       [0..<length (hd (read_all example_softirqs_2)) - 1] = [0]"
  by (simp_all add: example_softirq_records_1 example_softirq_records_2)

lemma example_stat_records:
  "read_all example_stat_1 =
     [[''cpu0'', ''100'', ''0'', ''50'', ''800'', ''10'', ''0'', ''5'', ''0'', ''0'', ''0''],
      [''intr'', ''12345'', ''0'', ''9'']]"
  "read_all example_stat_2 =
     [[''cpu0'', ''400'', ''0'', ''150'', ''1400'', ''10'', ''0'', ''5'', ''0'', ''0'', ''0''],
      [''intr'', ''12399'', ''0'', ''9'']]"
  by code_simp+

lemma example_stat_parse:
  "cpu_parse stof_integer
     [''cpu0'', ''100'', ''0'', ''50'', ''800'', ''10'', ''0'', ''5'', ''0'', ''0'', ''0'']
     = Inr example_stat_cpu0_1"
  "cpu_parse stof_integer
     [''cpu0'', ''400'', ''0'', ''150'', ''1400'', ''10'', ''0'', ''5'', ''0'', ''0'', ''0'']
     = Inr example_stat_cpu0_2"
  by code_simp+

lemma example_stat_run_1:
  "cpu_loop stof_integer (Map.empty, mi) (read_all example_stat_1)
     = Inr ([''cpu0'' \<mapsto> example_stat_cpu0_1], mi)"
proof -
  have name: "stat_cpu_name example_stat_cpu0_1 = ''cpu0''"
    by (simp add: example_stat_cpu0_1_def)
  show ?thesis
    by (simp add: example_stat_records cpu_loop_def cpu_line_def elem_at_def example_stat_parse name)
qed

lemma example_stat_run_2:
  "cpu_loop stof_integer ([''cpu0'' \<mapsto> example_stat_cpu0_1], MonitorInfo_default)
       (read_all example_stat_2)
     = Inr ([''cpu0'' \<mapsto> example_stat_cpu0_2],
            MonitorInfo_default\<lparr>mi_cpu_stat :=
              [cpu_message example_stat_cpu0_2 example_stat_cpu0_1]\<rparr>)"
proof -
  have name: "stat_cpu_name example_stat_cpu0_2 = ''cpu0''"
    by (simp add: example_stat_cpu0_2_def)
  show ?thesis
    by (simp add: example_stat_records cpu_loop_def cpu_line_def elem_at_def example_stat_parse name
        MonitorInfo_default_def)
qed

lemma example_stat_message:
  "cpu_message example_stat_cpu0_2 example_stat_cpu0_1 =
     \<lparr>pstat_cpu_name = ''cpu0'', pstat_cpu_percent = 40, pstat_usr_percent = 15728641 / 524288,
      pstat_system_percent = 10, pstat_nice_percent = 0, pstat_idle_percent = 15728641 / 262144,
      pstat_io_wait_percent = 0, pstat_irq_percent = 0, pstat_soft_irq_percent = 0\<rparr>"
  by code_simp

lemma example_stat_once:
  "filter (\<lambda>x. cpu_entity x = Some ''cpu0'') (read_all example_stat_1)
     = [[''cpu0'', ''100'', ''0'', ''50'', ''800'', ''10'', ''0'', ''5'', ''0'', ''0'', ''0'']]"
  "filter (\<lambda>x. cpu_entity x = Some ''cpu0'') (read_all example_stat_2)
     = [[''cpu0'', ''400'', ''0'', ''150'', ''1400'', ''10'', ''0'', ''5'', ''0'', ''0'', ''0'']]"
  by (simp_all add: example_stat_records cpu_entity_def)

section \<open>An entity with an earlier sample\<close>

lemma rates_net:
  assumes run: "net_loop (h, mi) trs = Inr (h', mi')" and prev: "h n = Some old"
    and once: "filter (\<lambda>x. net_entity (snd x) = Some n) trs = [(t, r)]"
    and pos: "0 < SteadyTimeSecond t (net_timepoint old)"
  shows "\<exists>info. net_parse t n r = Inr info \<and> h' n = Some info
    \<and> filter (\<lambda>m. pnet_name m = n) (mi_net_info mi')
        = filter (\<lambda>m. pnet_name m = n) (mi_net_info mi)
          @ [\<lparr>pnet_name = n,
              pnet_send_rate = real_of_int (net_snd_bytes info - net_snd_bytes old) / 1024
                / SteadyTimeSecond t (net_timepoint old),
              pnet_rcv_rate = real_of_int (net_rcv_bytes info - net_rcv_bytes old) / 1024
                / SteadyTimeSecond t (net_timepoint old),
              pnet_send_packets_rate = real_of_int (net_snd_packets info - net_snd_packets old)
                / SteadyTimeSecond t (net_timepoint old),
              pnet_rcv_packets_rate = real_of_int (net_rcv_packets info - net_rcv_packets old)
                / SteadyTimeSecond t (net_timepoint old)\<rparr>]"
proof -
  from run once obtain h1 mi1 h2 mi2 where h1: "h1 n = h n"
    and f1: "filter (\<lambda>m. pnet_name m = n) (mi_net_info mi1) = filter (\<lambda>m. pnet_name m = n) (mi_net_info mi)"
    and step: "net_line (h1, mi1) (t, r) = Inr (h2, mi2)"
    and h2: "h' n = h2 n"
    and f2: "filter (\<lambda>m. pnet_name m = n) (mi_net_info mi') = filter (\<lambda>m. pnet_name m = n) (mi_net_info mi2)"
    and acc: "net_is_interface r" and nm: "butlast (hd r) = n"
    by (rule net_loop_once)
  from net_line_accepted [OF acc step] nm obtain info
    where p: "net_parse t n r = Inr info" and upd: "h2 = h1(n \<mapsto> info)"
      and gt: "\<forall>old. h1 n = Some old \<and> SteadyTimeSecond t (net_timepoint old) > 0
                 \<longrightarrow> (\<exists>msg. net_rates info old (SteadyTimeSecond t (net_timepoint old)) = Inr msg
                       \<and> mi2 = mi1\<lparr>mi_net_info := mi_net_info mi1 @ [msg]\<rparr>)"
    by (elim exE conjE) (rule that, simp_all)
  from gt h1 prev pos obtain msg
    where r: "net_rates info old (SteadyTimeSecond t (net_timepoint old)) = Inr msg"
      and m: "mi2 = mi1\<lparr>mi_net_info := mi_net_info mi1 @ [msg]\<rparr>"
    by auto
  from p have "net_name info = n" by (rule net_parse_Inr)
  with net_rates_Inr [OF r] have msg: "msg = \<lparr>pnet_name = n,
      pnet_send_rate = real_of_int (net_snd_bytes info - net_snd_bytes old) / 1024
        / SteadyTimeSecond t (net_timepoint old),
      pnet_rcv_rate = real_of_int (net_rcv_bytes info - net_rcv_bytes old) / 1024
        / SteadyTimeSecond t (net_timepoint old),
      pnet_send_packets_rate = real_of_int (net_snd_packets info - net_snd_packets old)
        / SteadyTimeSecond t (net_timepoint old),
      pnet_rcv_packets_rate = real_of_int (net_rcv_packets info - net_rcv_packets old)
        / SteadyTimeSecond t (net_timepoint old)\<rparr>"
    by simp
  then have "pnet_name msg = n" by simp
  with m f1 f2 have "filter (\<lambda>m. pnet_name m = n) (mi_net_info mi')
      = filter (\<lambda>m. pnet_name m = n) (mi_net_info mi) @ [msg]"
    by simp
  with msg p upd h2 show ?thesis by (intro exI [of _ info]) simp
qed

lemma rates_softirq:
  assumes run: "softirq_loop clock softirq (h, mi) = Inr (h', mi')" and prev: "h c = Some old"
    and once: "filter (\<lambda>j. hd softirq ! j = c) [0..<length (hd softirq) - 1] = [i]"
    and pos: "0 < SteadyTimeSecond (clock i) (irq_timepoint old)"
  shows "\<exists>info. softirq_parse (clock i) softirq i = Inr info \<and> h' c = Some info
    \<and> filter (\<lambda>m. pirq_cpu m = c) (mi_soft_irq mi')
        = filter (\<lambda>m. pirq_cpu m = c) (mi_soft_irq mi)
          @ [\<lparr>pirq_cpu = c,
              pirq_hi = real_of_int (irq_hi info - irq_hi old) / SteadyTimeSecond (clock i) (irq_timepoint old),
              pirq_timer = real_of_int (irq_timer info - irq_timer old) / SteadyTimeSecond (clock i) (irq_timepoint old),
              pirq_net_tx = real_of_int (irq_net_tx info - irq_net_tx old) / SteadyTimeSecond (clock i) (irq_timepoint old),
              pirq_net_rx = real_of_int (irq_net_rx info - irq_net_rx old) / SteadyTimeSecond (clock i) (irq_timepoint old),
              pirq_block = real_of_int (irq_block info - irq_block old) / SteadyTimeSecond (clock i) (irq_timepoint old),
              pirq_irq_poll = real_of_int (irq_irq_poll info - irq_irq_poll old) / SteadyTimeSecond (clock i) (irq_timepoint old),
              pirq_tasklet = real_of_int (irq_tasklet info - irq_tasklet old) / SteadyTimeSecond (clock i) (irq_timepoint old),
              pirq_sched = real_of_int (irq_sched info - irq_sched old) / SteadyTimeSecond (clock i) (irq_timepoint old),
              pirq_hrtimer = real_of_int (irq_hrtimer info - irq_hrtimer old) / SteadyTimeSecond (clock i) (irq_timepoint old),
              pirq_rcu = real_of_int (irq_rcu info - irq_rcu old) / SteadyTimeSecond (clock i) (irq_timepoint old)\<rparr>]"
proof -
  from run once obtain h1 mi1 h2 mi2 where h1: "h1 c = h c"
    and f1: "filter (\<lambda>m. pirq_cpu m = c) (mi_soft_irq mi1) = filter (\<lambda>m. pirq_cpu m = c) (mi_soft_irq mi)"
    and step: "softirq_column clock softirq (h1, mi1) i = Inr (h2, mi2)"
    and h2: "h' c = h2 c"
    and f2: "filter (\<lambda>m. pirq_cpu m = c) (mi_soft_irq mi') = filter (\<lambda>m. pirq_cpu m = c) (mi_soft_irq mi2)"
    and nm: "hd softirq ! i = c"
    by (rule softirq_loop_once)
  from softirq_column_Inr [OF step] nm obtain info
    where p: "softirq_parse (clock i) softirq i = Inr info" and upd: "h2 = h1(c \<mapsto> info)"
      and gt: "\<forall>old. h1 c = Some old \<and> SteadyTimeSecond (clock i) (irq_timepoint old) > 0
                 \<longrightarrow> (\<exists>msg. softirq_rates info old (SteadyTimeSecond (clock i) (irq_timepoint old)) = Inr msg
                       \<and> mi2 = mi1\<lparr>mi_soft_irq := mi_soft_irq mi1 @ [msg]\<rparr>)"
    by (elim exE conjE) (rule that, simp_all)
  from gt h1 prev pos obtain msg
    where r: "softirq_rates info old (SteadyTimeSecond (clock i) (irq_timepoint old)) = Inr msg"
      and m: "mi2 = mi1\<lparr>mi_soft_irq := mi_soft_irq mi1 @ [msg]\<rparr>"
    by auto
  from p nm have "irq_cpu_name info = c" by (simp add: softirq_parse_Inr(3))
  with softirq_rates_Inr [OF r] have msg: "msg = \<lparr>pirq_cpu = c,
              pirq_hi = real_of_int (irq_hi info - irq_hi old) / SteadyTimeSecond (clock i) (irq_timepoint old),
              pirq_timer = real_of_int (irq_timer info - irq_timer old) / SteadyTimeSecond (clock i) (irq_timepoint old),
              pirq_net_tx = real_of_int (irq_net_tx info - irq_net_tx old) / SteadyTimeSecond (clock i) (irq_timepoint old),
              pirq_net_rx = real_of_int (irq_net_rx info - irq_net_rx old) / SteadyTimeSecond (clock i) (irq_timepoint old),
              pirq_block = real_of_int (irq_block info - irq_block old) / SteadyTimeSecond (clock i) (irq_timepoint old),
              pirq_irq_poll = real_of_int (irq_irq_poll info - irq_irq_poll old) / SteadyTimeSecond (clock i) (irq_timepoint old),
              pirq_tasklet = real_of_int (irq_tasklet info - irq_tasklet old) / SteadyTimeSecond (clock i) (irq_timepoint old),
              pirq_sched = real_of_int (irq_sched info - irq_sched old) / SteadyTimeSecond (clock i) (irq_timepoint old),
              pirq_hrtimer = real_of_int (irq_hrtimer info - irq_hrtimer old) / SteadyTimeSecond (clock i) (irq_timepoint old),
              pirq_rcu = real_of_int (irq_rcu info - irq_rcu old) / SteadyTimeSecond (clock i) (irq_timepoint old)\<rparr>"
    by simp
  then have "pirq_cpu msg = c" by simp
  with m f1 f2 have "filter (\<lambda>m. pirq_cpu m = c) (mi_soft_irq mi')
      = filter (\<lambda>m. pirq_cpu m = c) (mi_soft_irq mi) @ [msg]"
    by simp
  with msg p upd h2 show ?thesis by (intro exI [of _ info]) simp
qed

lemma elapsed_guard_net:
  assumes run: "net_loop (h, mi) trs = Inr (h', mi')" and prev: "h n = Some old"
    and once: "filter (\<lambda>x. net_entity (snd x) = Some n) trs = [(t, r)]"
    and guard: "\<not> 0 < SteadyTimeSecond t (net_timepoint old)"
  shows "filter (\<lambda>m. pnet_name m = n) (mi_net_info mi') = filter (\<lambda>m. pnet_name m = n) (mi_net_info mi)
    \<and> (\<exists>info. net_parse t n r = Inr info \<and> h' n = Some info)"
proof -
  from run once obtain h1 mi1 h2 mi2 where h1: "h1 n = h n"
    and f1: "filter (\<lambda>m. pnet_name m = n) (mi_net_info mi1) = filter (\<lambda>m. pnet_name m = n) (mi_net_info mi)"
    and step: "net_line (h1, mi1) (t, r) = Inr (h2, mi2)"
    and h2: "h' n = h2 n"
    and f2: "filter (\<lambda>m. pnet_name m = n) (mi_net_info mi') = filter (\<lambda>m. pnet_name m = n) (mi_net_info mi2)"
    and acc: "net_is_interface r" and nm: "butlast (hd r) = n"
    by (rule net_loop_once)
  from net_line_accepted [OF acc step] nm obtain info
    where p: "net_parse t n r = Inr info" and upd: "h2 = h1(n \<mapsto> info)"
      and le: "\<forall>old. h1 n = Some old \<and> \<not> SteadyTimeSecond t (net_timepoint old) > 0
                 \<longrightarrow> mi2 = mi1"
    by (elim exE conjE) (rule that, simp_all)
  from le h1 prev guard have "mi2 = mi1" by simp
  with f1 f2 p upd h2 show ?thesis by simp
qed

lemma elapsed_guard_softirq:
  assumes run: "softirq_loop clock softirq (h, mi) = Inr (h', mi')" and prev: "h c = Some old"
    and once: "filter (\<lambda>j. hd softirq ! j = c) [0..<length (hd softirq) - 1] = [i]"
    and guard: "\<not> 0 < SteadyTimeSecond (clock i) (irq_timepoint old)"
  shows "filter (\<lambda>m. pirq_cpu m = c) (mi_soft_irq mi') = filter (\<lambda>m. pirq_cpu m = c) (mi_soft_irq mi)
    \<and> (\<exists>info. softirq_parse (clock i) softirq i = Inr info \<and> h' c = Some info)"
proof -
  from run once obtain h1 mi1 h2 mi2 where h1: "h1 c = h c"
    and f1: "filter (\<lambda>m. pirq_cpu m = c) (mi_soft_irq mi1) = filter (\<lambda>m. pirq_cpu m = c) (mi_soft_irq mi)"
    and step: "softirq_column clock softirq (h1, mi1) i = Inr (h2, mi2)"
    and h2: "h' c = h2 c"
    and f2: "filter (\<lambda>m. pirq_cpu m = c) (mi_soft_irq mi') = filter (\<lambda>m. pirq_cpu m = c) (mi_soft_irq mi2)"
    and nm: "hd softirq ! i = c"
    by (rule softirq_loop_once)
  from softirq_column_Inr [OF step] nm obtain info
    where p: "softirq_parse (clock i) softirq i = Inr info" and upd: "h2 = h1(c \<mapsto> info)"
      and le: "\<forall>old. h1 c = Some old \<and> \<not> SteadyTimeSecond (clock i) (irq_timepoint old) > 0
                 \<longrightarrow> mi2 = mi1"
    by (elim exE conjE) (rule that, simp_all)
  from le h1 prev guard have "mi2 = mi1" by simp
  with f1 f2 p upd h2 show ?thesis by simp
qed

lemma cpu_message_guest:
  "cpu_message (cs\<lparr>stat_guest := g, stat_guest_nice := gn\<rparr>)
       (old\<lparr>stat_guest := g', stat_guest_nice := gn'\<rparr>) = cpu_message cs old"
  by (simp add: cpu_message_def Let_def)

lemma percentages_cpu:
  assumes run: "cpu_loop stof (h, mi) records = Inr (h', mi')" and prev: "h n = Some old"
    and once: "filter (\<lambda>x. cpu_entity x = Some n) records = [r]"
    and parse: "cpu_parse stof r = Inr cs"
  shows "h' n = Some cs
    \<and> filter (\<lambda>m. pstat_cpu_name m = n) (mi_cpu_stat mi')
      = filter (\<lambda>m. pstat_cpu_name m = n) (mi_cpu_stat mi)
        @ filter (\<lambda>m. pstat_cpu_name m = n) [cpu_message cs old]
    \<and> stat_cpu_name cs = n"
proof -
  from run once obtain h1 mi1 h2 mi2 where h1: "h1 n = h n"
    and f1: "filter (\<lambda>m. pstat_cpu_name m = n) (mi_cpu_stat mi1)
             = filter (\<lambda>m. pstat_cpu_name m = n) (mi_cpu_stat mi)"
    and step: "cpu_line stof (h1, mi1) r = Inr (h2, mi2)"
    and h2: "h' n = h2 n"
    and f2: "filter (\<lambda>m. pstat_cpu_name m = n) (mi_cpu_stat mi')
             = filter (\<lambda>m. pstat_cpu_name m = n) (mi_cpu_stat mi2)"
    and ent: "cpu_entity r = Some n"
    by (rule cpu_loop_once)
  from cpu_line_accepted [OF ent step] parse obtain
    upd: "h2 = h1(n \<mapsto> cs)"
      and some: "\<forall>old. h1 n = Some old
                   \<longrightarrow> mi2 = mi1\<lparr>mi_cpu_stat := mi_cpu_stat mi1 @ [cpu_message cs old]\<rparr>"
    by (elim exE conjE) (rule that, simp_all)
  from some h1 prev have m: "mi2 = mi1\<lparr>mi_cpu_stat := mi_cpu_stat mi1 @ [cpu_message cs old]\<rparr>"
    by simp
  from parse ent have nm: "stat_cpu_name cs = n"
    by (simp add: cpu_parse_Inr(2) cpu_entity_Some)
  from m f1 f2 upd h2 nm show ?thesis by simp
qed

section \<open>Facts about the memory sampler\<close>

lemma mem_line_label:
  assumes "mem_line a r = Inr b"
  obtains label where "elem_at r 0 = Inr label" and "r \<noteq> []" and "hd r = label"
proof -
  from assms obtain label where r: "elem_at r 0 = Inr label"
    unfolding mem_line_def bindE_eq_Inr by blast
  then have "r \<noteq> []" and "hd r = label"
    by (auto simp: elem_at_eq_Inr hd_conv_nth)
  with r show ?thesis by (rule that)
qed

lemma mem_line_total:
  assumes run: "mem_line a r = Inr b"
  shows "if hd r = ''MemTotal:'' then bindE (elem_at r 1) stoll = Inr (mem_total b)
         else mem_total b = mem_total a"
proof -
  from run obtain label where r: "elem_at r 0 = Inr label" and hd: "hd r = label"
    by (rule mem_line_label)
  show ?thesis
  proof (cases "label = ''MemTotal:''")
    case True
    with run r have "bindE (bindE (elem_at r 1) stoll) (\<lambda>v. Inr (a\<lparr>mem_total := v\<rparr>)) = Inr b"
      by (simp add: mem_line_def)
    then obtain v where "bindE (elem_at r 1) stoll = Inr v" and "b = a\<lparr>mem_total := v\<rparr>"
      unfolding bindE_eq_Inr [of "bindE (elem_at r 1) stoll"] by auto
    with True hd show ?thesis by simp
  next
    case False
    from run r have "mem_total b = mem_total a \<or> label = ''MemTotal:''"
      unfolding mem_line_def bindE_Inr
      by (simp split: if_splits add: bindE_eq_Inr) auto
    with False hd show ?thesis by simp
  qed
qed

lemma mem_line_free:
  assumes run: "mem_line a r = Inr b"
  shows "if hd r = ''MemFree:'' then bindE (elem_at r 1) stoll = Inr (mem_free b)
         else mem_free b = mem_free a"
proof -
  from run obtain label where r: "elem_at r 0 = Inr label" and hd: "hd r = label"
    by (rule mem_line_label)
  show ?thesis
  proof (cases "label = ''MemFree:''")
    case True
    with run r have "bindE (bindE (elem_at r 1) stoll) (\<lambda>v. Inr (a\<lparr>mem_free := v\<rparr>)) = Inr b"
      by (simp add: mem_line_def)
    then obtain v where "bindE (elem_at r 1) stoll = Inr v" and "b = a\<lparr>mem_free := v\<rparr>"
      unfolding bindE_eq_Inr [of "bindE (elem_at r 1) stoll"] by auto
    with True hd show ?thesis by simp
  next
    case False
    from run r have "mem_free b = mem_free a \<or> label = ''MemFree:''"
      unfolding mem_line_def bindE_Inr
      by (simp split: if_splits add: bindE_eq_Inr) auto
    with False hd show ?thesis by simp
  qed
qed

lemma mem_line_avail:
  assumes run: "mem_line a r = Inr b"
  shows "if hd r = ''MemAvailable:'' then bindE (elem_at r 1) stoll = Inr (mem_avail b)
         else mem_avail b = mem_avail a"
proof -
  from run obtain label where r: "elem_at r 0 = Inr label" and hd: "hd r = label"
    by (rule mem_line_label)
  show ?thesis
  proof (cases "label = ''MemAvailable:''")
    case True
    with run r have "bindE (bindE (elem_at r 1) stoll) (\<lambda>v. Inr (a\<lparr>mem_avail := v\<rparr>)) = Inr b"
      by (simp add: mem_line_def)
    then obtain v where "bindE (elem_at r 1) stoll = Inr v" and "b = a\<lparr>mem_avail := v\<rparr>"
      unfolding bindE_eq_Inr [of "bindE (elem_at r 1) stoll"] by auto
    with True hd show ?thesis by simp
  next
    case False
    from run r have "mem_avail b = mem_avail a \<or> label = ''MemAvailable:''"
      unfolding mem_line_def bindE_Inr
      by (simp split: if_splits add: bindE_eq_Inr) auto
    with False hd show ?thesis by simp
  qed
qed

lemma mem_line_buffers:
  assumes run: "mem_line a r = Inr b"
  shows "if hd r = ''Buffers:'' then bindE (elem_at r 1) stoll = Inr (mem_buffers b)
         else mem_buffers b = mem_buffers a"
proof -
  from run obtain label where r: "elem_at r 0 = Inr label" and hd: "hd r = label"
    by (rule mem_line_label)
  show ?thesis
  proof (cases "label = ''Buffers:''")
    case True
    with run r have "bindE (bindE (elem_at r 1) stoll) (\<lambda>v. Inr (a\<lparr>mem_buffers := v\<rparr>)) = Inr b"
      by (simp add: mem_line_def)
    then obtain v where "bindE (elem_at r 1) stoll = Inr v" and "b = a\<lparr>mem_buffers := v\<rparr>"
      unfolding bindE_eq_Inr [of "bindE (elem_at r 1) stoll"] by auto
    with True hd show ?thesis by simp
  next
    case False
    from run r have "mem_buffers b = mem_buffers a \<or> label = ''Buffers:''"
      unfolding mem_line_def bindE_Inr
      by (simp split: if_splits add: bindE_eq_Inr) auto
    with False hd show ?thesis by simp
  qed
qed

lemma mem_line_cached:
  assumes run: "mem_line a r = Inr b"
  shows "if hd r = ''Cached:'' then bindE (elem_at r 1) stoll = Inr (mem_cached b)
         else mem_cached b = mem_cached a"
proof -
  from run obtain label where r: "elem_at r 0 = Inr label" and hd: "hd r = label"
    by (rule mem_line_label)
  show ?thesis
  proof (cases "label = ''Cached:''")
    case True
    with run r have "bindE (bindE (elem_at r 1) stoll) (\<lambda>v. Inr (a\<lparr>mem_cached := v\<rparr>)) = Inr b"
      by (simp add: mem_line_def)
    then obtain v where "bindE (elem_at r 1) stoll = Inr v" and "b = a\<lparr>mem_cached := v\<rparr>"
      unfolding bindE_eq_Inr [of "bindE (elem_at r 1) stoll"] by auto
    with True hd show ?thesis by simp
  next
    case False
    from run r have "mem_cached b = mem_cached a \<or> label = ''Cached:''"
      unfolding mem_line_def bindE_Inr
      by (simp split: if_splits add: bindE_eq_Inr) auto
    with False hd show ?thesis by simp
  qed
qed

lemma mem_line_swap_cached:
  assumes run: "mem_line a r = Inr b"
  shows "if hd r = ''SwapCached:'' then bindE (elem_at r 1) stoll = Inr (mem_swap_cached b)
         else mem_swap_cached b = mem_swap_cached a"
proof -
  from run obtain label where r: "elem_at r 0 = Inr label" and hd: "hd r = label"
    by (rule mem_line_label)
  show ?thesis
  proof (cases "label = ''SwapCached:''")
    case True
    with run r have "bindE (bindE (elem_at r 1) stoll) (\<lambda>v. Inr (a\<lparr>mem_swap_cached := v\<rparr>)) = Inr b"
      by (simp add: mem_line_def)
    then obtain v where "bindE (elem_at r 1) stoll = Inr v" and "b = a\<lparr>mem_swap_cached := v\<rparr>"
      unfolding bindE_eq_Inr [of "bindE (elem_at r 1) stoll"] by auto
    with True hd show ?thesis by simp
  next
    case False
    from run r have "mem_swap_cached b = mem_swap_cached a \<or> label = ''SwapCached:''"
      unfolding mem_line_def bindE_Inr
      by (simp split: if_splits add: bindE_eq_Inr) auto
    with False hd show ?thesis by simp
  qed
qed

lemma mem_line_active:
  assumes run: "mem_line a r = Inr b"
  shows "if hd r = ''Active:'' then bindE (elem_at r 1) stoll = Inr (mem_active b)
         else mem_active b = mem_active a"
proof -
  from run obtain label where r: "elem_at r 0 = Inr label" and hd: "hd r = label"
    by (rule mem_line_label)
  show ?thesis
  proof (cases "label = ''Active:''")
    case True
    with run r have "bindE (bindE (elem_at r 1) stoll) (\<lambda>v. Inr (a\<lparr>mem_active := v\<rparr>)) = Inr b"
      by (simp add: mem_line_def)
    then obtain v where "bindE (elem_at r 1) stoll = Inr v" and "b = a\<lparr>mem_active := v\<rparr>"
      unfolding bindE_eq_Inr [of "bindE (elem_at r 1) stoll"] by auto
    with True hd show ?thesis by simp
  next
    case False
    from run r have "mem_active b = mem_active a \<or> label = ''Active:''"
      unfolding mem_line_def bindE_Inr
      by (simp split: if_splits add: bindE_eq_Inr) auto
    with False hd show ?thesis by simp
  qed
qed

lemma mem_line_in_active:
  assumes run: "mem_line a r = Inr b"
  shows "if hd r = ''Inactive:'' then bindE (elem_at r 1) stoll = Inr (mem_in_active b)
         else mem_in_active b = mem_in_active a"
proof -
  from run obtain label where r: "elem_at r 0 = Inr label" and hd: "hd r = label"
    by (rule mem_line_label)
  show ?thesis
  proof (cases "label = ''Inactive:''")
    case True
    with run r have "bindE (bindE (elem_at r 1) stoll) (\<lambda>v. Inr (a\<lparr>mem_in_active := v\<rparr>)) = Inr b"
      by (simp add: mem_line_def)
    then obtain v where "bindE (elem_at r 1) stoll = Inr v" and "b = a\<lparr>mem_in_active := v\<rparr>"
      unfolding bindE_eq_Inr [of "bindE (elem_at r 1) stoll"] by auto
    with True hd show ?thesis by simp
  next
    case False
    from run r have "mem_in_active b = mem_in_active a \<or> label = ''Inactive:''"
      unfolding mem_line_def bindE_Inr
      by (simp split: if_splits add: bindE_eq_Inr) auto
    with False hd show ?thesis by simp
  qed
qed

lemma mem_line_active_anon:
  assumes run: "mem_line a r = Inr b"
  shows "if hd r = ''Active(anon):'' then bindE (elem_at r 1) stoll = Inr (mem_active_anon b)
         else mem_active_anon b = mem_active_anon a"
proof -
  from run obtain label where r: "elem_at r 0 = Inr label" and hd: "hd r = label"
    by (rule mem_line_label)
  show ?thesis
  proof (cases "label = ''Active(anon):''")
    case True
    with run r have "bindE (bindE (elem_at r 1) stoll) (\<lambda>v. Inr (a\<lparr>mem_active_anon := v\<rparr>)) = Inr b"
      by (simp add: mem_line_def)
    then obtain v where "bindE (elem_at r 1) stoll = Inr v" and "b = a\<lparr>mem_active_anon := v\<rparr>"
      unfolding bindE_eq_Inr [of "bindE (elem_at r 1) stoll"] by auto
    with True hd show ?thesis by simp
  next
    case False
    from run r have "mem_active_anon b = mem_active_anon a \<or> label = ''Active(anon):''"
      unfolding mem_line_def bindE_Inr
      by (simp split: if_splits add: bindE_eq_Inr) auto
    with False hd show ?thesis by simp
  qed
qed

lemma mem_line_inactive_anon:
  assumes run: "mem_line a r = Inr b"
  shows "if hd r = ''Inactive(anon):'' then bindE (elem_at r 1) stoll = Inr (mem_inactive_anon b)
         else mem_inactive_anon b = mem_inactive_anon a"
proof -
  from run obtain label where r: "elem_at r 0 = Inr label" and hd: "hd r = label"
    by (rule mem_line_label)
  show ?thesis
  proof (cases "label = ''Inactive(anon):''")
    case True
    with run r have "bindE (bindE (elem_at r 1) stoll) (\<lambda>v. Inr (a\<lparr>mem_inactive_anon := v\<rparr>)) = Inr b"
      by (simp add: mem_line_def)
    then obtain v where "bindE (elem_at r 1) stoll = Inr v" and "b = a\<lparr>mem_inactive_anon := v\<rparr>"
      unfolding bindE_eq_Inr [of "bindE (elem_at r 1) stoll"] by auto
    with True hd show ?thesis by simp
  next
    case False
    from run r have "mem_inactive_anon b = mem_inactive_anon a \<or> label = ''Inactive(anon):''"
      unfolding mem_line_def bindE_Inr
      by (simp split: if_splits add: bindE_eq_Inr) auto
    with False hd show ?thesis by simp
  qed
qed

lemma mem_line_active_file:
  assumes run: "mem_line a r = Inr b"
  shows "if hd r = ''Active(file):'' then bindE (elem_at r 1) stoll = Inr (mem_active_file b)
         else mem_active_file b = mem_active_file a"
proof -
  from run obtain label where r: "elem_at r 0 = Inr label" and hd: "hd r = label"
    by (rule mem_line_label)
  show ?thesis
  proof (cases "label = ''Active(file):''")
    case True
    with run r have "bindE (bindE (elem_at r 1) stoll) (\<lambda>v. Inr (a\<lparr>mem_active_file := v\<rparr>)) = Inr b"
      by (simp add: mem_line_def)
    then obtain v where "bindE (elem_at r 1) stoll = Inr v" and "b = a\<lparr>mem_active_file := v\<rparr>"
      unfolding bindE_eq_Inr [of "bindE (elem_at r 1) stoll"] by auto
    with True hd show ?thesis by simp
  next
    case False
    from run r have "mem_active_file b = mem_active_file a \<or> label = ''Active(file):''"
      unfolding mem_line_def bindE_Inr
      by (simp split: if_splits add: bindE_eq_Inr) auto
    with False hd show ?thesis by simp
  qed
qed

lemma mem_line_inactive_file:
  assumes run: "mem_line a r = Inr b"
  shows "if hd r = ''Inactive(file):'' then bindE (elem_at r 1) stoll = Inr (mem_inactive_file b)
         else mem_inactive_file b = mem_inactive_file a"
proof -
  from run obtain label where r: "elem_at r 0 = Inr label" and hd: "hd r = label"
    by (rule mem_line_label)
  show ?thesis
  proof (cases "label = ''Inactive(file):''")
    case True
    with run r have "bindE (bindE (elem_at r 1) stoll) (\<lambda>v. Inr (a\<lparr>mem_inactive_file := v\<rparr>)) = Inr b"
      by (simp add: mem_line_def)
    then obtain v where "bindE (elem_at r 1) stoll = Inr v" and "b = a\<lparr>mem_inactive_file := v\<rparr>"
      unfolding bindE_eq_Inr [of "bindE (elem_at r 1) stoll"] by auto
    with True hd show ?thesis by simp
  next
    case False
    from run r have "mem_inactive_file b = mem_inactive_file a \<or> label = ''Inactive(file):''"
      unfolding mem_line_def bindE_Inr
      by (simp split: if_splits add: bindE_eq_Inr) auto
    with False hd show ?thesis by simp
  qed
qed

lemma mem_line_dirty:
  assumes run: "mem_line a r = Inr b"
  shows "if hd r = ''Dirty:'' then bindE (elem_at r 1) stoll = Inr (mem_dirty b)
         else mem_dirty b = mem_dirty a"
proof -
  from run obtain label where r: "elem_at r 0 = Inr label" and hd: "hd r = label"
    by (rule mem_line_label)
  show ?thesis
  proof (cases "label = ''Dirty:''")
    case True
    with run r have "bindE (bindE (elem_at r 1) stoll) (\<lambda>v. Inr (a\<lparr>mem_dirty := v\<rparr>)) = Inr b"
      by (simp add: mem_line_def)
    then obtain v where "bindE (elem_at r 1) stoll = Inr v" and "b = a\<lparr>mem_dirty := v\<rparr>"
      unfolding bindE_eq_Inr [of "bindE (elem_at r 1) stoll"] by auto
    with True hd show ?thesis by simp
  next
    case False
    from run r have "mem_dirty b = mem_dirty a \<or> label = ''Dirty:''"
      unfolding mem_line_def bindE_Inr
      by (simp split: if_splits add: bindE_eq_Inr) auto
    with False hd show ?thesis by simp
  qed
qed

lemma mem_line_writeback:
  assumes run: "mem_line a r = Inr b"
  shows "if hd r = ''Writeback:'' then bindE (elem_at r 1) stoll = Inr (mem_writeback b)
         else mem_writeback b = mem_writeback a"
proof -
  from run obtain label where r: "elem_at r 0 = Inr label" and hd: "hd r = label"
    by (rule mem_line_label)
  show ?thesis
  proof (cases "label = ''Writeback:''")
    case True
    with run r have "bindE (bindE (elem_at r 1) stoll) (\<lambda>v. Inr (a\<lparr>mem_writeback := v\<rparr>)) = Inr b"
      by (simp add: mem_line_def)
    then obtain v where "bindE (elem_at r 1) stoll = Inr v" and "b = a\<lparr>mem_writeback := v\<rparr>"
      unfolding bindE_eq_Inr [of "bindE (elem_at r 1) stoll"] by auto
    with True hd show ?thesis by simp
  next
    case False
    from run r have "mem_writeback b = mem_writeback a \<or> label = ''Writeback:''"
      unfolding mem_line_def bindE_Inr
      by (simp split: if_splits add: bindE_eq_Inr) auto
    with False hd show ?thesis by simp
  qed
qed

lemma mem_line_anon_pages:
  assumes run: "mem_line a r = Inr b"
  shows "if hd r = ''AnonPages:'' then bindE (elem_at r 1) stoll = Inr (mem_anon_pages b)
         else mem_anon_pages b = mem_anon_pages a"
proof -
  from run obtain label where r: "elem_at r 0 = Inr label" and hd: "hd r = label"
    by (rule mem_line_label)
  show ?thesis
  proof (cases "label = ''AnonPages:''")
    case True
    with run r have "bindE (bindE (elem_at r 1) stoll) (\<lambda>v. Inr (a\<lparr>mem_anon_pages := v\<rparr>)) = Inr b"
      by (simp add: mem_line_def)
    then obtain v where "bindE (elem_at r 1) stoll = Inr v" and "b = a\<lparr>mem_anon_pages := v\<rparr>"
      unfolding bindE_eq_Inr [of "bindE (elem_at r 1) stoll"] by auto
    with True hd show ?thesis by simp
  next
    case False
    from run r have "mem_anon_pages b = mem_anon_pages a \<or> label = ''AnonPages:''"
      unfolding mem_line_def bindE_Inr
      by (simp split: if_splits add: bindE_eq_Inr) auto
    with False hd show ?thesis by simp
  qed
qed

lemma mem_line_mapped:
  assumes run: "mem_line a r = Inr b"
  shows "if hd r = ''Mapped:'' then bindE (elem_at r 1) stoll = Inr (mem_mapped b)
         else mem_mapped b = mem_mapped a"
proof -
  from run obtain label where r: "elem_at r 0 = Inr label" and hd: "hd r = label"
    by (rule mem_line_label)
  show ?thesis
  proof (cases "label = ''Mapped:''")
    case True
    with run r have "bindE (bindE (elem_at r 1) stoll) (\<lambda>v. Inr (a\<lparr>mem_mapped := v\<rparr>)) = Inr b"
      by (simp add: mem_line_def)
    then obtain v where "bindE (elem_at r 1) stoll = Inr v" and "b = a\<lparr>mem_mapped := v\<rparr>"
      unfolding bindE_eq_Inr [of "bindE (elem_at r 1) stoll"] by auto
    with True hd show ?thesis by simp
  next
    case False
    from run r have "mem_mapped b = mem_mapped a \<or> label = ''Mapped:''"
      unfolding mem_line_def bindE_Inr
      by (simp split: if_splits add: bindE_eq_Inr) auto
    with False hd show ?thesis by simp
  qed
qed

lemma mem_line_kReclaimable:
  assumes run: "mem_line a r = Inr b"
  shows "if hd r = ''KReclaimable:'' then bindE (elem_at r 1) stoll = Inr (mem_kReclaimable b)
         else mem_kReclaimable b = mem_kReclaimable a"
proof -
  from run obtain label where r: "elem_at r 0 = Inr label" and hd: "hd r = label"
    by (rule mem_line_label)
  show ?thesis
  proof (cases "label = ''KReclaimable:''")
    case True
    with run r have "bindE (bindE (elem_at r 1) stoll) (\<lambda>v. Inr (a\<lparr>mem_kReclaimable := v\<rparr>)) = Inr b"
      by (simp add: mem_line_def)
    then obtain v where "bindE (elem_at r 1) stoll = Inr v" and "b = a\<lparr>mem_kReclaimable := v\<rparr>"
      unfolding bindE_eq_Inr [of "bindE (elem_at r 1) stoll"] by auto
    with True hd show ?thesis by simp
  next
    case False
    from run r have "mem_kReclaimable b = mem_kReclaimable a \<or> label = ''KReclaimable:''"
      unfolding mem_line_def bindE_Inr
      by (simp split: if_splits add: bindE_eq_Inr) auto
    with False hd show ?thesis by simp
  qed
qed

lemma mem_line_sReclaimable:
  assumes run: "mem_line a r = Inr b"
  shows "if hd r = ''SReclaimable:'' then bindE (elem_at r 1) stoll = Inr (mem_sReclaimable b)
         else mem_sReclaimable b = mem_sReclaimable a"
proof -
  from run obtain label where r: "elem_at r 0 = Inr label" and hd: "hd r = label"
    by (rule mem_line_label)
  show ?thesis
  proof (cases "label = ''SReclaimable:''")
    case True
    with run r have "bindE (bindE (elem_at r 1) stoll) (\<lambda>v. Inr (a\<lparr>mem_sReclaimable := v\<rparr>)) = Inr b"
      by (simp add: mem_line_def)
    then obtain v where "bindE (elem_at r 1) stoll = Inr v" and "b = a\<lparr>mem_sReclaimable := v\<rparr>"
      unfolding bindE_eq_Inr [of "bindE (elem_at r 1) stoll"] by auto
    with True hd show ?thesis by simp
  next
    case False
    from run r have "mem_sReclaimable b = mem_sReclaimable a \<or> label = ''SReclaimable:''"
      unfolding mem_line_def bindE_Inr
      by (simp split: if_splits add: bindE_eq_Inr) auto
    with False hd show ?thesis by simp
  qed
qed

lemma mem_line_sUnreclaim:
  assumes run: "mem_line a r = Inr b"
  shows "if hd r = ''SUnreclaim:'' then bindE (elem_at r 1) stoll = Inr (mem_sUnreclaim b)
         else mem_sUnreclaim b = mem_sUnreclaim a"
proof -
  from run obtain label where r: "elem_at r 0 = Inr label" and hd: "hd r = label"
    by (rule mem_line_label)
  show ?thesis
  proof (cases "label = ''SUnreclaim:''")
    case True
    with run r have "bindE (bindE (elem_at r 1) stoll) (\<lambda>v. Inr (a\<lparr>mem_sUnreclaim := v\<rparr>)) = Inr b"
      by (simp add: mem_line_def)
    then obtain v where "bindE (elem_at r 1) stoll = Inr v" and "b = a\<lparr>mem_sUnreclaim := v\<rparr>"
      unfolding bindE_eq_Inr [of "bindE (elem_at r 1) stoll"] by auto
    with True hd show ?thesis by simp
  next
    case False
    from run r have "mem_sUnreclaim b = mem_sUnreclaim a \<or> label = ''SUnreclaim:''"
      unfolding mem_line_def bindE_Inr
      by (simp split: if_splits add: bindE_eq_Inr) auto
    with False hd show ?thesis by simp
  qed
qed

lemma mem_table_cases:
  assumes "(l, f, g) \<in> set mem_table"
  shows "(l, f, g) = (''MemTotal:'', mem_total, pmem_total)
      \<or> (l, f, g) = (''MemFree:'', mem_free, pmem_free)
      \<or> (l, f, g) = (''MemAvailable:'', mem_avail, pmem_avail)
      \<or> (l, f, g) = (''Buffers:'', mem_buffers, pmem_buffers)
      \<or> (l, f, g) = (''Cached:'', mem_cached, pmem_cached)
      \<or> (l, f, g) = (''SwapCached:'', mem_swap_cached, pmem_swap_cached)
      \<or> (l, f, g) = (''Active:'', mem_active, pmem_active)
      \<or> (l, f, g) = (''Inactive:'', mem_in_active, pmem_inactive)
      \<or> (l, f, g) = (''Active(anon):'', mem_active_anon, pmem_active_anon)
      \<or> (l, f, g) = (''Inactive(anon):'', mem_inactive_anon, pmem_inactive_anon)
      \<or> (l, f, g) = (''Active(file):'', mem_active_file, pmem_active_file)
      \<or> (l, f, g) = (''Inactive(file):'', mem_inactive_file, pmem_inactive_file)
      \<or> (l, f, g) = (''Dirty:'', mem_dirty, pmem_dirty)
      \<or> (l, f, g) = (''Writeback:'', mem_writeback, pmem_writeback)
      \<or> (l, f, g) = (''AnonPages:'', mem_anon_pages, pmem_anon_pages)
      \<or> (l, f, g) = (''Mapped:'', mem_mapped, pmem_mapped)
      \<or> (l, f, g) = (''KReclaimable:'', mem_kReclaimable, pmem_kreclaimable)
      \<or> (l, f, g) = (''SReclaimable:'', mem_sReclaimable, pmem_sreclaimable)
      \<or> (l, f, g) = (''SUnreclaim:'', mem_sUnreclaim, pmem_sunreclaim)"
  using assms by (simp add: mem_table_def)

lemma mem_line_field:
  assumes run: "mem_line a r = Inr b" and tbl: "(l, f, g) \<in> set mem_table"
  shows "if hd r = l then bindE (elem_at r 1) stoll = Inr (f b) else f b = f a"
  using mem_table_cases [OF tbl]
proof (elim disjE)
  assume "(l, f, g) = (''MemTotal:'', mem_total, pmem_total)"
  then show ?thesis using mem_line_total [OF run] by (auto split: if_splits)
next
  assume "(l, f, g) = (''MemFree:'', mem_free, pmem_free)"
  then show ?thesis using mem_line_free [OF run] by (auto split: if_splits)
next
  assume "(l, f, g) = (''MemAvailable:'', mem_avail, pmem_avail)"
  then show ?thesis using mem_line_avail [OF run] by (auto split: if_splits)
next
  assume "(l, f, g) = (''Buffers:'', mem_buffers, pmem_buffers)"
  then show ?thesis using mem_line_buffers [OF run] by (auto split: if_splits)
next
  assume "(l, f, g) = (''Cached:'', mem_cached, pmem_cached)"
  then show ?thesis using mem_line_cached [OF run] by (auto split: if_splits)
next
  assume "(l, f, g) = (''SwapCached:'', mem_swap_cached, pmem_swap_cached)"
  then show ?thesis using mem_line_swap_cached [OF run] by (auto split: if_splits)
next
  assume "(l, f, g) = (''Active:'', mem_active, pmem_active)"
  then show ?thesis using mem_line_active [OF run] by (auto split: if_splits)
next
  assume "(l, f, g) = (''Inactive:'', mem_in_active, pmem_inactive)"
  then show ?thesis using mem_line_in_active [OF run] by (auto split: if_splits)
next
  assume "(l, f, g) = (''Active(anon):'', mem_active_anon, pmem_active_anon)"
  then show ?thesis using mem_line_active_anon [OF run] by (auto split: if_splits)
next
  assume "(l, f, g) = (''Inactive(anon):'', mem_inactive_anon, pmem_inactive_anon)"
  then show ?thesis using mem_line_inactive_anon [OF run] by (auto split: if_splits)
next
  assume "(l, f, g) = (''Active(file):'', mem_active_file, pmem_active_file)"
  then show ?thesis using mem_line_active_file [OF run] by (auto split: if_splits)
next
  assume "(l, f, g) = (''Inactive(file):'', mem_inactive_file, pmem_inactive_file)"
  then show ?thesis using mem_line_inactive_file [OF run] by (auto split: if_splits)
next
  assume "(l, f, g) = (''Dirty:'', mem_dirty, pmem_dirty)"
  then show ?thesis using mem_line_dirty [OF run] by (auto split: if_splits)
next
  assume "(l, f, g) = (''Writeback:'', mem_writeback, pmem_writeback)"
  then show ?thesis using mem_line_writeback [OF run] by (auto split: if_splits)
next
  assume "(l, f, g) = (''AnonPages:'', mem_anon_pages, pmem_anon_pages)"
  then show ?thesis using mem_line_anon_pages [OF run] by (auto split: if_splits)
next
  assume "(l, f, g) = (''Mapped:'', mem_mapped, pmem_mapped)"
  then show ?thesis using mem_line_mapped [OF run] by (auto split: if_splits)
next
  assume "(l, f, g) = (''KReclaimable:'', mem_kReclaimable, pmem_kreclaimable)"
  then show ?thesis using mem_line_kReclaimable [OF run] by (auto split: if_splits)
next
  assume "(l, f, g) = (''SReclaimable:'', mem_sReclaimable, pmem_sreclaimable)"
  then show ?thesis using mem_line_sReclaimable [OF run] by (auto split: if_splits)
next
  assume "(l, f, g) = (''SUnreclaim:'', mem_sUnreclaim, pmem_sunreclaim)"
  then show ?thesis using mem_line_sUnreclaim [OF run] by (auto split: if_splits)
qed

lemma mem_record_snoc:
  "mem_record l (rs @ [x]) = (if x \<noteq> [] \<and> hd x = l then Some x else mem_record l rs)"
proof -
  have c: "(case ys of [] \<Rightarrow> None | y # zs \<Rightarrow> Some (last (y # zs)))
      = (if ys = [] then None else Some (last ys))" for ys :: "string list list"
    by (cases ys) simp_all
  show ?thesis
    by (simp add: mem_record_def c)
qed

lemma mem_fold_field:
  assumes "foldE mem_line a rs = Inr b" and tbl: "(l, f, g) \<in> set mem_table"
  shows "case mem_record l rs of None \<Rightarrow> f b = f a
         | Some r \<Rightarrow> bindE (elem_at r 1) stoll = Inr (f b)"
  using assms(1)
proof (induction rs arbitrary: b rule: rev_induct)
  case Nil
  then show ?case by (simp add: mem_record_def)
next
  case (snoc x rs)
  from snoc.prems have "bindE (foldE mem_line a rs) (\<lambda>s. foldE mem_line s [x]) = Inr b"
    by (simp only: foldE_append)
  then obtain mid where mid: "foldE mem_line a rs = Inr mid" and "foldE mem_line mid [x] = Inr b"
    unfolding bindE_eq_Inr by blast
  then have step: "mem_line mid x = Inr b"
    by (simp add: bindE_eq_Inr)
  then have ne: "x \<noteq> []" by (rule mem_line_label)
  note field = mem_line_field [OF step tbl]
  show ?case
  proof (cases "hd x = l")
    case True
    with field ne show ?thesis by (simp add: mem_record_snoc)
  next
    case False
    with field have "f b = f mid" by simp
    with snoc.IH [OF mid] False show ?thesis
      by (simp add: mem_record_snoc split: option.splits)
  qed
qed

lemma mem_message_Inr:
  assumes "mem_message mem_info = Inr m"
  shows "pmem_used_percent m =
      (if mem_total mem_info = 0 then None
       else Some (real_of_int (mem_total mem_info - mem_avail mem_info)
                  / real_of_int (mem_total mem_info) * 100))"
    and "(l, f, g) \<in> set mem_table \<Longrightarrow> g m = real_of_int (f mem_info) / (1000 * 1000)"
proof -
  from assms obtain used where u: "sub64 (mem_total mem_info) (mem_avail mem_info) = Inr used"
    and m: "m = \<lparr>pmem_used_percent =
            (if mem_total mem_info = 0 then None
             else Some (real_of_int used * 1.0 / real_of_int (mem_total mem_info) * 100.0)),
          pmem_total = real_of_int (mem_total mem_info) / KBToGB,
          pmem_free = real_of_int (mem_free mem_info) / KBToGB,
          pmem_avail = real_of_int (mem_avail mem_info) / KBToGB,
          pmem_buffers = real_of_int (mem_buffers mem_info) / KBToGB,
          pmem_cached = real_of_int (mem_cached mem_info) / KBToGB,
          pmem_swap_cached = real_of_int (mem_swap_cached mem_info) / KBToGB,
          pmem_active = real_of_int (mem_active mem_info) / KBToGB,
          pmem_inactive = real_of_int (mem_in_active mem_info) / KBToGB,
          pmem_active_anon = real_of_int (mem_active_anon mem_info) / KBToGB,
          pmem_inactive_anon = real_of_int (mem_inactive_anon mem_info) / KBToGB,
          pmem_active_file = real_of_int (mem_active_file mem_info) / KBToGB,
          pmem_inactive_file = real_of_int (mem_inactive_file mem_info) / KBToGB,
          pmem_dirty = real_of_int (mem_dirty mem_info) / KBToGB,
          pmem_writeback = real_of_int (mem_writeback mem_info) / KBToGB,
          pmem_anon_pages = real_of_int (mem_anon_pages mem_info) / KBToGB,
          pmem_mapped = real_of_int (mem_mapped mem_info) / KBToGB,
          pmem_kreclaimable = real_of_int (mem_kReclaimable mem_info) / KBToGB,
          pmem_sreclaimable = real_of_int (mem_sReclaimable mem_info) / KBToGB,
          pmem_sunreclaim = real_of_int (mem_sUnreclaim mem_info) / KBToGB\<rparr>"
    unfolding mem_message_def bindE_eq_Inr by blast
  from u have "used = mem_total mem_info - mem_avail mem_info" by (rule sub64_Inr)
  with m show "pmem_used_percent m =
      (if mem_total mem_info = 0 then None
       else Some (real_of_int (mem_total mem_info - mem_avail mem_info)
                  / real_of_int (mem_total mem_info) * 100))"
    by simp
  assume "(l, f, g) \<in> set mem_table"
  from mem_table_cases [OF this] m show "g m = real_of_int (f mem_info) / (1000 * 1000)"
    by (elim disjE) (simp_all add: KBToGB_def)
qed

section \<open>The header row of the software-interrupt source\<close>

lemma is_space_blank [simp]: "is_space (CHR '' '')"
  by (simp add: is_space_def)

lemma is_space_newline [simp]: "is_space newline"
  by (simp add: is_space_def newline_def)

lemma split_words_blanks: "split_words (replicate n (CHR '' '')) = [[]]"
proof -
  have "dropWhile is_space (replicate n (CHR '' '')) = []"
    by simp
  then show ?thesis
    by (subst split_words.simps) (simp add: Let_def)
qed

lemma split_words_name:
  assumes name: "name \<noteq> []" "\<forall>c\<in>set name. \<not> is_space c"
  shows "split_words (replicate n (CHR '' '') @ name @ CHR '' '' # ys)
         = name # split_words (CHR '' '' # ys)"
proof -
  from name obtain c cs where c: "name = c # cs" and "\<not> is_space c"
    by (cases name) auto
  then have d: "dropWhile is_space (replicate n (CHR '' '') @ name @ CHR '' '' # ys)
      = name @ CHR '' '' # ys"
    by (simp add: dropWhile_append3)
  have t: "takeWhile (\<lambda>c. \<not> is_space c) (name @ CHR '' '' # ys) = name"
    using name(2) by (simp add: takeWhile_append2)
  have r: "dropWhile (\<lambda>c. \<not> is_space c) (name @ CHR '' '' # ys) = CHR '' '' # ys"
    using name(2) by (simp add: dropWhile_append2)
  show ?thesis
    by (subst split_words.simps) (simp add: Let_def d t r)
qed

lemma split_words_padded:
  assumes "\<forall>(name, pad)\<in>set cols. name \<noteq> [] \<and> (\<forall>c\<in>set name. \<not> is_space c)"
  shows "split_words (padded_header lead cols) = map fst cols @ [[]]"
  using assms
proof (induction cols arbitrary: lead)
  case Nil
  show ?case by (simp add: padded_header_def split_words_blanks)
next
  case (Cons col cols)
  obtain name pad where col: "col = (name, pad)" by (cases col)
  with Cons.prems have name: "name \<noteq> []" "\<forall>c\<in>set name. \<not> is_space c"
    and rest: "\<forall>(name, pad)\<in>set cols. name \<noteq> [] \<and> (\<forall>c\<in>set name. \<not> is_space c)"
    by auto
  have "padded_header lead (col # cols)
      = replicate lead (CHR '' '') @ name @ CHR '' '' # padded_header pad cols"
    by (simp add: padded_header_def col)
  then have "split_words (padded_header lead (col # cols))
      = name # split_words (CHR '' '' # padded_header pad cols)"
    by (simp only: split_words_name [OF name])
  moreover have "CHR '' '' # padded_header pad cols = padded_header (Suc pad) cols"
    by (simp add: padded_header_def)
  ultimately have "split_words (padded_header lead (col # cols))
      = name # split_words (padded_header (Suc pad) cols)"
    by (simp only:)
  with Cons.IH [OF rest] col show ?case by simp
qed

lemma padded_header_no_newline:
  assumes "\<forall>(name, pad)\<in>set cols. name \<noteq> [] \<and> (\<forall>c\<in>set name. \<not> is_space c)"
  shows "newline \<notin> set (padded_header lead cols)"
proof
  assume "newline \<in> set (padded_header lead cols)"
  then have "newline = CHR '' '' \<or> (\<exists>(name, pad)\<in>set cols. newline \<in> set name)"
    by (auto simp: padded_header_def)
  with assms is_space_newline show False
    by (auto simp: newline_def)
qed

lemma read_all_first_line:
  assumes "newline \<notin> set line" and "line \<noteq> []"
  shows "read_all (line @ newline # rest) = split_words line # read_all rest"
proof -
  have "takeWhile (\<lambda>c. c \<noteq> newline) (line @ newline # rest) = line"
    using assms(1) by (induction line) auto
  moreover have "dropWhile (\<lambda>c. c \<noteq> newline) (line @ newline # rest) = newline # rest"
    using assms(1) by (induction line) auto
  ultimately have "ReadLine (line @ newline # rest) = Some (split_words line, rest)"
    using assms(2) by (simp add: ReadLine_def Let_def)
  then show ?thesis
    by (subst read_all.simps) simp
qed

lemma foldE_member:
  assumes "foldE step s xs = Inr s'" and "x \<in> set xs"
  shows "\<exists>a b. step a x = Inr b"
  using assms
proof (induction xs arbitrary: s)
  case Nil
  then show ?case by simp
next
  case (Cons y ys)
  from Cons.prems(1) have "bindE (step s y) (\<lambda>a. foldE step a ys) = Inr s'"
    by simp
  then obtain s1 where s1: "step s y = Inr s1" and rest: "foldE step s1 ys = Inr s'"
    unfolding bindE_eq_Inr by blast
  show ?case
  proof (cases "x = y")
    case True
    with s1 show ?thesis by blast
  next
    case False
    with Cons.prems(2) have "x \<in> set ys" by simp
    with Cons.IH [OF rest] show ?thesis by blast
  qed
qed

lemma filter_upt_single:
  assumes "i < m" and "P i" and "\<forall>j<m. j \<noteq> i \<longrightarrow> \<not> P j"
  shows "filter P [0..<m] = [i]"
proof -
  have "[0..<m] = [0..<i] @ i # [Suc i..<m]"
    using assms(1) by (metis le_add1 less_imp_add_positive upt_add_eq_append upt_conv_Cons
        add_0 zero_le le_eq_less_or_eq less_or_eq_imp_le)
  moreover have "filter P [0..<i] = []"
    using assms by (auto simp: filter_empty_conv)
  moreover have "filter P [Suc i..<m] = []"
    using assms by (auto simp: filter_empty_conv)
  ultimately show ?thesis using assms(2) by simp
qed

lemma softirq_covers:
  assumes run: "softirq_loop clock softirq (h, mi) = Inr (h', mi')"
    and i: "i < length (hd softirq) - 1"
  shows "\<exists>info. softirq_parse (clock i) softirq i = Inr info
    \<and> ((\<forall>j<length (hd softirq) - 1. j \<noteq> i \<longrightarrow> hd softirq ! j \<noteq> hd softirq ! i)
         \<longrightarrow> h' (hd softirq ! i) = Some info)"
proof -
  let ?m = "length (hd softirq) - 1"
  from softirq_loop_Inr(3) [OF run] i obtain a b where "softirq_column clock softirq a i = Inr b"
    using foldE_member [of "softirq_column clock softirq" "(h, mi)" "[0..<?m]" "(h', mi')" i]
    by auto
  then have "softirq_column clock softirq (fst a, snd a) i = Inr (fst b, snd b)"
    by simp
  from softirq_column_Inr [OF this] obtain info
    where p: "softirq_parse (clock i) softirq i = Inr info"
    by (elim exE conjE) (rule that)
  have "h' (hd softirq ! i) = Some info"
    if u: "\<forall>j<?m. j \<noteq> i \<longrightarrow> hd softirq ! j \<noteq> hd softirq ! i"
  proof -
    have "filter (\<lambda>j. hd softirq ! j = hd softirq ! i) [0..<?m] = [i]"
      using i u by (intro filter_upt_single) auto
    with run obtain h1 mi1 h2 mi2
      where step: "softirq_column clock softirq (h1, mi1) i = Inr (h2, mi2)"
        and h2: "h' (hd softirq ! i) = h2 (hd softirq ! i)"
      by (rule softirq_loop_once)
    from softirq_column_Inr [OF step] obtain info'
      where "softirq_parse (clock i) softirq i = Inr info'"
        and "h2 = h1(hd softirq ! i \<mapsto> info')"
      by (elim exE conjE) (rule that)
    with p h2 show ?thesis by simp
  qed
  with p show ?thesis by (intro exI [of _ info]) simp
qed

section \<open>A whole tick on the example sources\<close>

lemma example_mem_run:
  "MemMonitor_UpdateOnce example_uninit example_meminfo mi
     = Inr (mi\<lparr>mi_mem_info := Some example_mem_message\<rparr>)"
proof -
  have fold: "foldE mem_line example_uninit (read_all example_meminfo) = Inr
      \<lparr>mem_total = 16000000, mem_free = 3000000, mem_avail = 8000000, mem_buffers = 7, mem_cached = 7, mem_swap_cached = 7, mem_active = 7, mem_in_active = 7, mem_active_anon = 7, mem_inactive_anon = 7, mem_active_file = 7, mem_inactive_file = 7, mem_dirty = 7, mem_writeback = 7, mem_anon_pages = 7, mem_mapped = 7, mem_kReclaimable = 7, mem_sReclaimable = 7, mem_sUnreclaim = 7\<rparr>"
    by code_simp
  have message: "mem_message
      \<lparr>mem_total = 16000000, mem_free = 3000000, mem_avail = 8000000, mem_buffers = 7, mem_cached = 7, mem_swap_cached = 7, mem_active = 7, mem_in_active = 7, mem_active_anon = 7, mem_inactive_anon = 7, mem_active_file = 7, mem_inactive_file = 7, mem_dirty = 7, mem_writeback = 7, mem_anon_pages = 7, mem_mapped = 7, mem_kReclaimable = 7, mem_sReclaimable = 7, mem_sUnreclaim = 7\<rparr> = Inr example_mem_message"
    by (simp add: mem_message_def sub64_def INT64_MIN_def INT64_MAX_def KBToGB_def
        example_mem_message_def)
  show ?thesis
    by (simp add: MemMonitor_UpdateOnce_def fold message)
qed

lemma example_load_run:
  "CpuLoadMonitor_UpdateOnce stof_integer example_loadavg mi
     = Inr (mi\<lparr>mi_cpu_load := Some \<lparr>pload_avg_1 = 1, pload_avg_3 = 2, pload_avg_15 = 3\<rparr>\<rparr>)"
proof -
  have line: "ReadLine example_loadavg = Some ([''1'', ''2'', ''3'', ''2/345'', ''12345''], [])"
    by code_simp
  have tokens: "stof_integer ''1'' = Inr 1" "stof_integer ''2'' = Inr 2"
    "stof_integer ''3'' = Inr 3"
    by code_simp+
  show ?thesis
    by (simp add: CpuLoadMonitor_UpdateOnce_def line elem_at_def tokens)
qed

lemma example_net_run_bad:
  "net_loop (Map.empty, mi) (stamp example_clock_1 (read_all example_net_dev_bad))
     = Inl InvalidArgument"
proof -
  have records: "stamp example_clock_1 (read_all example_net_dev_bad) =
     [(1000000000, [''face'', ''|bytes'', ''packets'', ''errs'', ''drop|bytes'', ''packets'', ''errs'', ''drop'']),
      (1000000000, [''eth0:'', ''2048'', ''x'', ''0'', ''0'', ''0'', ''0'', ''0'', ''0'', ''0'', ''7'', ''0'', ''0'', ''0'', ''0'', ''0'', ''0''])]"
    by code_simp
  have parse: "net_parse 1000000000 ''eth0''
      [''eth0:'', ''2048'', ''x'', ''0'', ''0'', ''0'', ''0'', ''0'', ''0'', ''0'', ''7'', ''0'', ''0'', ''0'', ''0'', ''0'', ''0''] = Inl InvalidArgument"
    by code_simp
  show ?thesis
    by (simp add: records net_loop_def net_line_def elem_at_def colon_is_last_def pop_back_def parse)
qed

lemma example_tick_good:
  "tick stof_integer None example_start example_tick_1
     = Inr (\<lparr>cpu_softirqs = [''CPU0'' \<mapsto> example_irq_cpu0_1, ''CPU1'' \<mapsto> example_irq_cpu1_1],
               cpu_stat_map = [''cpu0'' \<mapsto> example_stat_cpu0_1],
               net_infos = [''eth0'' \<mapsto> example_net_1]\<rparr>,
            \<lparr>mi_name = ''unknown_host'',
               mi_cpu_load = Some \<lparr>pload_avg_1 = 1, pload_avg_3 = 2, pload_avg_15 = 3\<rparr>,
               mi_cpu_stat = [], mi_soft_irq = [], mi_mem_info = Some example_mem_message,
               mi_net_info = []\<rparr>)"
  by (simp add: tick_def example_tick_1_def example_start_def CpuSoftIrqMonitor_UpdateOnce_def
      example_softirq_run_1 example_load_run CpuStatMonitor_UpdateOnce_def example_stat_run_1
      example_mem_run NetMonitor_UpdateOnce_def example_net_run_1 MonitorInfo_default_def)

lemma example_tick_fails:
  "tick stof_integer None example_start example_tick_bad = Inl InvalidArgument"
  by (simp add: tick_def example_tick_bad_def example_start_def CpuSoftIrqMonitor_UpdateOnce_def
      example_softirq_run_1 example_load_run CpuStatMonitor_UpdateOnce_def example_stat_run_1
      example_mem_run NetMonitor_UpdateOnce_def example_net_run_bad MonitorInfo_default_def)

section \<open>Facts about a whole tick\<close>

lemma net_line_domains:
  assumes "net_line (h, mi) x = Inr (h', mi')"
  shows "mi_cpu_load mi' = mi_cpu_load mi \<and> mi_mem_info mi' = mi_mem_info mi"
proof -
  obtain t r where x: "x = (t, r)" by (cases x)
  show ?thesis
  proof (cases "net_is_interface r")
    case False
    from assms x have "r \<noteq> []" by (auto simp: net_line_def elem_at_def)
    with False assms x show ?thesis by (simp add: net_line_rejected)
  next
    case True
    let ?n = "butlast (hd r)"
    from net_line_accepted [OF True assms [unfolded x]] obtain info
      where none: "h ?n = None \<longrightarrow> mi' = mi"
      and le: "\<forall>old. h ?n = Some old \<and> \<not> SteadyTimeSecond t (net_timepoint old) > 0 \<longrightarrow> mi' = mi"
      and gt: "\<forall>old. h ?n = Some old \<and> SteadyTimeSecond t (net_timepoint old) > 0
                 \<longrightarrow> (\<exists>msg. net_rates info old (SteadyTimeSecond t (net_timepoint old)) = Inr msg
                       \<and> mi' = mi\<lparr>mi_net_info := mi_net_info mi @ [msg]\<rparr>)"
      by (elim exE conjE) (rule that)
    show ?thesis
    proof (cases "h ?n")
      case None
      with none show ?thesis by simp
    next
      case (Some old)
      with le gt show ?thesis
        by (cases "SteadyTimeSecond t (net_timepoint old) > 0") auto
    qed
  qed
qed

lemma net_loop_domains:
  assumes "net_loop (h, mi) trs = Inr (h', mi')"
  shows "mi_cpu_load mi' = mi_cpu_load mi \<and> mi_mem_info mi' = mi_mem_info mi"
proof -
  let ?obs = "\<lambda>s. (mi_cpu_load (snd s), mi_mem_info (snd s))"
  from assms have "foldE net_line (h, mi) trs = Inr (h', mi')"
    by (simp add: net_loop_def)
  then have "?obs (h', mi') = ?obs (h, mi)"
  proof (rule foldE_preserves)
    fix a x b assume "net_line a x = Inr b"
    then show "?obs b = ?obs a"
      using net_line_domains [of "fst a" "snd a" x "fst b" "snd b"] by simp
  qed
  then show ?thesis by simp
qed

lemma cpu_line_domains:
  assumes "cpu_line stof (h, mi) r = Inr (h', mi')"
  shows "mi_cpu_load mi' = mi_cpu_load mi"
proof (cases "cpu_entity r")
  case None
  from assms have "r \<noteq> []" by (auto simp: cpu_line_def elem_at_def)
  with None assms show ?thesis by (simp add: cpu_line_rejected)
next
  case (Some n)
  from cpu_line_accepted [OF Some assms] obtain cs
    where none: "h n = None \<longrightarrow> mi' = mi"
      and some: "\<forall>old. h n = Some old
                   \<longrightarrow> mi' = mi\<lparr>mi_cpu_stat := mi_cpu_stat mi @ [cpu_message cs old]\<rparr>"
    by (elim exE conjE) (rule that)
  then show ?thesis by (cases "h n") auto
qed

lemma cpu_loop_domains:
  assumes "cpu_loop stof (h, mi) records = Inr (h', mi')"
  shows "mi_cpu_load mi' = mi_cpu_load mi"
proof -
  let ?obs = "\<lambda>s. mi_cpu_load (snd s)"
  from assms have "foldE (cpu_line stof) (h, mi) records = Inr (h', mi')"
    by (simp add: cpu_loop_def)
  then have "?obs (h', mi') = ?obs (h, mi)"
  proof (rule foldE_preserves)
    fix a x b assume "cpu_line stof a x = Inr b"
    then show "?obs b = ?obs a"
      using cpu_line_domains [of stof "fst a" "snd a" x "fst b" "snd b"] by simp
  qed
  then show ?thesis by simp
qed

lemma tick_Inr:
  assumes "tick stof user runners inp = Inr (runners', monitor_info)"
  obtains irqs m1 m2 stats m3 m4 nets where
    "CpuSoftIrqMonitor_UpdateOnce (softirq_clock inp) (src_softirqs inp)
             (cpu_softirqs runners, (MonitorInfo_default\<lparr>mi_name := (case user of Some name \<Rightarrow> name | None \<Rightarrow> ''unknown_host'')\<rparr>)) = Inr (irqs, m1)"
    and "CpuLoadMonitor_UpdateOnce stof (src_loadavg inp) m1 = Inr m2"
    and "CpuStatMonitor_UpdateOnce stof (src_stat inp) (cpu_stat_map runners, m2) = Inr (stats, m3)"
    and "MemMonitor_UpdateOnce (mem_uninit inp) (src_meminfo inp) m3 = Inr m4"
    and "NetMonitor_UpdateOnce (net_clock inp) (src_net_dev inp) (net_infos runners, m4) = Inr (nets, monitor_info)"
    and "runners' = \<lparr>cpu_softirqs = irqs, cpu_stat_map = stats, net_infos = nets\<rparr>"
  using assms
  by (auto simp: tick_def Let_def bindE_def split: sum.splits prod.splits)

lemma tick_Inl:
  "tick stof user runners inp = Inl e \<longleftrightarrow>
     (CpuSoftIrqMonitor_UpdateOnce (softirq_clock inp) (src_softirqs inp)
             (cpu_softirqs runners, (MonitorInfo_default\<lparr>mi_name := (case user of Some name \<Rightarrow> name | None \<Rightarrow> ''unknown_host'')\<rparr>)) = Inl e
        \<or> (\<exists>irqs m1. CpuSoftIrqMonitor_UpdateOnce (softirq_clock inp) (src_softirqs inp)
             (cpu_softirqs runners, (MonitorInfo_default\<lparr>mi_name := (case user of Some name \<Rightarrow> name | None \<Rightarrow> ''unknown_host'')\<rparr>)) = Inr (irqs, m1)
           \<and> (CpuLoadMonitor_UpdateOnce stof (src_loadavg inp) m1 = Inl e
            \<or> (\<exists>m2. CpuLoadMonitor_UpdateOnce stof (src_loadavg inp) m1 = Inr m2
               \<and> (CpuStatMonitor_UpdateOnce stof (src_stat inp) (cpu_stat_map runners, m2) = Inl e
                \<or> (\<exists>stats m3. CpuStatMonitor_UpdateOnce stof (src_stat inp) (cpu_stat_map runners, m2) = Inr (stats, m3)
                   \<and> (MemMonitor_UpdateOnce (mem_uninit inp) (src_meminfo inp) m3 = Inl e
                    \<or> (\<exists>m4. MemMonitor_UpdateOnce (mem_uninit inp) (src_meminfo inp) m3 = Inr m4
                       \<and> NetMonitor_UpdateOnce (net_clock inp) (src_net_dev inp) (net_infos runners, m4) = Inl e))))))))"
  by (simp add: tick_def Let_def bindE_def split: sum.splits prod.splits)

lemma tick_domains:
  assumes "tick stof user runners inp = Inr (runners', monitor_info)"
  shows "mi_cpu_load monitor_info \<noteq> None \<and> mi_mem_info monitor_info \<noteq> None"
proof -
  from assms obtain irqs m1 m2 stats m3 m4 nets where
    load: "CpuLoadMonitor_UpdateOnce stof (src_loadavg inp) m1 = Inr m2"
    and stat: "CpuStatMonitor_UpdateOnce stof (src_stat inp) (cpu_stat_map runners, m2) = Inr (stats, m3)"
    and mem: "MemMonitor_UpdateOnce (mem_uninit inp) (src_meminfo inp) m3 = Inr m4"
    and net: "NetMonitor_UpdateOnce (net_clock inp) (src_net_dev inp) (net_infos runners, m4) = Inr (nets, monitor_info)"
    by (rule tick_Inr)
  from load have "mi_cpu_load m2 \<noteq> None"
    by (auto simp: CpuLoadMonitor_UpdateOnce_def Let_def bindE_eq_Inr)
  with stat have "mi_cpu_load m3 \<noteq> None"
    using cpu_loop_domains [of stof "cpu_stat_map runners" m2 "read_all (src_stat inp)" stats m3]
    by (simp add: CpuStatMonitor_UpdateOnce_def)
  with mem have "mi_cpu_load m4 \<noteq> None \<and> mi_mem_info m4 \<noteq> None"
    by (auto simp: MemMonitor_UpdateOnce_def bindE_eq_Inr)
  with net show ?thesis
    using net_loop_domains [of "net_infos runners" m4
        "stamp (net_clock inp) (read_all (src_net_dev inp))" nets monitor_info]
    by (simp add: NetMonitor_UpdateOnce_def)
qed

section \<open>The claims about the network filter\<close>

text \<open>
  C10. The claim: every record that passes the network sampler's guard is long enough for
  every index the sampler reads. The guard asks for ten tokens and the sampler reads the
  tokens 1 to 4 and 9 to 12: a record of ten tokens passes the guard and the read of token
  10 is past its end.
\<close>

theorem net_guard_short_record:
  "net_is_interface [''eth0:'', ''1500'', ''12'', ''0'', ''0'', ''0'', ''0'', ''0'', ''0'', ''900'']
   \<and> net_line (h, mi) (t, [''eth0:'', ''1500'', ''12'', ''0'', ''0'', ''0'', ''0'', ''0'', ''0'', ''900''])
       = Inl OutOfBounds"
proof -
  have "net_parse t ''eth0'' [''eth0:'', ''1500'', ''12'', ''0'', ''0'', ''0'', ''0'', ''0'', ''0'', ''900'']
        = Inl OutOfBounds"
    by code_simp
  then show ?thesis
    by (simp add: net_is_interface_def colon_is_last_def net_line_def elem_at_def pop_back_def)
qed

text \<open>
  C8. The claim: a record is an interface exactly when its first token ends with a colon
  and it has at least ten fields, and the comment above the guard says the same. The guard
  looks for the first colon of the token, not for its last character: a record of
  thirteen fields whose first token has an earlier colon ends with a colon and is skipped,
  so that nothing of it reaches the history or the snapshot.
\<close>

theorem net_filter_inner_colon:
  "spec_net_is_interface [''a:b:'', ''1500'', ''12'', ''0'', ''0'', ''0'', ''0'', ''0'', ''0'', ''900'', ''7'', ''0'', ''0'']
   \<and> \<not> net_is_interface [''a:b:'', ''1500'', ''12'', ''0'', ''0'', ''0'', ''0'', ''0'', ''0'', ''900'', ''7'', ''0'', ''0'']
   \<and> net_line (Map.empty, MonitorInfo_default)
         (0, [''a:b:'', ''1500'', ''12'', ''0'', ''0'', ''0'', ''0'', ''0'', ''0'', ''900'', ''7'', ''0'', ''0''])
       = Inr (Map.empty, MonitorInfo_default)"
  by (simp add: spec_net_is_interface_def net_is_interface_def colon_is_last_def net_line_def
      elem_at_def)

text \<open>
  What the guard does on the records of a source: it accepts a record exactly when the
  first colon of the first token is the token's last character and the record has at
  least ten fields. When the sampler gets through an accepted record, the sample is stored
  under the first token without its colon; a record that is not accepted leaves the
  history and the snapshot as they are.
\<close>

lemma net_guard_records:
  assumes "r \<in> set (read_all proc_net_dev)"
  shows "(net_is_interface r \<longleftrightarrow>
            (\<exists>n. hd r = n @ '':'' \<and> CHR '':'' \<notin> set n) \<and> 10 \<le> length r)
       \<and> (net_is_interface r \<and> net_line (h, mi) (t, r) = Inr (h', mi') \<longrightarrow>
            (\<exists>info. h' = h(butlast (hd r) \<mapsto> info) \<and> net_name info = butlast (hd r)))
       \<and> (\<not> net_is_interface r \<longrightarrow> net_line (h, mi) (t, r) = Inr (h, mi))"
proof -
  from assms have ne: "r \<noteq> []" and first: "2 \<le> length r \<longrightarrow> hd r \<noteq> []"
    using read_all_records by blast+
  then obtain name rest where r: "r = name # rest" by (cases r) auto
  have "net_is_interface r \<longleftrightarrow>
           (\<exists>n. hd r = n @ '':'' \<and> CHR '':'' \<notin> set n) \<and> 10 \<le> length r"
    using r first by (auto simp: net_is_interface_def colon_is_last_iff)
  moreover have "net_is_interface r \<and> net_line (h, mi) (t, r) = Inr (h', mi') \<longrightarrow>
           (\<exists>info. h' = h(butlast (hd r) \<mapsto> info) \<and> net_name info = butlast (hd r))"
  proof
    assume a: "net_is_interface r \<and> net_line (h, mi) (t, r) = Inr (h', mi')"
    then have a1: "net_is_interface r" and a2: "net_line (h, mi) (t, r) = Inr (h', mi')"
      by simp_all
    from net_line_accepted [OF a1 a2] obtain info
      where "net_parse t (butlast (hd r)) r = Inr info"
        and "h' = h(butlast (hd r) \<mapsto> info)"
      by (elim exE conjE) (rule that)
    then show "\<exists>info. h' = h(butlast (hd r) \<mapsto> info) \<and> net_name info = butlast (hd r)"
      using net_parse_Inr(2) by blast
  qed
  moreover have "\<not> net_is_interface r \<longrightarrow> net_line (h, mi) (t, r) = Inr (h, mi)"
    using ne by (simp add: net_line_rejected)
  ultimately show ?thesis by blast
qed

lemma net_guard_records_example:
  "read_all ('' face |bytes packets'' @ [newline] @ ''  eth0: 100 2 0 0 0 0 0 0 300 4 0 0 0 0 0 0'' @ [newline])
     = [[''face'', ''|bytes'', ''packets''],
        [''eth0:'', ''100'', ''2'', ''0'', ''0'', ''0'', ''0'', ''0'', ''0'', ''300'', ''4'', ''0'', ''0'', ''0'', ''0'', ''0'', ''0'']]
   \<and> \<not> net_is_interface [''face'', ''|bytes'', ''packets'']
   \<and> net_line (Map.empty, MonitorInfo_default) (6, [''face'', ''|bytes'', ''packets''])
       = Inr (Map.empty, MonitorInfo_default)
   \<and> net_is_interface [''eth0:'', ''100'', ''2'', ''0'', ''0'', ''0'', ''0'', ''0'', ''0'', ''300'', ''4'', ''0'', ''0'', ''0'', ''0'', ''0'', ''0'']
   \<and> (\<exists>info. net_line (Map.empty, MonitorInfo_default)
         (7, [''eth0:'', ''100'', ''2'', ''0'', ''0'', ''0'', ''0'', ''0'', ''0'', ''300'', ''4'', ''0'', ''0'', ''0'', ''0'', ''0'', ''0''])
          = Inr ([''eth0'' \<mapsto> info], MonitorInfo_default) \<and> net_name info = ''eth0'')"
proof -
  let ?src = "('' face |bytes packets'' @ [newline] @ ''  eth0: 100 2 0 0 0 0 0 0 300 4 0 0 0 0 0 0'' @ [newline])"
  let ?hdr = "[''face'', ''|bytes'', ''packets'']"
  let ?eth = "[''eth0:'', ''100'', ''2'', ''0'', ''0'', ''0'', ''0'', ''0'', ''0'', ''300'', ''4'', ''0'', ''0'', ''0'', ''0'', ''0'', ''0'']"
  let ?info = "\<lparr>net_name = ''eth0'', net_rcv_bytes = 100, net_rcv_packets = 2, net_err_in = 0, net_drop_in = 0, net_snd_bytes = 300, net_snd_packets = 4, net_err_out = 0, net_drop_out = 0, net_timepoint = 7\<rparr>"
  have src: "read_all ?src = [?hdr, ?eth]"
    by code_simp
  have hdr: "\<not> net_is_interface ?hdr" and eth: "net_is_interface ?eth"
    by (simp_all add: net_is_interface_def colon_is_last_def)
  have parse: "net_parse 7 ''eth0'' ?eth = Inr ?info"
    by code_simp
  have line: "net_line (Map.empty, MonitorInfo_default) (7, ?eth)
      = Inr ([''eth0'' \<mapsto> ?info], MonitorInfo_default)"
    by (simp add: net_line_def elem_at_def colon_is_last_def pop_back_def parse)
  have "?hdr \<in> set (read_all ?src)" and "?eth \<in> set (read_all ?src)"
    by (simp_all only: src list.set insert_iff simp_thms)
  from net_guard_records [OF this(1), of Map.empty MonitorInfo_default 6]
       net_guard_records [OF this(2), of Map.empty MonitorInfo_default 7 "[''eth0'' \<mapsto> ?info]" MonitorInfo_default]
  show ?thesis
    using src hdr eth line by (simp only: simp_thms) (simp add: exI [of _ ?info])
qed

section \<open>The claim about the distribution cache\<close>

lemma serve_append:
  "serve s (xs @ ys) =
     (case serve s xs of (s1, r1) \<Rightarrow> case serve s1 ys of (s2, r2) \<Rightarrow> (s2, r1 @ r2))"
  by (induction xs arbitrary: s) (auto split: prod.splits request.splits)

lemma serve_gets: "serve s (replicate n GetRequest) = (s, replicate n (Info s))"
  by (induction n) (auto simp: GetMonitorInfo_def)

text \<open>
  C5. After any sequence of calls, a set stores exactly its argument; the gets that follow
  "set A, set B" with no set in between all return B; gets before any set return the
  default snapshot.
\<close>

theorem cache_last_write_wins:
  "fst (serve s (rqs @ [SetRequest S])) = S
   \<and> snd (serve s (rqs @ [SetRequest A, SetRequest B] @ replicate n GetRequest))
       = snd (serve s rqs) @ [Empty, Empty] @ replicate n (Info B)
   \<and> snd (GrpcManagerImpl (replicate n GetRequest)) = replicate n (Info MonitorInfo_default)"
  by (auto simp: serve_append serve_gets SetMonitorInfo_def GrpcManagerImpl_def Let_def
      split: prod.splits)


section \<open>The claims about the differential samplers\<close>

text \<open>
  C1. For an entity with no entry in the history and one record in the source of the call,
  for the network, software-interrupt and CPU-time samplers: the call reaches the record
  with no entry for the entity; the step of the loop for that record returns the snapshot
  as it found it, with no record added to it under any name, and puts the sample parsed
  from the record into the history; after the call the history holds that sample, and
  the call as a whole has added no record of the entity's name to the snapshot.
\<close>

theorem first_observation_suppressed:
  "(net_loop (hn, mn) trs = Inr (hn', mn') \<and> hn n = None
      \<and> filter (\<lambda>x. net_entity (snd x) = Some n) trs = [(t, r)]
    \<longrightarrow> (\<exists>pre post h1 m1 info. trs = pre @ (t, r) # post
          \<and> net_loop (hn, mn) pre = Inr (h1, m1) \<and> h1 n = None
          \<and> net_parse t n r = Inr info
          \<and> net_line (h1, m1) (t, r) = Inr (h1(n \<mapsto> info), m1)
          \<and> net_loop (h1(n \<mapsto> info), m1) post = Inr (hn', mn')
          \<and> hn' n = Some info)
        \<and> filter (\<lambda>m. pnet_name m = n) (mi_net_info mn')
          = filter (\<lambda>m. pnet_name m = n) (mi_net_info mn))
   \<and> (softirq_loop clock softirq (hs, ms) = Inr (hs', ms') \<and> hs c = None
      \<and> filter (\<lambda>j. hd softirq ! j = c) [0..<length (hd softirq) - 1] = [i]
    \<longrightarrow> (\<exists>pre post h1 m1 info. [0..<length (hd softirq) - 1] = pre @ i # post
          \<and> foldE (softirq_column clock softirq) (hs, ms) pre = Inr (h1, m1) \<and> h1 c = None
          \<and> softirq_parse (clock i) softirq i = Inr info
          \<and> softirq_column clock softirq (h1, m1) i = Inr (h1(c \<mapsto> info), m1)
          \<and> foldE (softirq_column clock softirq) (h1(c \<mapsto> info), m1) post = Inr (hs', ms')
          \<and> hs' c = Some info)
        \<and> filter (\<lambda>m. pirq_cpu m = c) (mi_soft_irq ms')
          = filter (\<lambda>m. pirq_cpu m = c) (mi_soft_irq ms))
   \<and> (cpu_loop stof (hc, mc) records = Inr (hc', mc') \<and> hc k = None
      \<and> filter (\<lambda>x. cpu_entity x = Some k) records = [rc]
    \<longrightarrow> (\<exists>pre post h1 m1 cs. records = pre @ rc # post
          \<and> cpu_loop stof (hc, mc) pre = Inr (h1, m1) \<and> h1 k = None
          \<and> cpu_parse stof rc = Inr cs
          \<and> cpu_line stof (h1, m1) rc = Inr (h1(k \<mapsto> cs), m1)
          \<and> cpu_loop stof (h1(k \<mapsto> cs), m1) post = Inr (hc', mc')
          \<and> hc' k = Some cs)
        \<and> filter (\<lambda>m. pstat_cpu_name m = k) (mi_cpu_stat mc')
          = filter (\<lambda>m. pstat_cpu_name m = k) (mi_cpu_stat mc))"
proof (intro conjI impI)
  assume a: "net_loop (hn, mn) trs = Inr (hn', mn') \<and> hn n = None
      \<and> filter (\<lambda>x. net_entity (snd x) = Some n) trs = [(t, r)]"
  from a have run: "net_loop (hn, mn) trs = Inr (hn', mn')" and new: "hn n = None"
    and once: "filter (\<lambda>x. net_entity (snd x) = Some n) trs = [(t, r)]"
    by simp_all
  show "\<exists>pre post h1 m1 info. trs = pre @ (t, r) # post
          \<and> net_loop (hn, mn) pre = Inr (h1, m1) \<and> h1 n = None
          \<and> net_parse t n r = Inr info
          \<and> net_line (h1, m1) (t, r) = Inr (h1(n \<mapsto> info), m1)
          \<and> net_loop (h1(n \<mapsto> info), m1) post = Inr (hn', mn')
          \<and> hn' n = Some info"
    by (rule first_record_net [OF run new once])
  show "filter (\<lambda>m. pnet_name m = n) (mi_net_info mn')
          = filter (\<lambda>m. pnet_name m = n) (mi_net_info mn)"
    using first_observation_net [OF run new once] by (rule conjunct1)
next
  assume a: "softirq_loop clock softirq (hs, ms) = Inr (hs', ms') \<and> hs c = None
      \<and> filter (\<lambda>j. hd softirq ! j = c) [0..<length (hd softirq) - 1] = [i]"
  from a have run: "softirq_loop clock softirq (hs, ms) = Inr (hs', ms')" and new: "hs c = None"
    and once: "filter (\<lambda>j. hd softirq ! j = c) [0..<length (hd softirq) - 1] = [i]"
    by simp_all
  show "\<exists>pre post h1 m1 info. [0..<length (hd softirq) - 1] = pre @ i # post
          \<and> foldE (softirq_column clock softirq) (hs, ms) pre = Inr (h1, m1) \<and> h1 c = None
          \<and> softirq_parse (clock i) softirq i = Inr info
          \<and> softirq_column clock softirq (h1, m1) i = Inr (h1(c \<mapsto> info), m1)
          \<and> foldE (softirq_column clock softirq) (h1(c \<mapsto> info), m1) post = Inr (hs', ms')
          \<and> hs' c = Some info"
    by (rule first_record_softirq [OF run new once])
  show "filter (\<lambda>m. pirq_cpu m = c) (mi_soft_irq ms')
          = filter (\<lambda>m. pirq_cpu m = c) (mi_soft_irq ms)"
    using first_observation_softirq [OF run new once] by (rule conjunct1)
next
  assume a: "cpu_loop stof (hc, mc) records = Inr (hc', mc') \<and> hc k = None
      \<and> filter (\<lambda>x. cpu_entity x = Some k) records = [rc]"
  from a have run: "cpu_loop stof (hc, mc) records = Inr (hc', mc')" and new: "hc k = None"
    and once: "filter (\<lambda>x. cpu_entity x = Some k) records = [rc]"
    by simp_all
  show "\<exists>pre post h1 m1 cs. records = pre @ rc # post
          \<and> cpu_loop stof (hc, mc) pre = Inr (h1, m1) \<and> h1 k = None
          \<and> cpu_parse stof rc = Inr cs
          \<and> cpu_line stof (h1, m1) rc = Inr (h1(k \<mapsto> cs), m1)
          \<and> cpu_loop stof (h1(k \<mapsto> cs), m1) post = Inr (hc', mc')
          \<and> hc' k = Some cs"
    by (rule first_record_cpu [OF run new once])
  show "filter (\<lambda>m. pstat_cpu_name m = k) (mi_cpu_stat mc')
          = filter (\<lambda>m. pstat_cpu_name m = k) (mi_cpu_stat mc)"
    using first_observation_cpu [OF run new once] by (rule conjunct1)
qed

theorem first_observation_suppressed_witness:
  "((net_loop (Map.empty, MonitorInfo_default) (stamp example_clock_1 (read_all example_net_dev_1)) = Inr ([''eth0'' \<mapsto> example_net_1], MonitorInfo_default) \<and> Map.empty ''eth0'' = None
      \<and> filter (\<lambda>x. net_entity (snd x) = Some ''eth0'') (stamp example_clock_1 (read_all example_net_dev_1)) = [(1000000000, [''eth0:'', ''2048'', ''100'', ''0'', ''0'', ''0'', ''0'', ''0'', ''0'', ''0'', ''7'', ''0'', ''0'', ''0'', ''0'', ''0'', ''0''])])
    \<and> (\<exists>pre post h1 m1 info. (stamp example_clock_1 (read_all example_net_dev_1)) = pre @ (1000000000, [''eth0:'', ''2048'', ''100'', ''0'', ''0'', ''0'', ''0'', ''0'', ''0'', ''0'', ''7'', ''0'', ''0'', ''0'', ''0'', ''0'', ''0'']) # post
          \<and> net_loop (Map.empty, MonitorInfo_default) pre = Inr (h1, m1) \<and> h1 ''eth0'' = None
          \<and> net_parse 1000000000 ''eth0'' [''eth0:'', ''2048'', ''100'', ''0'', ''0'', ''0'', ''0'', ''0'', ''0'', ''0'', ''7'', ''0'', ''0'', ''0'', ''0'', ''0'', ''0''] = Inr info
          \<and> net_line (h1, m1) (1000000000, [''eth0:'', ''2048'', ''100'', ''0'', ''0'', ''0'', ''0'', ''0'', ''0'', ''0'', ''7'', ''0'', ''0'', ''0'', ''0'', ''0'', ''0'']) = Inr (h1(''eth0'' \<mapsto> info), m1)
          \<and> net_loop (h1(''eth0'' \<mapsto> info), m1) post = Inr ([''eth0'' \<mapsto> example_net_1], MonitorInfo_default)
          \<and> [''eth0'' \<mapsto> example_net_1] ''eth0'' = Some info)
        \<and> filter (\<lambda>m. pnet_name m = ''eth0'') (mi_net_info MonitorInfo_default)
          = filter (\<lambda>m. pnet_name m = ''eth0'') (mi_net_info MonitorInfo_default))
   \<and> ((softirq_loop example_clock_1 (read_all example_softirqs_1) (Map.empty, MonitorInfo_default) = Inr ([''CPU0'' \<mapsto> example_irq_cpu0_1, ''CPU1'' \<mapsto> example_irq_cpu1_1], MonitorInfo_default) \<and> Map.empty ''CPU0'' = None
      \<and> filter (\<lambda>j. hd (read_all example_softirqs_1) ! j = ''CPU0'') [0..<length (hd (read_all example_softirqs_1)) - 1] = [0])
    \<and> (\<exists>pre post h1 m1 info. [0..<length (hd (read_all example_softirqs_1)) - 1] = pre @ 0 # post
          \<and> foldE (softirq_column example_clock_1 (read_all example_softirqs_1)) (Map.empty, MonitorInfo_default) pre = Inr (h1, m1) \<and> h1 ''CPU0'' = None
          \<and> softirq_parse (example_clock_1 0) (read_all example_softirqs_1) 0 = Inr info
          \<and> softirq_column example_clock_1 (read_all example_softirqs_1) (h1, m1) 0 = Inr (h1(''CPU0'' \<mapsto> info), m1)
          \<and> foldE (softirq_column example_clock_1 (read_all example_softirqs_1)) (h1(''CPU0'' \<mapsto> info), m1) post = Inr ([''CPU0'' \<mapsto> example_irq_cpu0_1, ''CPU1'' \<mapsto> example_irq_cpu1_1], MonitorInfo_default)
          \<and> [''CPU0'' \<mapsto> example_irq_cpu0_1, ''CPU1'' \<mapsto> example_irq_cpu1_1] ''CPU0'' = Some info)
        \<and> filter (\<lambda>m. pirq_cpu m = ''CPU0'') (mi_soft_irq MonitorInfo_default)
          = filter (\<lambda>m. pirq_cpu m = ''CPU0'') (mi_soft_irq MonitorInfo_default))
   \<and> ((cpu_loop stof_integer (Map.empty, MonitorInfo_default) (read_all example_stat_1) = Inr ([''cpu0'' \<mapsto> example_stat_cpu0_1], MonitorInfo_default) \<and> Map.empty ''cpu0'' = None
      \<and> filter (\<lambda>x. cpu_entity x = Some ''cpu0'') (read_all example_stat_1) = [[''cpu0'', ''100'', ''0'', ''50'', ''800'', ''10'', ''0'', ''5'', ''0'', ''0'', ''0'']])
    \<and> (\<exists>pre post h1 m1 cs. read_all example_stat_1 = pre @ [''cpu0'', ''100'', ''0'', ''50'', ''800'', ''10'', ''0'', ''5'', ''0'', ''0'', ''0''] # post
          \<and> cpu_loop stof_integer (Map.empty, MonitorInfo_default) pre = Inr (h1, m1) \<and> h1 ''cpu0'' = None
          \<and> cpu_parse stof_integer [''cpu0'', ''100'', ''0'', ''50'', ''800'', ''10'', ''0'', ''5'', ''0'', ''0'', ''0''] = Inr cs
          \<and> cpu_line stof_integer (h1, m1) [''cpu0'', ''100'', ''0'', ''50'', ''800'', ''10'', ''0'', ''5'', ''0'', ''0'', ''0''] = Inr (h1(''cpu0'' \<mapsto> cs), m1)
          \<and> cpu_loop stof_integer (h1(''cpu0'' \<mapsto> cs), m1) post = Inr ([''cpu0'' \<mapsto> example_stat_cpu0_1], MonitorInfo_default)
          \<and> [''cpu0'' \<mapsto> example_stat_cpu0_1] ''cpu0'' = Some cs)
        \<and> filter (\<lambda>m. pstat_cpu_name m = ''cpu0'') (mi_cpu_stat MonitorInfo_default)
          = filter (\<lambda>m. pstat_cpu_name m = ''cpu0'') (mi_cpu_stat MonitorInfo_default))"
proof -
  note claim = first_observation_suppressed
    [where hn = Map.empty and mn = MonitorInfo_default
       and trs = "stamp example_clock_1 (read_all example_net_dev_1)"
       and hn' = "[''eth0'' \<mapsto> example_net_1]" and mn' = MonitorInfo_default
       and n = "''eth0''" and t = 1000000000
       and r = "[''eth0:'', ''2048'', ''100'', ''0'', ''0'', ''0'', ''0'', ''0'', ''0'', ''0'', ''7'', ''0'', ''0'', ''0'', ''0'', ''0'', ''0'']"
       and clock = example_clock_1 and softirq = "read_all example_softirqs_1"
       and hs = Map.empty and ms = MonitorInfo_default
       and hs' = "[''CPU0'' \<mapsto> example_irq_cpu0_1, ''CPU1'' \<mapsto> example_irq_cpu1_1]"
       and ms' = MonitorInfo_default and c = "''CPU0''" and i = 0
       and stof = stof_integer and hc = Map.empty and mc = MonitorInfo_default
       and records = "read_all example_stat_1"
       and hc' = "[''cpu0'' \<mapsto> example_stat_cpu0_1]" and mc' = MonitorInfo_default
       and k = "''cpu0''" and rc = "[''cpu0'', ''100'', ''0'', ''50'', ''800'', ''10'', ''0'', ''5'', ''0'', ''0'', ''0'']"]
  have hn: "net_loop (Map.empty, MonitorInfo_default) (stamp example_clock_1 (read_all example_net_dev_1)) = Inr ([''eth0'' \<mapsto> example_net_1], MonitorInfo_default) \<and> Map.empty ''eth0'' = None
      \<and> filter (\<lambda>x. net_entity (snd x) = Some ''eth0'') (stamp example_clock_1 (read_all example_net_dev_1)) = [(1000000000, [''eth0:'', ''2048'', ''100'', ''0'', ''0'', ''0'', ''0'', ''0'', ''0'', ''0'', ''7'', ''0'', ''0'', ''0'', ''0'', ''0'', ''0''])]"
    using example_net_run_1 [of MonitorInfo_default] example_net_once_1 by simp
  have hi: "softirq_loop example_clock_1 (read_all example_softirqs_1) (Map.empty, MonitorInfo_default) = Inr ([''CPU0'' \<mapsto> example_irq_cpu0_1, ''CPU1'' \<mapsto> example_irq_cpu1_1], MonitorInfo_default) \<and> Map.empty ''CPU0'' = None
      \<and> filter (\<lambda>j. hd (read_all example_softirqs_1) ! j = ''CPU0'') [0..<length (hd (read_all example_softirqs_1)) - 1] = [0]"
    using example_softirq_run_1 [of MonitorInfo_default] example_softirq_once(1) by simp
  have hc: "cpu_loop stof_integer (Map.empty, MonitorInfo_default) (read_all example_stat_1) = Inr ([''cpu0'' \<mapsto> example_stat_cpu0_1], MonitorInfo_default) \<and> Map.empty ''cpu0'' = None
      \<and> filter (\<lambda>x. cpu_entity x = Some ''cpu0'') (read_all example_stat_1) = [[''cpu0'', ''100'', ''0'', ''50'', ''800'', ''10'', ''0'', ''5'', ''0'', ''0'', ''0'']]"
    using example_stat_run_1 [of MonitorInfo_default] example_stat_once(1) by simp
  note net = claim [THEN conjunct1, THEN mp, OF hn]
  note irq = claim [THEN conjunct2, THEN conjunct1, THEN mp, OF hi]
  note cpu = claim [THEN conjunct2, THEN conjunct2, THEN mp, OF hc]
  show ?thesis
    by (rule conjI [OF conjI [OF hn net] conjI [OF conjI [OF hi irq] conjI [OF hc cpu]]])
qed


text \<open>
  C3. For an entity with an earlier sample, one record in the source of the call and a
  positive elapsed time, the call adds one record for the entity, and each rate in it is
  the difference of the counters divided by the elapsed seconds, which are the difference
  of the two time points in nanoseconds over \<open>10 ^ 9\<close>; the byte rates of the network
  sampler are divided by 1024 as well. Counters 100 and 1100 five seconds apart give 200
  per second.
\<close>

theorem rate_correctness:
  "(net_loop (hn, mn) trs = Inr (hn', mn') \<and> hn n = Some oldn
      \<and> filter (\<lambda>x. net_entity (snd x) = Some n) trs = [(t, r)]
      \<and> 0 < (real_of_int (t - net_timepoint oldn) / 1000000000)
    \<longrightarrow> (\<exists>info. net_parse t n r = Inr info \<and> hn' n = Some info
          \<and> filter (\<lambda>m. pnet_name m = n) (mi_net_info mn')
              = filter (\<lambda>m. pnet_name m = n) (mi_net_info mn)
                @ [\<lparr>pnet_name = n,
                    pnet_send_rate = real_of_int (net_snd_bytes info - net_snd_bytes oldn) / 1024 / (real_of_int (t - net_timepoint oldn) / 1000000000),
                    pnet_rcv_rate = real_of_int (net_rcv_bytes info - net_rcv_bytes oldn) / 1024 / (real_of_int (t - net_timepoint oldn) / 1000000000),
                    pnet_send_packets_rate = real_of_int (net_snd_packets info - net_snd_packets oldn) / (real_of_int (t - net_timepoint oldn) / 1000000000),
                    pnet_rcv_packets_rate = real_of_int (net_rcv_packets info - net_rcv_packets oldn) / (real_of_int (t - net_timepoint oldn) / 1000000000)\<rparr>]))
   \<and> (softirq_loop clock softirq (hs, ms) = Inr (hs', ms') \<and> hs c = Some olds
      \<and> filter (\<lambda>j. hd softirq ! j = c) [0..<length (hd softirq) - 1] = [i]
      \<and> 0 < (real_of_int (clock i - irq_timepoint olds) / 1000000000)
    \<longrightarrow> (\<exists>info. softirq_parse (clock i) softirq i = Inr info \<and> hs' c = Some info
          \<and> filter (\<lambda>m. pirq_cpu m = c) (mi_soft_irq ms')
              = filter (\<lambda>m. pirq_cpu m = c) (mi_soft_irq ms)
                @ [\<lparr>pirq_cpu = c,
                    pirq_hi = real_of_int (irq_hi info - irq_hi olds) / (real_of_int (clock i - irq_timepoint olds) / 1000000000),
                    pirq_timer = real_of_int (irq_timer info - irq_timer olds) / (real_of_int (clock i - irq_timepoint olds) / 1000000000),
                    pirq_net_tx = real_of_int (irq_net_tx info - irq_net_tx olds) / (real_of_int (clock i - irq_timepoint olds) / 1000000000),
                    pirq_net_rx = real_of_int (irq_net_rx info - irq_net_rx olds) / (real_of_int (clock i - irq_timepoint olds) / 1000000000),
                    pirq_block = real_of_int (irq_block info - irq_block olds) / (real_of_int (clock i - irq_timepoint olds) / 1000000000),
                    pirq_irq_poll = real_of_int (irq_irq_poll info - irq_irq_poll olds) / (real_of_int (clock i - irq_timepoint olds) / 1000000000),
                    pirq_tasklet = real_of_int (irq_tasklet info - irq_tasklet olds) / (real_of_int (clock i - irq_timepoint olds) / 1000000000),
                    pirq_sched = real_of_int (irq_sched info - irq_sched olds) / (real_of_int (clock i - irq_timepoint olds) / 1000000000),
                    pirq_hrtimer = real_of_int (irq_hrtimer info - irq_hrtimer olds) / (real_of_int (clock i - irq_timepoint olds) / 1000000000),
                    pirq_rcu = real_of_int (irq_rcu info - irq_rcu olds) / (real_of_int (clock i - irq_timepoint olds) / 1000000000)\<rparr>]))
   \<and> real_of_int (1100 - 100) / SteadyTimeSecond (t0 + 5000000000) t0 = 200"
proof (intro conjI impI)
  assume "net_loop (hn, mn) trs = Inr (hn', mn') \<and> hn n = Some oldn
      \<and> filter (\<lambda>x. net_entity (snd x) = Some n) trs = [(t, r)]
      \<and> 0 < (real_of_int (t - net_timepoint oldn) / 1000000000)"
  then show "\<exists>info. net_parse t n r = Inr info \<and> hn' n = Some info
          \<and> filter (\<lambda>m. pnet_name m = n) (mi_net_info mn')
              = filter (\<lambda>m. pnet_name m = n) (mi_net_info mn)
                @ [\<lparr>pnet_name = n,
                    pnet_send_rate = real_of_int (net_snd_bytes info - net_snd_bytes oldn) / 1024 / (real_of_int (t - net_timepoint oldn) / 1000000000),
                    pnet_rcv_rate = real_of_int (net_rcv_bytes info - net_rcv_bytes oldn) / 1024 / (real_of_int (t - net_timepoint oldn) / 1000000000),
                    pnet_send_packets_rate = real_of_int (net_snd_packets info - net_snd_packets oldn) / (real_of_int (t - net_timepoint oldn) / 1000000000),
                    pnet_rcv_packets_rate = real_of_int (net_rcv_packets info - net_rcv_packets oldn) / (real_of_int (t - net_timepoint oldn) / 1000000000)\<rparr>]"
    using rates_net [of hn mn trs hn' mn' n oldn t r, unfolded SteadyTimeSecond_def]
    by (elim conjE) simp
next
  assume "softirq_loop clock softirq (hs, ms) = Inr (hs', ms') \<and> hs c = Some olds
      \<and> filter (\<lambda>j. hd softirq ! j = c) [0..<length (hd softirq) - 1] = [i]
      \<and> 0 < (real_of_int (clock i - irq_timepoint olds) / 1000000000)"
  then show "\<exists>info. softirq_parse (clock i) softirq i = Inr info \<and> hs' c = Some info
          \<and> filter (\<lambda>m. pirq_cpu m = c) (mi_soft_irq ms')
              = filter (\<lambda>m. pirq_cpu m = c) (mi_soft_irq ms)
                @ [\<lparr>pirq_cpu = c,
                    pirq_hi = real_of_int (irq_hi info - irq_hi olds) / (real_of_int (clock i - irq_timepoint olds) / 1000000000),
                    pirq_timer = real_of_int (irq_timer info - irq_timer olds) / (real_of_int (clock i - irq_timepoint olds) / 1000000000),
                    pirq_net_tx = real_of_int (irq_net_tx info - irq_net_tx olds) / (real_of_int (clock i - irq_timepoint olds) / 1000000000),
                    pirq_net_rx = real_of_int (irq_net_rx info - irq_net_rx olds) / (real_of_int (clock i - irq_timepoint olds) / 1000000000),
                    pirq_block = real_of_int (irq_block info - irq_block olds) / (real_of_int (clock i - irq_timepoint olds) / 1000000000),
                    pirq_irq_poll = real_of_int (irq_irq_poll info - irq_irq_poll olds) / (real_of_int (clock i - irq_timepoint olds) / 1000000000),
                    pirq_tasklet = real_of_int (irq_tasklet info - irq_tasklet olds) / (real_of_int (clock i - irq_timepoint olds) / 1000000000),
                    pirq_sched = real_of_int (irq_sched info - irq_sched olds) / (real_of_int (clock i - irq_timepoint olds) / 1000000000),
                    pirq_hrtimer = real_of_int (irq_hrtimer info - irq_hrtimer olds) / (real_of_int (clock i - irq_timepoint olds) / 1000000000),
                    pirq_rcu = real_of_int (irq_rcu info - irq_rcu olds) / (real_of_int (clock i - irq_timepoint olds) / 1000000000)\<rparr>]"
    using rates_softirq [of clock softirq hs ms hs' ms' c olds i, unfolded SteadyTimeSecond_def]
    by (elim conjE) simp
next
  show "real_of_int (1100 - 100) / SteadyTimeSecond (t0 + 5000000000) t0 = 200"
    by (simp add: SteadyTimeSecond_def)
qed

theorem rate_correctness_witness:
  "net_loop ([''eth0'' \<mapsto> example_net_1], MonitorInfo_default)
       (stamp example_clock_2 (read_all example_net_dev_2))
     = Inr ([''eth0'' \<mapsto> example_net_2],
            MonitorInfo_default\<lparr>mi_net_info :=
              [\<lparr>pnet_name = ''eth0'', pnet_send_rate = 200, pnet_rcv_rate = 1,
                pnet_send_packets_rate = 10, pnet_rcv_packets_rate = 200\<rparr>]\<rparr>)
   \<and> 0 < (real_of_int (6000000000 - net_timepoint example_net_1) / 1000000000)
   \<and> [\<lparr>pnet_name = ''eth0'', pnet_send_rate = 200, pnet_rcv_rate = 1,
        pnet_send_packets_rate = 10, pnet_rcv_packets_rate = (200 :: real)\<rparr>]
     = [\<lparr>pnet_name = ''eth0'',
        pnet_send_rate = real_of_int (net_snd_bytes example_net_2 - net_snd_bytes example_net_1) / 1024 / (real_of_int (6000000000 - net_timepoint example_net_1) / 1000000000),
        pnet_rcv_rate = real_of_int (net_rcv_bytes example_net_2 - net_rcv_bytes example_net_1) / 1024 / (real_of_int (6000000000 - net_timepoint example_net_1) / 1000000000),
        pnet_send_packets_rate = real_of_int (net_snd_packets example_net_2 - net_snd_packets example_net_1) / (real_of_int (6000000000 - net_timepoint example_net_1) / 1000000000),
        pnet_rcv_packets_rate = real_of_int (net_rcv_packets example_net_2 - net_rcv_packets example_net_1) / (real_of_int (6000000000 - net_timepoint example_net_1) / 1000000000)\<rparr>]
   \<and> softirq_loop example_clock_2 (read_all example_softirqs_2)
       ([''CPU0'' \<mapsto> example_irq_cpu0_1, ''CPU1'' \<mapsto> example_irq_cpu1_1], MonitorInfo_default)
     = Inr ([''CPU0'' \<mapsto> example_irq_cpu0_2, ''CPU1'' \<mapsto> example_irq_cpu1_2],
            MonitorInfo_default\<lparr>mi_soft_irq := [example_irq_msg_cpu0, example_irq_msg_cpu1]\<rparr>)
   \<and> 0 < (real_of_int (example_clock_2 0 - irq_timepoint example_irq_cpu0_1) / 1000000000)
   \<and> [example_irq_msg_cpu0]
     = [\<lparr>pirq_cpu = ''CPU0'',
        pirq_hi = real_of_int (irq_hi example_irq_cpu0_2 - irq_hi example_irq_cpu0_1) / (real_of_int (example_clock_2 0 - irq_timepoint example_irq_cpu0_1) / 1000000000),
        pirq_timer = real_of_int (irq_timer example_irq_cpu0_2 - irq_timer example_irq_cpu0_1) / (real_of_int (example_clock_2 0 - irq_timepoint example_irq_cpu0_1) / 1000000000),
        pirq_net_tx = real_of_int (irq_net_tx example_irq_cpu0_2 - irq_net_tx example_irq_cpu0_1) / (real_of_int (example_clock_2 0 - irq_timepoint example_irq_cpu0_1) / 1000000000),
        pirq_net_rx = real_of_int (irq_net_rx example_irq_cpu0_2 - irq_net_rx example_irq_cpu0_1) / (real_of_int (example_clock_2 0 - irq_timepoint example_irq_cpu0_1) / 1000000000),
        pirq_block = real_of_int (irq_block example_irq_cpu0_2 - irq_block example_irq_cpu0_1) / (real_of_int (example_clock_2 0 - irq_timepoint example_irq_cpu0_1) / 1000000000),
        pirq_irq_poll = real_of_int (irq_irq_poll example_irq_cpu0_2 - irq_irq_poll example_irq_cpu0_1) / (real_of_int (example_clock_2 0 - irq_timepoint example_irq_cpu0_1) / 1000000000),
        pirq_tasklet = real_of_int (irq_tasklet example_irq_cpu0_2 - irq_tasklet example_irq_cpu0_1) / (real_of_int (example_clock_2 0 - irq_timepoint example_irq_cpu0_1) / 1000000000),
        pirq_sched = real_of_int (irq_sched example_irq_cpu0_2 - irq_sched example_irq_cpu0_1) / (real_of_int (example_clock_2 0 - irq_timepoint example_irq_cpu0_1) / 1000000000),
        pirq_hrtimer = real_of_int (irq_hrtimer example_irq_cpu0_2 - irq_hrtimer example_irq_cpu0_1) / (real_of_int (example_clock_2 0 - irq_timepoint example_irq_cpu0_1) / 1000000000),
        pirq_rcu = real_of_int (irq_rcu example_irq_cpu0_2 - irq_rcu example_irq_cpu0_1) / (real_of_int (example_clock_2 0 - irq_timepoint example_irq_cpu0_1) / 1000000000)\<rparr>]
   \<and> pirq_hi example_irq_msg_cpu0 = 200"
proof -
  let ?netmsg = "\<lparr>pnet_name = ''eth0'', pnet_send_rate = 200, pnet_rcv_rate = 1,
        pnet_send_packets_rate = 10, pnet_rcv_packets_rate = (200 :: real)\<rparr>"
  note claim = rate_correctness
    [where hn = "[''eth0'' \<mapsto> example_net_1]" and mn = MonitorInfo_default
       and trs = "stamp example_clock_2 (read_all example_net_dev_2)"
       and hn' = "[''eth0'' \<mapsto> example_net_2]"
       and mn' = "MonitorInfo_default\<lparr>mi_net_info := [?netmsg]\<rparr>"
       and n = "''eth0''" and oldn = example_net_1 and t = 6000000000
       and r = "[''eth0:'', ''7168'', ''1100'', ''0'', ''0'', ''0'', ''0'', ''0'', ''0'', ''1024000'', ''57'', ''0'', ''0'', ''0'', ''0'', ''0'', ''0'']"
       and clock = example_clock_2 and softirq = "read_all example_softirqs_2"
       and hs = "[''CPU0'' \<mapsto> example_irq_cpu0_1, ''CPU1'' \<mapsto> example_irq_cpu1_1]"
       and ms = MonitorInfo_default
       and hs' = "[''CPU0'' \<mapsto> example_irq_cpu0_2, ''CPU1'' \<mapsto> example_irq_cpu1_2]"
       and ms' = "MonitorInfo_default\<lparr>mi_soft_irq := [example_irq_msg_cpu0, example_irq_msg_cpu1]\<rparr>"
       and c = "''CPU0''" and olds = example_irq_cpu0_1 and i = 0]
  have pos: "0 < (real_of_int (6000000000 - net_timepoint example_net_1) / 1000000000)"
    "0 < (real_of_int (example_clock_2 0 - irq_timepoint example_irq_cpu0_1) / 1000000000)"
    by (simp_all add: example_net_1_def example_irq_cpu0_1_def example_clock_2_def)
  have "net_loop ([''eth0'' \<mapsto> example_net_1], MonitorInfo_default)
          (stamp example_clock_2 (read_all example_net_dev_2))
        = Inr ([''eth0'' \<mapsto> example_net_2], MonitorInfo_default\<lparr>mi_net_info := [?netmsg]\<rparr>)
      \<and> [''eth0'' \<mapsto> example_net_1] ''eth0'' = Some example_net_1
      \<and> filter (\<lambda>x. net_entity (snd x) = Some ''eth0'')
          (stamp example_clock_2 (read_all example_net_dev_2))
        = [(6000000000, [''eth0:'', ''7168'', ''1100'', ''0'', ''0'', ''0'', ''0'', ''0'', ''0'', ''1024000'', ''57'', ''0'', ''0'', ''0'', ''0'', ''0'', ''0''])]
      \<and> 0 < (real_of_int (6000000000 - net_timepoint example_net_1) / 1000000000)"
    using example_net_run_2 pos(1)
    by (simp add: example_net_records_2 net_entity_def net_is_interface_def colon_is_last_def)
  from claim [THEN conjunct1, THEN mp, OF this] obtain info
    where "[''eth0'' \<mapsto> example_net_2] ''eth0'' = Some info"
      and "filter (\<lambda>m. pnet_name m = ''eth0'')
             (mi_net_info (MonitorInfo_default\<lparr>mi_net_info := [?netmsg]\<rparr>))
           = filter (\<lambda>m. pnet_name m = ''eth0'') (mi_net_info MonitorInfo_default)
             @ [\<lparr>pnet_name = ''eth0'',
                pnet_send_rate = real_of_int (net_snd_bytes info - net_snd_bytes example_net_1) / 1024 / (real_of_int (6000000000 - net_timepoint example_net_1) / 1000000000),
                pnet_rcv_rate = real_of_int (net_rcv_bytes info - net_rcv_bytes example_net_1) / 1024 / (real_of_int (6000000000 - net_timepoint example_net_1) / 1000000000),
                pnet_send_packets_rate = real_of_int (net_snd_packets info - net_snd_packets example_net_1) / (real_of_int (6000000000 - net_timepoint example_net_1) / 1000000000),
                pnet_rcv_packets_rate = real_of_int (net_rcv_packets info - net_rcv_packets example_net_1) / (real_of_int (6000000000 - net_timepoint example_net_1) / 1000000000)\<rparr>]"
    by (elim exE conjE) (rule that)
  moreover from this(1) have "info = example_net_2"
    by simp
  moreover have "filter (\<lambda>m. pnet_name m = ''eth0'')
      (mi_net_info (MonitorInfo_default\<lparr>mi_net_info := [?netmsg]\<rparr>)) = [?netmsg]"
    "filter (\<lambda>m. pnet_name m = ''eth0'') (mi_net_info MonitorInfo_default) = []"
    by (simp_all add: MonitorInfo_default_def)
  ultimately have net: "[?netmsg]
     = [\<lparr>pnet_name = ''eth0'',
        pnet_send_rate = real_of_int (net_snd_bytes example_net_2 - net_snd_bytes example_net_1) / 1024 / (real_of_int (6000000000 - net_timepoint example_net_1) / 1000000000),
        pnet_rcv_rate = real_of_int (net_rcv_bytes example_net_2 - net_rcv_bytes example_net_1) / 1024 / (real_of_int (6000000000 - net_timepoint example_net_1) / 1000000000),
        pnet_send_packets_rate = real_of_int (net_snd_packets example_net_2 - net_snd_packets example_net_1) / (real_of_int (6000000000 - net_timepoint example_net_1) / 1000000000),
        pnet_rcv_packets_rate = real_of_int (net_rcv_packets example_net_2 - net_rcv_packets example_net_1) / (real_of_int (6000000000 - net_timepoint example_net_1) / 1000000000)\<rparr>]"
    by (simp only: append_Nil)
  have "softirq_loop example_clock_2 (read_all example_softirqs_2)
          ([''CPU0'' \<mapsto> example_irq_cpu0_1, ''CPU1'' \<mapsto> example_irq_cpu1_1], MonitorInfo_default)
        = Inr ([''CPU0'' \<mapsto> example_irq_cpu0_2, ''CPU1'' \<mapsto> example_irq_cpu1_2],
               MonitorInfo_default\<lparr>mi_soft_irq := [example_irq_msg_cpu0, example_irq_msg_cpu1]\<rparr>)
      \<and> [''CPU0'' \<mapsto> example_irq_cpu0_1, ''CPU1'' \<mapsto> example_irq_cpu1_1] ''CPU0''
        = Some example_irq_cpu0_1
      \<and> filter (\<lambda>j. hd (read_all example_softirqs_2) ! j = ''CPU0'')
          [0..<length (hd (read_all example_softirqs_2)) - 1] = [0]
      \<and> 0 < (real_of_int (example_clock_2 0 - irq_timepoint example_irq_cpu0_1) / 1000000000)"
    using example_softirq_run_2 example_softirq_once(2) pos(2) by simp
  from claim [THEN conjunct2, THEN conjunct1, THEN mp, OF this] obtain info
    where "[''CPU0'' \<mapsto> example_irq_cpu0_2, ''CPU1'' \<mapsto> example_irq_cpu1_2] ''CPU0'' = Some info"
      and "filter (\<lambda>m. pirq_cpu m = ''CPU0'')
             (mi_soft_irq (MonitorInfo_default\<lparr>mi_soft_irq :=
                [example_irq_msg_cpu0, example_irq_msg_cpu1]\<rparr>))
           = filter (\<lambda>m. pirq_cpu m = ''CPU0'') (mi_soft_irq MonitorInfo_default)
             @ [\<lparr>pirq_cpu = ''CPU0'',
                pirq_hi = real_of_int (irq_hi info - irq_hi example_irq_cpu0_1) / (real_of_int (example_clock_2 0 - irq_timepoint example_irq_cpu0_1) / 1000000000),
                pirq_timer = real_of_int (irq_timer info - irq_timer example_irq_cpu0_1) / (real_of_int (example_clock_2 0 - irq_timepoint example_irq_cpu0_1) / 1000000000),
                pirq_net_tx = real_of_int (irq_net_tx info - irq_net_tx example_irq_cpu0_1) / (real_of_int (example_clock_2 0 - irq_timepoint example_irq_cpu0_1) / 1000000000),
                pirq_net_rx = real_of_int (irq_net_rx info - irq_net_rx example_irq_cpu0_1) / (real_of_int (example_clock_2 0 - irq_timepoint example_irq_cpu0_1) / 1000000000),
                pirq_block = real_of_int (irq_block info - irq_block example_irq_cpu0_1) / (real_of_int (example_clock_2 0 - irq_timepoint example_irq_cpu0_1) / 1000000000),
                pirq_irq_poll = real_of_int (irq_irq_poll info - irq_irq_poll example_irq_cpu0_1) / (real_of_int (example_clock_2 0 - irq_timepoint example_irq_cpu0_1) / 1000000000),
                pirq_tasklet = real_of_int (irq_tasklet info - irq_tasklet example_irq_cpu0_1) / (real_of_int (example_clock_2 0 - irq_timepoint example_irq_cpu0_1) / 1000000000),
                pirq_sched = real_of_int (irq_sched info - irq_sched example_irq_cpu0_1) / (real_of_int (example_clock_2 0 - irq_timepoint example_irq_cpu0_1) / 1000000000),
                pirq_hrtimer = real_of_int (irq_hrtimer info - irq_hrtimer example_irq_cpu0_1) / (real_of_int (example_clock_2 0 - irq_timepoint example_irq_cpu0_1) / 1000000000),
                pirq_rcu = real_of_int (irq_rcu info - irq_rcu example_irq_cpu0_1) / (real_of_int (example_clock_2 0 - irq_timepoint example_irq_cpu0_1) / 1000000000)\<rparr>]"
    by (elim exE conjE) (rule that)
  moreover from this(1) have "info = example_irq_cpu0_2"
    by simp
  moreover have "filter (\<lambda>m. pirq_cpu m = ''CPU0'')
      (mi_soft_irq (MonitorInfo_default\<lparr>mi_soft_irq :=
         [example_irq_msg_cpu0, example_irq_msg_cpu1]\<rparr>)) = [example_irq_msg_cpu0]"
    "filter (\<lambda>m. pirq_cpu m = ''CPU0'') (mi_soft_irq MonitorInfo_default) = []"
    by (simp_all add: MonitorInfo_default_def example_irq_msg_cpu0_def example_irq_msg_cpu1_def)
  ultimately have irq: "[example_irq_msg_cpu0]
     = [\<lparr>pirq_cpu = ''CPU0'',
        pirq_hi = real_of_int (irq_hi example_irq_cpu0_2 - irq_hi example_irq_cpu0_1) / (real_of_int (example_clock_2 0 - irq_timepoint example_irq_cpu0_1) / 1000000000),
        pirq_timer = real_of_int (irq_timer example_irq_cpu0_2 - irq_timer example_irq_cpu0_1) / (real_of_int (example_clock_2 0 - irq_timepoint example_irq_cpu0_1) / 1000000000),
        pirq_net_tx = real_of_int (irq_net_tx example_irq_cpu0_2 - irq_net_tx example_irq_cpu0_1) / (real_of_int (example_clock_2 0 - irq_timepoint example_irq_cpu0_1) / 1000000000),
        pirq_net_rx = real_of_int (irq_net_rx example_irq_cpu0_2 - irq_net_rx example_irq_cpu0_1) / (real_of_int (example_clock_2 0 - irq_timepoint example_irq_cpu0_1) / 1000000000),
        pirq_block = real_of_int (irq_block example_irq_cpu0_2 - irq_block example_irq_cpu0_1) / (real_of_int (example_clock_2 0 - irq_timepoint example_irq_cpu0_1) / 1000000000),
        pirq_irq_poll = real_of_int (irq_irq_poll example_irq_cpu0_2 - irq_irq_poll example_irq_cpu0_1) / (real_of_int (example_clock_2 0 - irq_timepoint example_irq_cpu0_1) / 1000000000),
        pirq_tasklet = real_of_int (irq_tasklet example_irq_cpu0_2 - irq_tasklet example_irq_cpu0_1) / (real_of_int (example_clock_2 0 - irq_timepoint example_irq_cpu0_1) / 1000000000),
        pirq_sched = real_of_int (irq_sched example_irq_cpu0_2 - irq_sched example_irq_cpu0_1) / (real_of_int (example_clock_2 0 - irq_timepoint example_irq_cpu0_1) / 1000000000),
        pirq_hrtimer = real_of_int (irq_hrtimer example_irq_cpu0_2 - irq_hrtimer example_irq_cpu0_1) / (real_of_int (example_clock_2 0 - irq_timepoint example_irq_cpu0_1) / 1000000000),
        pirq_rcu = real_of_int (irq_rcu example_irq_cpu0_2 - irq_rcu example_irq_cpu0_1) / (real_of_int (example_clock_2 0 - irq_timepoint example_irq_cpu0_1) / 1000000000)\<rparr>]"
    by (simp only: append_Nil)
  have hi: "pirq_hi example_irq_msg_cpu0 = 200"
    by (simp add: example_irq_msg_cpu0_def)
  show ?thesis
    using example_net_run_2 pos net example_softirq_run_2 irq hi by (intro conjI)
qed


text \<open>
  C2. The claim: with an earlier sample and an elapsed time, or for the CPU-time sampler a
  total delta, that is not positive, the entity is left out of the snapshot. The CPU-time
  sampler appends the new message before it tests the total delta: the same reading of
  \<open>/proc/stat\<close> on two ticks in a row puts a record with an empty name and zero
  percentages into the snapshot of the second tick.
\<close>

theorem cpu_guard_default_record:
  "cpu_loop stof_integer (Map.empty, MonitorInfo_default)
       [[''cpu0'', ''100'', ''0'', ''50'', ''800'', ''10'', ''0'', ''5'', ''0'', ''0'', ''0'']]
     = Inr ([''cpu0'' \<mapsto> example_stat_cpu0_1], MonitorInfo_default)
   \<and> cpu_loop stof_integer ([''cpu0'' \<mapsto> example_stat_cpu0_1], MonitorInfo_default)
       [[''cpu0'', ''100'', ''0'', ''50'', ''800'', ''10'', ''0'', ''5'', ''0'', ''0'', ''0'']]
     = Inr ([''cpu0'' \<mapsto> example_stat_cpu0_1],
            MonitorInfo_default\<lparr>mi_cpu_stat :=
              [\<lparr>pstat_cpu_name = [], pstat_cpu_percent = 0, pstat_usr_percent = 0,
                pstat_system_percent = 0, pstat_nice_percent = 0, pstat_idle_percent = 0,
                pstat_io_wait_percent = 0, pstat_irq_percent = 0,
                pstat_soft_irq_percent = 0\<rparr>]\<rparr>)"
proof -
  have name: "stat_cpu_name example_stat_cpu0_1 = ''cpu0''"
    by (simp add: example_stat_cpu0_1_def)
  have msg: "cpu_message example_stat_cpu0_1 example_stat_cpu0_1 = proto_CpuStat_default"
    by code_simp
  show ?thesis
    by (simp add: cpu_loop_def cpu_line_def elem_at_def example_stat_parse name msg
        MonitorInfo_default_def proto_CpuStat_default_def)
qed

text \<open>
  One jiffy of idle time past \<open>2 ^ 24\<close>: both readings are stored as the same number, the
  total delta is zero and the record of the call is the blank one, where the counters give
  an idle percentage of 100.
\<close>

lemma cpu_percentage_float_tie:
  "cpu_loop stof_integer
       ([''cpu0'' \<mapsto> \<lparr>stat_cpu_name = ''cpu0'', stat_user = 0, stat_system = 0, stat_idle = 16777216,
      stat_nice = 0, stat_io_wait = 0, stat_irq = 0, stat_soft_irq = 0, stat_steal = 0,
      stat_guest = 0, stat_guest_nice = 0\<rparr>], MonitorInfo_default)
       [[''cpu0'', ''0'', ''0'', ''0'', ''16777217'', ''0'', ''0'', ''0'', ''0'', ''0'', ''0'']]
     = Inr ([''cpu0'' \<mapsto> \<lparr>stat_cpu_name = ''cpu0'', stat_user = 0, stat_system = 0, stat_idle = 16777216,
      stat_nice = 0, stat_io_wait = 0, stat_irq = 0, stat_soft_irq = 0, stat_steal = 0,
      stat_guest = 0, stat_guest_nice = 0\<rparr>],
            MonitorInfo_default\<lparr>mi_cpu_stat := [proto_CpuStat_default]\<rparr>)
   \<and> cpu_parse stof_integer [''cpu0'', ''0'', ''0'', ''0'', ''16777216'', ''0'', ''0'', ''0'', ''0'', ''0'', ''0'']
     = Inr \<lparr>stat_cpu_name = ''cpu0'', stat_user = 0, stat_system = 0, stat_idle = 16777216,
      stat_nice = 0, stat_io_wait = 0, stat_irq = 0, stat_soft_irq = 0, stat_steal = 0,
      stat_guest = 0, stat_guest_nice = 0\<rparr>
   \<and> spec_cpu_percent [''cpu0'', ''0'', ''0'', ''0'', ''16777216'', ''0'', ''0'', ''0'', ''0'', ''0'', ''0'']
       [''cpu0'', ''0'', ''0'', ''0'', ''16777217'', ''0'', ''0'', ''0'', ''0'', ''0'', ''0''] 4 = 100"
proof -
  let ?cs = "\<lparr>stat_cpu_name = ''cpu0'', stat_user = 0, stat_system = 0, stat_idle = 16777216,
      stat_nice = 0, stat_io_wait = 0, stat_irq = 0, stat_soft_irq = 0, stat_steal = 0,
      stat_guest = 0, stat_guest_nice = 0\<rparr>"
  have parse: "cpu_parse stof_integer [''cpu0'', ''0'', ''0'', ''0'', ''16777217'', ''0'', ''0'', ''0'', ''0'', ''0'', ''0''] = Inr ?cs"
    "cpu_parse stof_integer [''cpu0'', ''0'', ''0'', ''0'', ''16777216'', ''0'', ''0'', ''0'', ''0'', ''0'', ''0''] = Inr ?cs"
    by code_simp+
  have msg: "cpu_message ?cs ?cs = proto_CpuStat_default"
    by code_simp
  have spec: "spec_cpu_percent [''cpu0'', ''0'', ''0'', ''0'', ''16777216'', ''0'', ''0'', ''0'', ''0'', ''0'', ''0'']
       [''cpu0'', ''0'', ''0'', ''0'', ''16777217'', ''0'', ''0'', ''0'', ''0'', ''0'', ''0''] 4 = 100"
    by code_simp
  have run: "cpu_loop stof_integer ([''cpu0'' \<mapsto> ?cs], MonitorInfo_default)
       [[''cpu0'', ''0'', ''0'', ''0'', ''16777217'', ''0'', ''0'', ''0'', ''0'', ''0'', ''0'']]
     = Inr ([''cpu0'' \<mapsto> ?cs], MonitorInfo_default\<lparr>mi_cpu_stat := [proto_CpuStat_default]\<rparr>)"
    by (simp add: cpu_loop_def cpu_line_def elem_at_def parse msg MonitorInfo_default_def)
  from run parse(2) spec show ?thesis
    by (intro conjI)
qed

text \<open>
  C4. The claim: each percentage of a record is the delta of its component over the total
  delta times 100, the total being the sum of the deltas of the eight components, so that
  a total delta of 1000 with a user delta of 300 gives 30. The sampler keeps the counters
  and their sums in \<open>float\<close> variables, which hold every integer only up to \<open>2 ^ 24\<close>.
  With an idle counter of 1000000000 the reading 1000000700 is stored as 1000000704, the
  two totals are 1000001024 and 1000001984, and the record of the second call has a busy
  and a user percentage of 31.25 and an idle percentage above 73.3, where the counters
  give 30 and 70.
\<close>

theorem cpu_percentage_float_counters:
  "stof_integer ''1000000700'' = Inr 1000000704
   \<and> cpu_loop stof_integer (Map.empty, MonitorInfo_default) [example_stat_long_1]
     = Inr ([''cpu0'' \<mapsto> example_stat_long_cpu0_1], MonitorInfo_default)
   \<and> cpu_loop stof_integer ([''cpu0'' \<mapsto> example_stat_long_cpu0_1], MonitorInfo_default)
       [example_stat_long_2]
     = Inr ([''cpu0'' \<mapsto> example_stat_long_cpu0_2],
            MonitorInfo_default\<lparr>mi_cpu_stat :=
              [\<lparr>pstat_cpu_name = ''cpu0'', pstat_cpu_percent = 125 / 4,
                pstat_usr_percent = 125 / 4, pstat_system_percent = 0,
                pstat_nice_percent = 0, pstat_idle_percent = 9611947 / 131072,
                pstat_io_wait_percent = 0, pstat_irq_percent = 0,
                pstat_soft_irq_percent = 0\<rparr>]\<rparr>)
   \<and> spec_cpu_percent example_stat_long_1 example_stat_long_2 1 = 30
   \<and> spec_cpu_percent example_stat_long_1 example_stat_long_2 4 = 70"
proof -
  have token: "stof_integer ''1000000700'' = Inr 1000000704"
    by code_simp
  have parse: "cpu_parse stof_integer example_stat_long_1 = Inr example_stat_long_cpu0_1"
    "cpu_parse stof_integer example_stat_long_2 = Inr example_stat_long_cpu0_2"
    by code_simp+
  have name: "stat_cpu_name example_stat_long_cpu0_1 = ''cpu0''"
    "stat_cpu_name example_stat_long_cpu0_2 = ''cpu0''"
    by (simp_all add: example_stat_long_cpu0_1_def example_stat_long_cpu0_2_def)
  have first: "elem_at example_stat_long_1 0 = Inr ''cpu0''"
    "elem_at example_stat_long_2 0 = Inr ''cpu0''"
    by (simp_all add: elem_at_def example_stat_long_1_def example_stat_long_2_def)
  have msg: "cpu_message example_stat_long_cpu0_2 example_stat_long_cpu0_1 =
     \<lparr>pstat_cpu_name = ''cpu0'', pstat_cpu_percent = 125 / 4,
      pstat_usr_percent = 125 / 4, pstat_system_percent = 0,
      pstat_nice_percent = 0, pstat_idle_percent = 9611947 / 131072,
      pstat_io_wait_percent = 0, pstat_irq_percent = 0, pstat_soft_irq_percent = 0\<rparr>"
    by code_simp
  have run1: "cpu_loop stof_integer (Map.empty, MonitorInfo_default) [example_stat_long_1]
     = Inr ([''cpu0'' \<mapsto> example_stat_long_cpu0_1], MonitorInfo_default)"
    by (simp add: cpu_loop_def cpu_line_def first parse name)
  have run2: "cpu_loop stof_integer ([''cpu0'' \<mapsto> example_stat_long_cpu0_1], MonitorInfo_default)
       [example_stat_long_2]
     = Inr ([''cpu0'' \<mapsto> example_stat_long_cpu0_2],
            MonitorInfo_default\<lparr>mi_cpu_stat :=
              [\<lparr>pstat_cpu_name = ''cpu0'', pstat_cpu_percent = 125 / 4,
                pstat_usr_percent = 125 / 4, pstat_system_percent = 0,
                pstat_nice_percent = 0, pstat_idle_percent = 9611947 / 131072,
                pstat_io_wait_percent = 0, pstat_irq_percent = 0,
                pstat_soft_irq_percent = 0\<rparr>]\<rparr>)"
    by (simp add: cpu_loop_def cpu_line_def first parse name msg MonitorInfo_default_def)
  have spec: "spec_cpu_percent example_stat_long_1 example_stat_long_2 1 = 30"
    "spec_cpu_percent example_stat_long_1 example_stat_long_2 4 = 70"
    by code_simp+
  from token run1 run2 spec show ?thesis
    by (intro conjI)
qed

section \<open>The claim about the memory sampler\<close>




section \<open>The claim about the columns of the software-interrupt source\<close>

text \<open>
  The loop runs over the tokens of the header row but the last. The kernel ends the header
  row with blanks, for which the reader appends an empty token; on a row that ends at the
  last CPU name, which the kernel does not print, the last column would get no sample.
\<close>

lemma softirq_unpadded_header:
  "hd (read_all example_softirqs_unpadded) = [''CPU0'', ''CPU1'']
   \<and> CpuSoftIrqMonitor_UpdateOnce example_clock_1 example_softirqs_unpadded
         (Map.empty, MonitorInfo_default)
       = Inr ([''CPU0'' \<mapsto> example_irq_cpu0_1], MonitorInfo_default)
   \<and> [''CPU0'' \<mapsto> example_irq_cpu0_1] ''CPU1'' = None"
proof -
  have records: "read_all example_softirqs_unpadded =
     [[''CPU0'', ''CPU1''],
      [''HI:'', ''100'', ''3''],
      [''TIMER:'', ''5000'', ''4000''],
      [''NET_TX:'', ''10'', ''0''],
      [''NET_RX:'', ''700'', ''20''],
      [''BLOCK:'', ''0'', ''0''],
      [''IRQ_POLL:'', ''0'', ''0''],
      [''TASKLET:'', ''36'', ''1''],
      [''SCHED:'', ''9000'', ''8000''],
      [''HRTIMER:'', ''0'', ''0''],
      [''RCU:'', ''4000'', ''3500'']]"
    by code_simp
  have parse: "softirq_parse 1000000000
     [[''CPU0'', ''CPU1''],
      [''HI:'', ''100'', ''3''],
      [''TIMER:'', ''5000'', ''4000''],
      [''NET_TX:'', ''10'', ''0''],
      [''NET_RX:'', ''700'', ''20''],
      [''BLOCK:'', ''0'', ''0''],
      [''IRQ_POLL:'', ''0'', ''0''],
      [''TASKLET:'', ''36'', ''1''],
      [''SCHED:'', ''9000'', ''8000''],
      [''HRTIMER:'', ''0'', ''0''],
      [''RCU:'', ''4000'', ''3500'']] 0 = Inr example_irq_cpu0_1"
    by code_simp
  have name: "irq_cpu_name example_irq_cpu0_1 = ''CPU0''"
    by (simp add: example_irq_cpu0_1_def)
  show ?thesis
    by (simp add: CpuSoftIrqMonitor_UpdateOnce_def softirq_loop_def records elem_at_def
        softirq_column_def example_clock_1_def parse name)
qed

text \<open>
  C7. On a source whose header row is as the kernel prints it (every CPU name followed by
  at least one blank), when the sampler gets through the source, it builds for every CPU
  column a sample with that CPU's name and the ten counters of that CPU's column in the
  rows 1 to 10, and no column is skipped; with distinct names the history holds that
  sample afterwards.
\<close>

theorem softirq_column_coverage:
  "CpuSoftIrqMonitor_UpdateOnce clock (padded_header lead cols @ newline # rest) (h, mi) = Inr (h', mi')
     \<and> (\<forall>(name, pad)\<in>set cols. name \<noteq> [] \<and> (\<forall>c\<in>set name. \<not> is_space c))
     \<and> i < length cols
   \<longrightarrow> (\<exists>info. softirq_parse (clock i) (read_all (padded_header lead cols @ newline # rest)) i = Inr info
        \<and> irq_cpu_name info = fst (cols ! i)
        \<and> softirq_cell (read_all (padded_header lead cols @ newline # rest)) 1 (i + 1) = Inr (irq_hi info)
        \<and> softirq_cell (read_all (padded_header lead cols @ newline # rest)) 2 (i + 1) = Inr (irq_timer info)
        \<and> softirq_cell (read_all (padded_header lead cols @ newline # rest)) 3 (i + 1) = Inr (irq_net_tx info)
        \<and> softirq_cell (read_all (padded_header lead cols @ newline # rest)) 4 (i + 1) = Inr (irq_net_rx info)
        \<and> softirq_cell (read_all (padded_header lead cols @ newline # rest)) 5 (i + 1) = Inr (irq_block info)
        \<and> softirq_cell (read_all (padded_header lead cols @ newline # rest)) 6 (i + 1) = Inr (irq_irq_poll info)
        \<and> softirq_cell (read_all (padded_header lead cols @ newline # rest)) 7 (i + 1) = Inr (irq_tasklet info)
        \<and> softirq_cell (read_all (padded_header lead cols @ newline # rest)) 8 (i + 1) = Inr (irq_sched info)
        \<and> softirq_cell (read_all (padded_header lead cols @ newline # rest)) 9 (i + 1) = Inr (irq_hrtimer info)
        \<and> softirq_cell (read_all (padded_header lead cols @ newline # rest)) 10 (i + 1) = Inr (irq_rcu info)
        \<and> (distinct (map fst cols) \<longrightarrow> h' (fst (cols ! i)) = Some info))"
proof
  let ?softirq = "read_all (padded_header lead cols @ newline # rest)"
  assume a: "CpuSoftIrqMonitor_UpdateOnce clock (padded_header lead cols @ newline # rest) (h, mi) = Inr (h', mi')
     \<and> (\<forall>(name, pad)\<in>set cols. name \<noteq> [] \<and> (\<forall>c\<in>set name. \<not> is_space c))
     \<and> i < length cols"
  then have run: "softirq_loop clock ?softirq (h, mi) = Inr (h', mi')"
    and wf: "\<forall>(name, pad)\<in>set cols. name \<noteq> [] \<and> (\<forall>c\<in>set name. \<not> is_space c)"
    and i: "i < length cols"
    by (simp_all add: CpuSoftIrqMonitor_UpdateOnce_def)
  from i obtain name pad where "(name, pad) \<in> set cols"
    by (cases cols) auto
  with wf have "name \<noteq> []" by auto
  with \<open>(name, pad) \<in> set cols\<close> have ne: "padded_header lead cols \<noteq> []"
    by (auto simp: padded_header_def)
  have "?softirq = split_words (padded_header lead cols) # read_all rest"
    using padded_header_no_newline [OF wf] ne by (rule read_all_first_line)
  then have header: "hd ?softirq = map fst cols @ [[]]"
    by (simp add: split_words_padded [OF wf])
  then have len: "length (hd ?softirq) - 1 = length cols"
    by simp
  have col: "hd ?softirq ! j = fst (cols ! j)" if "j < length cols" for j
    using that header by (simp add: nth_append)
  from i len have "i < length (hd ?softirq) - 1" by simp
  from softirq_covers [OF run this] obtain info
    where p: "softirq_parse (clock i) ?softirq i = Inr info"
      and u: "(\<forall>j<length (hd ?softirq) - 1. j \<noteq> i \<longrightarrow> hd ?softirq ! j \<noteq> hd ?softirq ! i)
         \<longrightarrow> h' (hd ?softirq ! i) = Some info"
    by (elim exE conjE) (rule that)
  have name: "irq_cpu_name info = fst (cols ! i)"
    using softirq_parse_Inr(3) [OF p] col [OF i] by simp
  have hist: "distinct (map fst cols) \<longrightarrow> h' (fst (cols ! i)) = Some info"
  proof
    assume d: "distinct (map fst cols)"
    have "hd ?softirq ! j \<noteq> hd ?softirq ! i" if "j < length cols" and "j \<noteq> i" for j
      using that d i col [OF i] col [OF that(1)] by (auto simp: distinct_conv_nth)
    then have "\<forall>j<length (hd ?softirq) - 1. j \<noteq> i \<longrightarrow> hd ?softirq ! j \<noteq> hd ?softirq ! i"
      by (simp only: len) blast
    with u col [OF i] show "h' (fst (cols ! i)) = Some info" by simp
  qed
  note c = softirq_parse_Inr(5-14) [OF p]
  show "\<exists>info. softirq_parse (clock i) ?softirq i = Inr info
        \<and> irq_cpu_name info = fst (cols ! i)
        \<and> softirq_cell ?softirq 1 (i + 1) = Inr (irq_hi info)
        \<and> softirq_cell ?softirq 2 (i + 1) = Inr (irq_timer info)
        \<and> softirq_cell ?softirq 3 (i + 1) = Inr (irq_net_tx info)
        \<and> softirq_cell ?softirq 4 (i + 1) = Inr (irq_net_rx info)
        \<and> softirq_cell ?softirq 5 (i + 1) = Inr (irq_block info)
        \<and> softirq_cell ?softirq 6 (i + 1) = Inr (irq_irq_poll info)
        \<and> softirq_cell ?softirq 7 (i + 1) = Inr (irq_tasklet info)
        \<and> softirq_cell ?softirq 8 (i + 1) = Inr (irq_sched info)
        \<and> softirq_cell ?softirq 9 (i + 1) = Inr (irq_hrtimer info)
        \<and> softirq_cell ?softirq 10 (i + 1) = Inr (irq_rcu info)
        \<and> (distinct (map fst cols) \<longrightarrow> h' (fst (cols ! i)) = Some info)"
    using p name c hist by (intro exI [of _ info] conjI)
qed

theorem softirq_column_coverage_witness:
  "example_softirqs_1
     = padded_header 6 [(''CPU0'', 1), (''CPU1'', 1)] @ newline #
       (''       HI:   100     3'' @ [newline]
        @ ''    TIMER:  5000  4000'' @ [newline]
        @ ''   NET_TX:    10     0'' @ [newline]
        @ ''   NET_RX:   700    20'' @ [newline]
        @ ''    BLOCK:     0     0'' @ [newline]
        @ '' IRQ_POLL:     0     0'' @ [newline]
        @ ''  TASKLET:    36     1'' @ [newline]
        @ ''    SCHED:  9000  8000'' @ [newline]
        @ ''  HRTIMER:     0     0'' @ [newline]
        @ ''      RCU:  4000  3500'' @ [newline])
   \<and> CpuSoftIrqMonitor_UpdateOnce example_clock_1 example_softirqs_1 (Map.empty, MonitorInfo_default)
     = Inr ([''CPU0'' \<mapsto> example_irq_cpu0_1, ''CPU1'' \<mapsto> example_irq_cpu1_1], MonitorInfo_default)
   \<and> softirq_parse (example_clock_1 1) (read_all example_softirqs_1) 1 = Inr example_irq_cpu1_1
   \<and> irq_cpu_name example_irq_cpu1_1 = fst ([(''CPU0'', 1 :: nat), (''CPU1'', 1)] ! 1)
   \<and> softirq_cell (read_all example_softirqs_1) 1 (1 + 1) = Inr (irq_hi example_irq_cpu1_1)
   \<and> softirq_cell (read_all example_softirqs_1) 10 (1 + 1) = Inr (irq_rcu example_irq_cpu1_1)"
proof -
  let ?rest = "''       HI:   100     3'' @ [newline]
        @ ''    TIMER:  5000  4000'' @ [newline]
        @ ''   NET_TX:    10     0'' @ [newline]
        @ ''   NET_RX:   700    20'' @ [newline]
        @ ''    BLOCK:     0     0'' @ [newline]
        @ '' IRQ_POLL:     0     0'' @ [newline]
        @ ''  TASKLET:    36     1'' @ [newline]
        @ ''    SCHED:  9000  8000'' @ [newline]
        @ ''  HRTIMER:     0     0'' @ [newline]
        @ ''      RCU:  4000  3500'' @ [newline]"
  have eq: "example_softirqs_1 = padded_header 6 [(''CPU0'', 1), (''CPU1'', 1)] @ newline # ?rest"
    by code_simp
  have run: "CpuSoftIrqMonitor_UpdateOnce example_clock_1 example_softirqs_1
      (Map.empty, MonitorInfo_default)
      = Inr ([''CPU0'' \<mapsto> example_irq_cpu0_1, ''CPU1'' \<mapsto> example_irq_cpu1_1], MonitorInfo_default)"
    by (simp add: CpuSoftIrqMonitor_UpdateOnce_def example_softirq_run_1)
  have wf: "\<forall>(name, pad)\<in>set [(''CPU0'', 1 :: nat), (''CPU1'', 1)].
      name \<noteq> [] \<and> (\<forall>c\<in>set name. \<not> is_space c)"
    by (simp add: is_space_def)
  have "CpuSoftIrqMonitor_UpdateOnce example_clock_1
        (padded_header 6 [(''CPU0'', 1), (''CPU1'', 1)] @ newline # ?rest)
        (Map.empty, MonitorInfo_default)
      = Inr ([''CPU0'' \<mapsto> example_irq_cpu0_1, ''CPU1'' \<mapsto> example_irq_cpu1_1], MonitorInfo_default)
    \<and> (\<forall>(name, pad)\<in>set [(''CPU0'', 1 :: nat), (''CPU1'', 1)].
          name \<noteq> [] \<and> (\<forall>c\<in>set name. \<not> is_space c))
    \<and> 1 < length [(''CPU0'', 1 :: nat), (''CPU1'', 1)]"
    using run wf unfolding eq by simp
  from softirq_column_coverage [THEN mp, OF this] obtain info
    where p: "softirq_parse (example_clock_1 1)
        (read_all (padded_header 6 [(''CPU0'', 1), (''CPU1'', 1)] @ newline # ?rest)) 1 = Inr info"
      and n: "irq_cpu_name info = fst ([(''CPU0'', 1 :: nat), (''CPU1'', 1)] ! 1)"
      and hi: "softirq_cell (read_all (padded_header 6 [(''CPU0'', 1), (''CPU1'', 1)] @ newline # ?rest))
          1 (1 + 1) = Inr (irq_hi info)"
      and rcu: "softirq_cell (read_all (padded_header 6 [(''CPU0'', 1), (''CPU1'', 1)] @ newline # ?rest))
          10 (1 + 1) = Inr (irq_rcu info)"
      and d: "distinct (map fst [(''CPU0'', 1 :: nat), (''CPU1'', 1)])
        \<longrightarrow> [''CPU0'' \<mapsto> example_irq_cpu0_1, ''CPU1'' \<mapsto> example_irq_cpu1_1]
              (fst ([(''CPU0'', 1 :: nat), (''CPU1'', 1)] ! 1)) = Some info"
    by (elim exE conjE) (rule that)
  from d have "info = example_irq_cpu1_1" by simp
  with p n hi rcu eq run show ?thesis
    by (simp only: simp_thms)
qed


section \<open>The claim about failures\<close>

text \<open>
  C6, as stated: a parse failure in one sampler leaves the other domains in the tick's
  snapshot, and no failure ends the collection loop. With a token that is not a number in
  the network source the exception of \<open>std::stoll\<close> leaves the network sampler and the
  tick: no snapshot is sent, although the load sampler had filled in its domain, and the
  loop does not reach the next tick.
\<close>

theorem parse_failure_counterexample:
  "NetMonitor_UpdateOnce example_clock_1 example_net_dev_bad (Map.empty, MonitorInfo_default)
     = Inl InvalidArgument
   \<and> CpuLoadMonitor_UpdateOnce stof_integer example_loadavg MonitorInfo_default
     = Inr (MonitorInfo_default\<lparr>mi_cpu_load :=
         Some \<lparr>pload_avg_1 = 1, pload_avg_3 = 2, pload_avg_15 = 3\<rparr>\<rparr>)
   \<and> tick stof_integer None example_start example_tick_bad = Inl InvalidArgument
   \<and> collection_loop stof_integer None example_start [example_tick_bad, example_tick_1]
     = ([], Terminated InvalidArgument)"
  by (simp add: NetMonitor_UpdateOnce_def example_net_run_bad example_load_run example_tick_fails
      thrown_def)

text \<open>
  C6, amended to the exceptions: a tick ends with an exception \<open>e\<close>
  (\<open>std::invalid_argument\<close> or \<open>std::out_of_range\<close>) exactly when one of its samplers
  throws \<open>e\<close> after the samplers before it have got through; no snapshot is sent for
  that tick and the collection loop ends with it. A tick whose five samplers all get
  through sends its snapshot, which then holds the load and the memory domain, and the
  loop goes on.
\<close>

theorem failure_ends_collection:
  "(thrown e \<longrightarrow>
      (tick stof user runners inp = Inl e \<longleftrightarrow>
      (CpuSoftIrqMonitor_UpdateOnce (softirq_clock inp) (src_softirqs inp)
             (cpu_softirqs runners, (MonitorInfo_default\<lparr>mi_name := (case user of Some name \<Rightarrow> name | None \<Rightarrow> ''unknown_host'')\<rparr>)) = Inl e
        \<or> (\<exists>irqs m1. CpuSoftIrqMonitor_UpdateOnce (softirq_clock inp) (src_softirqs inp)
             (cpu_softirqs runners, (MonitorInfo_default\<lparr>mi_name := (case user of Some name \<Rightarrow> name | None \<Rightarrow> ''unknown_host'')\<rparr>)) = Inr (irqs, m1)
           \<and> (CpuLoadMonitor_UpdateOnce stof (src_loadavg inp) m1 = Inl e
            \<or> (\<exists>m2. CpuLoadMonitor_UpdateOnce stof (src_loadavg inp) m1 = Inr m2
               \<and> (CpuStatMonitor_UpdateOnce stof (src_stat inp) (cpu_stat_map runners, m2) = Inl e
                \<or> (\<exists>stats m3. CpuStatMonitor_UpdateOnce stof (src_stat inp) (cpu_stat_map runners, m2) = Inr (stats, m3)
                   \<and> (MemMonitor_UpdateOnce (mem_uninit inp) (src_meminfo inp) m3 = Inl e
                    \<or> (\<exists>m4. MemMonitor_UpdateOnce (mem_uninit inp) (src_meminfo inp) m3 = Inr m4
                       \<and> NetMonitor_UpdateOnce (net_clock inp) (src_net_dev inp) (net_infos runners, m4) = Inl e)))))))))
      \<and> (tick stof user runners inp = Inl e
         \<longrightarrow> collection_loop stof user runners (inp # inps) = ([], Terminated e)))
   \<and> (tick stof user runners inp = Inr (runners', monitor_info)
      \<longrightarrow> mi_cpu_load monitor_info \<noteq> None \<and> mi_mem_info monitor_info \<noteq> None
        \<and> collection_loop stof user runners (inp # inps)
          = (monitor_info # fst (collection_loop stof user runners' inps),
             snd (collection_loop stof user runners' inps)))"
proof (intro conjI impI)
  show "tick stof user runners inp = Inl e \<longleftrightarrow>
      (CpuSoftIrqMonitor_UpdateOnce (softirq_clock inp) (src_softirqs inp)
             (cpu_softirqs runners, (MonitorInfo_default\<lparr>mi_name := (case user of Some name \<Rightarrow> name | None \<Rightarrow> ''unknown_host'')\<rparr>)) = Inl e
        \<or> (\<exists>irqs m1. CpuSoftIrqMonitor_UpdateOnce (softirq_clock inp) (src_softirqs inp)
             (cpu_softirqs runners, (MonitorInfo_default\<lparr>mi_name := (case user of Some name \<Rightarrow> name | None \<Rightarrow> ''unknown_host'')\<rparr>)) = Inr (irqs, m1)
           \<and> (CpuLoadMonitor_UpdateOnce stof (src_loadavg inp) m1 = Inl e
            \<or> (\<exists>m2. CpuLoadMonitor_UpdateOnce stof (src_loadavg inp) m1 = Inr m2
               \<and> (CpuStatMonitor_UpdateOnce stof (src_stat inp) (cpu_stat_map runners, m2) = Inl e
                \<or> (\<exists>stats m3. CpuStatMonitor_UpdateOnce stof (src_stat inp) (cpu_stat_map runners, m2) = Inr (stats, m3)
                   \<and> (MemMonitor_UpdateOnce (mem_uninit inp) (src_meminfo inp) m3 = Inl e
                    \<or> (\<exists>m4. MemMonitor_UpdateOnce (mem_uninit inp) (src_meminfo inp) m3 = Inr m4
                       \<and> NetMonitor_UpdateOnce (net_clock inp) (src_net_dev inp) (net_infos runners, m4) = Inl e))))))))"
    by (rule tick_Inl)
next
  assume "thrown e" and "tick stof user runners inp = Inl e"
  then show "collection_loop stof user runners (inp # inps) = ([], Terminated e)"
    by simp
next
  assume "tick stof user runners inp = Inr (runners', monitor_info)"
  then show "mi_cpu_load monitor_info \<noteq> None" and "mi_mem_info monitor_info \<noteq> None"
    using tick_domains by blast+
next
  assume "tick stof user runners inp = Inr (runners', monitor_info)"
  then show "collection_loop stof user runners (inp # inps)
          = (monitor_info # fst (collection_loop stof user runners' inps),
             snd (collection_loop stof user runners' inps))"
    by (simp split: prod.splits)
qed

theorem failure_ends_collection_witness:
  "thrown InvalidArgument
   \<and> tick stof_integer None example_start example_tick_bad = Inl InvalidArgument
   \<and> collection_loop stof_integer None example_start [example_tick_bad, example_tick_1]
     = ([], Terminated InvalidArgument)
   \<and> tick stof_integer None example_start example_tick_1
     = Inr (\<lparr>cpu_softirqs = [''CPU0'' \<mapsto> example_irq_cpu0_1, ''CPU1'' \<mapsto> example_irq_cpu1_1],
               cpu_stat_map = [''cpu0'' \<mapsto> example_stat_cpu0_1],
               net_infos = [''eth0'' \<mapsto> example_net_1]\<rparr>,
            \<lparr>mi_name = ''unknown_host'',
               mi_cpu_load = Some \<lparr>pload_avg_1 = 1, pload_avg_3 = 2, pload_avg_15 = 3\<rparr>,
               mi_cpu_stat = [], mi_soft_irq = [], mi_mem_info = Some example_mem_message,
               mi_net_info = []\<rparr>)
   \<and> mi_cpu_load \<lparr>mi_name = ''unknown_host'',
               mi_cpu_load = Some \<lparr>pload_avg_1 = 1, pload_avg_3 = 2, pload_avg_15 = 3\<rparr>,
               mi_cpu_stat = [], mi_soft_irq = [], mi_mem_info = Some example_mem_message,
               mi_net_info = []\<rparr> \<noteq> None
   \<and> mi_mem_info \<lparr>mi_name = ''unknown_host'',
               mi_cpu_load = Some \<lparr>pload_avg_1 = 1, pload_avg_3 = 2, pload_avg_15 = 3\<rparr>,
               mi_cpu_stat = [], mi_soft_irq = [], mi_mem_info = Some example_mem_message,
               mi_net_info = []\<rparr> \<noteq> None
   \<and> collection_loop stof_integer None example_start [example_tick_1]
     = ([ \<lparr>mi_name = ''unknown_host'',
               mi_cpu_load = Some \<lparr>pload_avg_1 = 1, pload_avg_3 = 2, pload_avg_15 = 3\<rparr>,
               mi_cpu_stat = [], mi_soft_irq = [], mi_mem_info = Some example_mem_message,
               mi_net_info = []\<rparr>],
        Running \<lparr>cpu_softirqs = [''CPU0'' \<mapsto> example_irq_cpu0_1, ''CPU1'' \<mapsto> example_irq_cpu1_1],
               cpu_stat_map = [''cpu0'' \<mapsto> example_stat_cpu0_1],
               net_infos = [''eth0'' \<mapsto> example_net_1]\<rparr>)"
proof -
  let ?snap = "\<lparr>mi_name = ''unknown_host'',
               mi_cpu_load = Some \<lparr>pload_avg_1 = 1, pload_avg_3 = 2, pload_avg_15 = 3\<rparr>,
               mi_cpu_stat = [], mi_soft_irq = [], mi_mem_info = Some example_mem_message,
               mi_net_info = []\<rparr>"
  let ?run1 = "\<lparr>cpu_softirqs = [''CPU0'' \<mapsto> example_irq_cpu0_1, ''CPU1'' \<mapsto> example_irq_cpu1_1],
               cpu_stat_map = [''cpu0'' \<mapsto> example_stat_cpu0_1],
               net_infos = [''eth0'' \<mapsto> example_net_1]\<rparr>"
  note bad = failure_ends_collection
    [where stof = stof_integer and user = None and runners = example_start
       and inp = example_tick_bad and e = InvalidArgument and inps = "[example_tick_1]"]
  note good = failure_ends_collection
    [where stof = stof_integer and user = None and runners = example_start
       and inp = example_tick_1 and runners' = ?run1 and monitor_info = ?snap and inps = "[]"]
  have thr: "thrown InvalidArgument"
    by (simp add: thrown_def)
  from bad [THEN conjunct1, THEN mp, OF thr, THEN conjunct2, THEN mp, OF example_tick_fails]
  have stop: "collection_loop stof_integer None example_start [example_tick_bad, example_tick_1]
     = ([], Terminated InvalidArgument)" .
  from good [THEN conjunct2, THEN mp, OF example_tick_good]
  have "mi_cpu_load ?snap \<noteq> None" and "mi_mem_info ?snap \<noteq> None"
    and "collection_loop stof_integer None example_start [example_tick_1]
      = ([?snap], Running ?run1)"
    by simp_all
  with thr example_tick_fails stop example_tick_good show ?thesis
    by (intro conjI)
qed

end
